theory Spec2Isabelle
  imports Main "HOL-Library.Word"
begin

unbundle bit_operations_syntax

section \<open>The WebSocket transport of the JerryScript debugger\<close>

text \<open>
  The development embeds the socket transport of the debugger server: the core-side
  implementation (\<^verbatim>\<open>src/unnamed/part_002\<close>, which works on the engine context and
  includes \<^verbatim>\<open>debugger.h\<close>) and the port-side implementation
  (\<^verbatim>\<open>src/unnamed/part_001\<close>, which works on buffers handed in by its caller).
  Both files define functions of the same names; the definitions taken from
  \<^verbatim>\<open>part_001\<close> carry the suffix \<open>_p1\<close>.

  The operating system is an explicit environment: every \<^verbatim>\<open>recv\<close> and every
  \<^verbatim>\<open>send\<close> consumes one scripted system-call result, bytes handed to the kernel are
  appended to \<open>wire\<close>, and log lines are appended to \<open>port_log\<close>. A loop of the source
  that polls the socket is a recursion over the script; when the script ends before the
  loop has left, the result is \<open>Inl No_more_events\<close>. A failed \<^verbatim>\<open>JERRY_ASSERT\<close> is
  \<open>Inl Assertion_failed\<close>, an access outside an array is \<open>Inl Out_of_bounds\<close>.

  \<^verbatim>\<open>JERRY_ASSERT\<close> is a macro of the engine and defined outside the given sources. It
  stops the engine in a build with assertions and expands to nothing in a build with
  \<^verbatim>\<open>JERRY_NDEBUG\<close>. The definitions follow the build with assertions. The one place
  where an assertion is all that bounds a size, \<^verbatim>\<open>jerry_debugger_send_ws\<close>, is given in
  both builds.
\<close>

subsection \<open>Machine types\<close>

type_synonym u8 = "8 word"
type_synonym u16 = "16 word"
type_synonym u32 = "32 word"

subsection \<open>Constants of \<^verbatim>\<open>debugger.h\<close>\<close>

definition JERRY_DEBUGGER_VERSION :: u8 where
  "JERRY_DEBUGGER_VERSION = 2"

definition JERRY_DEBUGGER_MESSAGE_FREQUENCY :: u32 where
  "JERRY_DEBUGGER_MESSAGE_FREQUENCY = 5"

definition JERRY_DEBUGGER_MAX_BUFFER_SIZE :: nat where
  "JERRY_DEBUGGER_MAX_BUFFER_SIZE = 128"

text \<open>\<^verbatim>\<open>jerry_debugger_flags_t\<close>: one bit per flag.\<close>

definition JERRY_DEBUGGER_CONNECTED :: u32 where
  "JERRY_DEBUGGER_CONNECTED = push_bit 0 1"

definition JERRY_DEBUGGER_BREAKPOINT_MODE :: u32 where
  "JERRY_DEBUGGER_BREAKPOINT_MODE = push_bit 1 1"

definition JERRY_DEBUGGER_VM_STOP :: u32 where
  "JERRY_DEBUGGER_VM_STOP = push_bit 2 1"

definition JERRY_DEBUGGER_VM_IGNORE :: u32 where
  "JERRY_DEBUGGER_VM_IGNORE = push_bit 3 1"

definition JERRY_DEBUGGER_CLIENT_SOURCE_MODE :: u32 where
  "JERRY_DEBUGGER_CLIENT_SOURCE_MODE = push_bit 7 1"

text \<open>\<^verbatim>\<open>jerry_debugger_header_type_t\<close>: the one outgoing type the transport names.\<close>

definition JERRY_DEBUGGER_CONFIGURATION :: u8 where
  "JERRY_DEBUGGER_CONFIGURATION = 1"

subsection \<open>Constants of the transport (\<^verbatim>\<open>part_002\<close>, the same in \<^verbatim>\<open>part_001\<close>)\<close>

definition JERRY_DEBUGGER_WEBSOCKET_FIN_BIT :: u8 where
  "JERRY_DEBUGGER_WEBSOCKET_FIN_BIT = 0x80"

definition JERRY_DEBUGGER_WEBSOCKET_MASK_BIT :: u8 where
  "JERRY_DEBUGGER_WEBSOCKET_MASK_BIT = 0x80"

definition JERRY_DEBUGGER_WEBSOCKET_OPCODE_MASK :: u8 where
  "JERRY_DEBUGGER_WEBSOCKET_OPCODE_MASK = 0x0f"

definition JERRY_DEBUGGER_WEBSOCKET_LENGTH_MASK :: u8 where
  "JERRY_DEBUGGER_WEBSOCKET_LENGTH_MASK = 0x7f"

definition JERRY_DEBUGGER_WEBSOCKET_HEADER_SIZE :: nat where
  "JERRY_DEBUGGER_WEBSOCKET_HEADER_SIZE = 2"

definition JERRY_DEBUGGER_WEBSOCKET_MASK_SIZE :: nat where
  "JERRY_DEBUGGER_WEBSOCKET_MASK_SIZE = 4"

definition JERRY_DEBUGGER_RECEIVE_DATA_MODE :: u32 where
  "JERRY_DEBUGGER_RECEIVE_DATA_MODE =
     JERRY_DEBUGGER_BREAKPOINT_MODE OR JERRY_DEBUGGER_CLIENT_SOURCE_MODE"

text \<open>\<^verbatim>\<open>jerry_websocket_opcode_type_t\<close>.\<close>

definition JERRY_DEBUGGER_WEBSOCKET_TEXT_FRAME :: u8 where
  "JERRY_DEBUGGER_WEBSOCKET_TEXT_FRAME = 1"

definition JERRY_DEBUGGER_WEBSOCKET_BINARY_FRAME :: u8 where
  "JERRY_DEBUGGER_WEBSOCKET_BINARY_FRAME = 2"

definition JERRY_DEBUGGER_WEBSOCKET_CLOSE_CONNECTION :: u8 where
  "JERRY_DEBUGGER_WEBSOCKET_CLOSE_CONNECTION = 8"

definition JERRY_DEBUGGER_WEBSOCKET_PING :: u8 where
  "JERRY_DEBUGGER_WEBSOCKET_PING = 9"

definition JERRY_DEBUGGER_WEBSOCKET_PONG :: u8 where
  "JERRY_DEBUGGER_WEBSOCKET_PONG = 10"

text \<open>
  \<^verbatim>\<open>sizeof (jerry_debugger_receive_header_t)\<close>: three members of type \<^verbatim>\<open>uint8_t\<close>, the
  opcode, the size and the four mask bytes.
\<close>

definition sizeof_receive_header :: nat where
  "sizeof_receive_header = 6"

subsection \<open>Environment and state\<close>

datatype errno_t = EWOULDBLOCK | ECONNRESET | EPIPE | EADDRINUSE | EBADF

datatype recv_result = Recv_error errno_t | Recv_bytes "u8 list"

datatype send_result = Send_error errno_t | Send_bytes nat

datatype log_level = JERRY_LOG_LEVEL_ERROR | JERRY_LOG_LEVEL_DEBUG

text \<open>A log line: a fixed text, or \<^verbatim>\<open>"Error: %s\n"\<close> applied to \<^verbatim>\<open>strerror (errno)\<close>.\<close>

datatype log_message = Text string | Strerror errno_t

datatype error = Assertion_failed | Out_of_bounds | No_more_events

record state =
  debugger_flags :: u32
  debugger_send_buffer :: "u8 list"
  debugger_send_buffer_payload_p :: nat
  debugger_max_send_size :: u8
  debugger_max_receive_size :: u8
  debugger_receive_buffer :: "u8 list"
  debugger_receive_buffer_offset :: u16
  debugger_message_delay :: u32
  debugger_stop_context :: "nat option"
  debugger_byte_code_free_queue :: "nat list"
  fd :: int
  errno :: errno_t
  send_script :: "send_result list"
  wire :: "u8 list"
  port_log :: "(log_level \<times> log_message) list"
  closed_fds :: "int list"
  released_byte_code :: "nat list"

definition jerry_port_log :: "log_level \<Rightarrow> log_message \<Rightarrow> state \<Rightarrow> state" where
  "jerry_port_log level msg s = s\<lparr>port_log := port_log s @ [(level, msg)]\<rparr>"

text \<open>\<^verbatim>\<open>close (fd)\<close>: the descriptor is recorded as closed.\<close>

definition close_fd :: "int \<Rightarrow> state \<Rightarrow> state" where
  "close_fd d s = s\<lparr>closed_fds := closed_fds s @ [d]\<rparr>"

text \<open>\<^verbatim>\<open>JERRY_DEBUGGER_SET_FLAGS\<close>.\<close>

definition JERRY_DEBUGGER_SET_FLAGS :: "u32 \<Rightarrow> state \<Rightarrow> state" where
  "JERRY_DEBUGGER_SET_FLAGS flags s = s\<lparr>debugger_flags := debugger_flags s OR flags\<rparr>"

text \<open>
  Modelled from the spec: \<^verbatim>\<open>jerry_debugger_free_unreferenced_byte_code\<close> is declared in
  \<^verbatim>\<open>debugger.h\<close> and defined outside the given sources. The specification says that
  on teardown the deferred-free queue is flushed: every queued byte-code unit is
  released and the queue is left empty.
\<close>

definition jerry_debugger_free_unreferenced_byte_code :: "state \<Rightarrow> state" where
  "jerry_debugger_free_unreferenced_byte_code s =
     s\<lparr>released_byte_code := released_byte_code s @ debugger_byte_code_free_queue s,
       debugger_byte_code_free_queue := []\<rparr>"

subsection \<open>Closing and sending (\<^verbatim>\<open>part_002\<close>)\<close>

definition jerry_debugger_close_connection_tcp :: "bool \<Rightarrow> state \<Rightarrow> error + state" where
  "jerry_debugger_close_connection_tcp log_error s =
     (if debugger_flags s AND JERRY_DEBUGGER_CONNECTED = 0 then Inl Assertion_failed
      else
        let s1 = s\<lparr>debugger_flags := JERRY_DEBUGGER_VM_IGNORE\<rparr>;
            s2 = (if log_error
                  then jerry_port_log JERRY_LOG_LEVEL_ERROR (Strerror (errno s1)) s1
                  else s1);
            s3 = jerry_port_log JERRY_LOG_LEVEL_DEBUG
                   (Text ''Debugger client connection closed.\<newline>'') s2;
            s4 = close_fd (fd s3) s3;
            s5 = s4\<lparr>fd := - 1\<rparr>
        in Inr (jerry_debugger_free_unreferenced_byte_code s5))"

text \<open>
  The \<^verbatim>\<open>do ... while (data_size > 0)\<close> loop of \<^verbatim>\<open>jerry_debugger_send_tcp\<close>. Each call of
  \<^verbatim>\<open>send\<close> takes the next scripted result: an error with its \<^verbatim>\<open>errno\<close>, or the number
  of bytes the kernel takes, which is never more than what was offered. A
  \<^verbatim>\<open>continue\<close> in a \<^verbatim>\<open>do ... while\<close> jumps to the test of the loop.
\<close>

fun send_tcp_loop :: "send_result list \<Rightarrow> u8 list \<Rightarrow> state \<Rightarrow> error + bool \<times> state" where
  "send_tcp_loop [] data s = Inl No_more_events"
| "send_tcp_loop (Send_error e # evs) data s =
     (if e = EWOULDBLOCK then
        (if 0 < length data then send_tcp_loop evs data (s\<lparr>errno := e\<rparr>)
         else Inr (True, s\<lparr>errno := e, send_script := evs\<rparr>))
      else
        (case jerry_debugger_close_connection_tcp True (s\<lparr>errno := e, send_script := evs\<rparr>) of
           Inl err \<Rightarrow> Inl err
         | Inr s' \<Rightarrow> Inr (False, s')))"
| "send_tcp_loop (Send_bytes k # evs) data s =
     (let sent_bytes = min k (length data);
          s' = s\<lparr>wire := wire s @ take sent_bytes data\<rparr>;
          data' = drop sent_bytes data
      in if 0 < length data' then send_tcp_loop evs data' s'
         else Inr (True, s'\<lparr>send_script := evs\<rparr>))"

definition jerry_debugger_send_tcp :: "u8 list \<Rightarrow> state \<Rightarrow> error + bool \<times> state" where
  "jerry_debugger_send_tcp data s =
     (if debugger_flags s AND JERRY_DEBUGGER_CONNECTED = 0 then Inl Assertion_failed
      else send_tcp_loop (send_script s) data s)"

text \<open>
  The sizes \<^verbatim>\<open>jerry_debugger_accept_connection_ws\<close> computes before it opens the socket
  (lines 356 to 373 of \<^verbatim>\<open>part_002\<close>), for a buffer of \<open>B\<close> bytes. Both are held in a
  \<^verbatim>\<open>uint8_t\<close>.
\<close>

definition ws_max_send_size :: "nat \<Rightarrow> u8" where
  "ws_max_send_size B =
     (let max_send_size = (of_nat (B - JERRY_DEBUGGER_WEBSOCKET_HEADER_SIZE) :: u8)
      in if max_send_size > 125 then 125 else max_send_size)"

definition ws_max_receive_size :: "nat \<Rightarrow> u8" where
  "ws_max_receive_size B =
     (let receive_header_size =
            (of_nat (JERRY_DEBUGGER_WEBSOCKET_HEADER_SIZE + JERRY_DEBUGGER_WEBSOCKET_MASK_SIZE) :: u8);
          max_receive_size = (of_nat (B - unat receive_header_size) :: u8)
      in if max_receive_size > 125 then 125 else max_receive_size)"

definition accept_set_sizes :: "state \<Rightarrow> state" where
  "accept_set_sizes s =
     s\<lparr>debugger_send_buffer_payload_p := JERRY_DEBUGGER_WEBSOCKET_HEADER_SIZE,
       debugger_max_send_size := ws_max_send_size JERRY_DEBUGGER_MAX_BUFFER_SIZE,
       debugger_max_receive_size := ws_max_receive_size JERRY_DEBUGGER_MAX_BUFFER_SIZE\<rparr>"

text \<open>
  \<^verbatim>\<open>jerry_debugger_send_ws\<close>: the header is written in front of the payload, which the
  caller has put into the send buffer, and header and payload go to the TCP layer in one
  call. The send buffer is an array of \<^verbatim>\<open>JERRY_DEBUGGER_MAX_BUFFER_SIZE\<close> bytes.
\<close>

definition jerry_debugger_send_ws :: "nat \<Rightarrow> state \<Rightarrow> error + bool \<times> state" where
  "jerry_debugger_send_ws data_size s =
     (if \<not> data_size \<le> unat (debugger_max_send_size s) then Inl Assertion_failed
      else if length (debugger_send_buffer s) < data_size + JERRY_DEBUGGER_WEBSOCKET_HEADER_SIZE
      then Inl Out_of_bounds
      else
        let header_p = (debugger_send_buffer s)
              [0 := JERRY_DEBUGGER_WEBSOCKET_FIN_BIT OR JERRY_DEBUGGER_WEBSOCKET_BINARY_FRAME,
               1 := of_nat data_size];
            s1 = s\<lparr>debugger_send_buffer := header_p\<rparr>
        in jerry_debugger_send_tcp
             (take (data_size + JERRY_DEBUGGER_WEBSOCKET_HEADER_SIZE) header_p) s1)"

text \<open>
  \<^verbatim>\<open>jerry_debugger_send_ws\<close> in a build with \<^verbatim>\<open>JERRY_NDEBUG\<close>, where
  \<^verbatim>\<open>JERRY_ASSERT\<close> expands to nothing: the same statements without the comparison of
  \<open>data_size\<close> with \<^verbatim>\<open>debugger_max_send_size\<close>. The assertion of
  \<^verbatim>\<open>jerry_debugger_send_tcp\<close>, that the session is connected, is kept; the theorems
  on this definition are about connected sessions.
\<close>

definition jerry_debugger_send_ws_ndebug :: "nat \<Rightarrow> state \<Rightarrow> error + bool \<times> state" where
  "jerry_debugger_send_ws_ndebug data_size s =
     (if length (debugger_send_buffer s) < data_size + JERRY_DEBUGGER_WEBSOCKET_HEADER_SIZE
      then Inl Out_of_bounds
      else
        let header_p = (debugger_send_buffer s)
              [0 := JERRY_DEBUGGER_WEBSOCKET_FIN_BIT OR JERRY_DEBUGGER_WEBSOCKET_BINARY_FRAME,
               1 := of_nat data_size];
            s1 = s\<lparr>debugger_send_buffer := header_p\<rparr>
        in jerry_debugger_send_tcp
             (take (data_size + JERRY_DEBUGGER_WEBSOCKET_HEADER_SIZE) header_p) s1)"

subsection \<open>Receiving (\<^verbatim>\<open>part_002\<close>)\<close>

text \<open>
  \<^verbatim>\<open>recv (fd, buf + offset, len, 0)\<close>: the next scripted result. On an error the call
  returns \<open>-1\<close> and sets \<^verbatim>\<open>errno\<close>; otherwise the kernel writes at most \<open>len\<close> bytes
  at \<open>buf + offset\<close> and returns their number.
\<close>

definition sys_recv :: "recv_result \<Rightarrow> u8 list \<Rightarrow> nat \<Rightarrow> nat \<Rightarrow> state \<Rightarrow> int \<times> u8 list \<times> state" where
  "sys_recv ev buf offset len s =
     (case ev of
        Recv_error e \<Rightarrow> (- 1, buf, s\<lparr>errno := e\<rparr>)
      | Recv_bytes bs \<Rightarrow>
          let data = take len bs
          in (int (length data), take offset buf @ data @ drop (offset + length data) buf, s))"

text \<open>\<^verbatim>\<open>memmove (buf + dst, buf + src, n)\<close> inside one array.\<close>

definition memmove :: "u8 list \<Rightarrow> nat \<Rightarrow> nat \<Rightarrow> nat \<Rightarrow> u8 list" where
  "memmove buf dst src n = take dst buf @ take n (drop src buf) @ drop (dst + n) buf"

text \<open>
  The loop that unmasks the payload in place (lines 596 to 613): \<open>data_p\<close> walks over the
  payload, \<open>mask_p\<close> cycles through the four mask bytes that end at \<open>mask_end_p\<close>.
\<close>

function unmask_loop :: "u8 list \<Rightarrow> nat \<Rightarrow> nat \<Rightarrow> nat \<Rightarrow> nat \<Rightarrow> u8 list" where
  "unmask_loop buf data_p mask_p mask_end_p data_end_p =
     (if data_p < data_end_p then
        let buf' = buf[data_p := buf ! data_p XOR buf ! mask_p];
            data_p' = data_p + 1;
            mask_p' = mask_p + 1
        in unmask_loop buf' data_p'
             (if mask_p' \<ge> mask_end_p then mask_p' - JERRY_DEBUGGER_WEBSOCKET_MASK_SIZE else mask_p')
             mask_end_p data_end_p
      else buf)"
  by pat_completeness auto
termination
  by (relation "measure (\<lambda>(buf, data_p, mask_p, mask_end_p, data_end_p). data_end_p - data_p)") auto

declare unmask_loop.simps [simp del]

text \<open>
  One pass through the body of the \<^verbatim>\<open>while (true)\<close> loop of
  \<^verbatim>\<open>jerry_debugger_receive_ws\<close> up to the call of the message handler, in two steps.

  \<open>receive_recv\<close> is the call of \<^verbatim>\<open>recv\<close> (lines 535 to 554). It returns \<open>None\<close> when
  the connection has been closed, and the local \<open>offset\<close> otherwise. The length handed
  to \<^verbatim>\<open>recv\<close> is computed in \<^verbatim>\<open>uint32_t\<close>; with an offset above the buffer size it
  would wrap around and \<^verbatim>\<open>recv\<close> could write behind the buffer.

  \<open>check_frame\<close> is the check of the header and the unmasking (lines 556 to 613):
  \<^item> \<open>Closed\<close>: the connection has been closed and the function returns \<^verbatim>\<open>true\<close>;
  \<^item> \<open>No_message\<close>: the buffer holds no complete message yet (the two places where the
    source tests \<^verbatim>\<open>expected_message_type\<close>);
  \<^item> \<open>Message offset message_size message_total_size\<close>: a message is complete and its
    payload is unmasked in the receive buffer.
\<close>

datatype frame_result =
    Closed state
  | No_message state
  | Message nat nat nat state

definition close_as_frame_result :: "bool \<Rightarrow> state \<Rightarrow> error + frame_result" where
  "close_as_frame_result log_error s =
     (case jerry_debugger_close_connection_tcp log_error s of
        Inl err \<Rightarrow> Inl err
      | Inr s' \<Rightarrow> Inr (Closed s'))"

definition receive_recv :: "recv_result \<Rightarrow> state \<Rightarrow> error + nat option \<times> state" where
  "receive_recv ev s =
     (let offset = unat (debugger_receive_buffer_offset s)
      in if JERRY_DEBUGGER_MAX_BUFFER_SIZE < offset then Inl Out_of_bounds
         else
           let (byte_recv, recv_buffer_p, s1) =
                 sys_recv ev (debugger_receive_buffer s) offset
                   (JERRY_DEBUGGER_MAX_BUFFER_SIZE - offset) s;
               s2 = s1\<lparr>debugger_receive_buffer := recv_buffer_p\<rparr>
           in if byte_recv < 0 \<and> errno s2 \<noteq> EWOULDBLOCK then
                (case jerry_debugger_close_connection_tcp True s2 of
                   Inl err \<Rightarrow> Inl err
                 | Inr s' \<Rightarrow> Inr (None, s'))
              else
                let byte_recv = (if byte_recv < 0 then 0 else byte_recv);
                    offset = offset + nat byte_recv
                in Inr (Some offset, s2\<lparr>debugger_receive_buffer_offset := of_nat offset\<rparr>))"

definition check_frame :: "nat \<Rightarrow> state \<Rightarrow> error + frame_result" where
  "check_frame offset s =
     (let recv_buffer_p = debugger_receive_buffer s
      in if offset < sizeof_receive_header then Inr (No_message s)
         else if (recv_buffer_p ! 0 AND NOT JERRY_DEBUGGER_WEBSOCKET_OPCODE_MASK)
                   \<noteq> JERRY_DEBUGGER_WEBSOCKET_FIN_BIT
                 \<or> (recv_buffer_p ! 1 AND JERRY_DEBUGGER_WEBSOCKET_LENGTH_MASK)
                     > debugger_max_receive_size s
                 \<or> (recv_buffer_p ! 1 AND JERRY_DEBUGGER_WEBSOCKET_MASK_BIT) = 0
         then close_as_frame_result False
                (jerry_port_log JERRY_LOG_LEVEL_ERROR
                   (Text ''Unsupported Websocket message.\<newline>'') s)
         else if (recv_buffer_p ! 0 AND JERRY_DEBUGGER_WEBSOCKET_OPCODE_MASK)
                   \<noteq> JERRY_DEBUGGER_WEBSOCKET_BINARY_FRAME
         then close_as_frame_result False
                (jerry_port_log JERRY_LOG_LEVEL_ERROR
                   (Text ''Unsupported Websocket opcode.\<newline>'') s)
         else
           let message_size = unat (recv_buffer_p ! 1 AND JERRY_DEBUGGER_WEBSOCKET_LENGTH_MASK);
               message_total_size = message_size + sizeof_receive_header
           in if offset < message_total_size then Inr (No_message s)
              else
                let data_p = sizeof_receive_header;
                    mask_p = data_p - JERRY_DEBUGGER_WEBSOCKET_MASK_SIZE;
                    mask_end_p = data_p;
                    data_end_p = data_p + message_size
                in Inr (Message offset message_size message_total_size
                         (s\<lparr>debugger_receive_buffer :=
                               unmask_loop recv_buffer_p data_p mask_p mask_end_p data_end_p\<rparr>)))"

definition receive_frame :: "recv_result \<Rightarrow> state \<Rightarrow> error + frame_result" where
  "receive_frame ev s =
     (case receive_recv ev s of
        Inl err \<Rightarrow> Inl err
      | Inr (None, s') \<Rightarrow> Inr (Closed s')
      | Inr (Some offset, s') \<Rightarrow> check_frame offset s')"

text \<open>
  The locals of \<^verbatim>\<open>jerry_debugger_receive_ws\<close> that the message handler may change through
  the pointers it is given: \<open>resume_exec\<close>, \<open>expected_message_type\<close>, and \<open>message_data\<close>, what
  the parameter \<^verbatim>\<open>message_data_p\<close> points to (\<open>None\<close> is the null pointer).

  \<^verbatim>\<open>jerry_debugger_process_message\<close> is declared in \<^verbatim>\<open>debugger.h\<close> and defined outside
  the given sources. It is a parameter \<open>pm\<close> here: it is given the size of the message,
  whose bytes start behind the header in the receive buffer, the locals and the state, and
  returns its result, the locals and the state.
\<close>

record 'd receive_locals =
  resume_exec :: bool
  expected_message_type :: u8
  message_data :: "'d option"

type_synonym 'd process_message =
  "nat \<Rightarrow> 'd receive_locals \<Rightarrow> state \<Rightarrow> error + bool \<times> 'd receive_locals \<times> state"

datatype 'd iteration = Continue "'d receive_locals" state | Return bool "'d option" state

text \<open>
  The end of the body of the loop (lines 615 to 633): the message handler is called
  on the unmasked message; when it returns \<^verbatim>\<open>true\<close>, what lies behind the message is
  moved to the start of the buffer and the loop goes on.
\<close>

definition dispatch_message ::
  "'d process_message \<Rightarrow> nat \<Rightarrow> nat \<Rightarrow> nat \<Rightarrow> 'd receive_locals \<Rightarrow> state \<Rightarrow> error + 'd iteration" where
  "dispatch_message pm offset message_size message_total_size l s =
     (case pm message_size l s of
        Inl err \<Rightarrow> Inl err
      | Inr (ok, l', s') \<Rightarrow>
          if \<not> ok then Inr (Return True (message_data l') s')
          else
            let recv_buffer_p = debugger_receive_buffer s';
                recv_buffer_p' =
                  (if message_total_size < offset
                   then memmove recv_buffer_p 0 message_total_size (offset - message_total_size)
                   else recv_buffer_p)
            in Inr (Continue l'
                 (s'\<lparr>debugger_receive_buffer := recv_buffer_p',
                      debugger_receive_buffer_offset := of_nat (offset - message_total_size)\<rparr>)))"

text \<open>The whole body of the loop (lines 535 to 633) for one result of \<^verbatim>\<open>recv\<close>.\<close>

definition receive_iteration ::
  "'d process_message \<Rightarrow> recv_result \<Rightarrow> 'd receive_locals \<Rightarrow> state \<Rightarrow> error + 'd iteration" where
  "receive_iteration pm ev l s =
     (case receive_frame ev s of
        Inl err \<Rightarrow> Inl err
      | Inr (Closed s') \<Rightarrow> Inr (Return True (message_data l) s')
      | Inr (No_message s') \<Rightarrow>
          if expected_message_type l \<noteq> 0 then Inr (Continue l s')
          else Inr (Return (resume_exec l) (message_data l) s')
      | Inr (Message offset message_size message_total_size s') \<Rightarrow>
          dispatch_message pm offset message_size message_total_size l s')"

fun receive_loop ::
  "'d process_message \<Rightarrow> recv_result list \<Rightarrow> 'd receive_locals \<Rightarrow> state
     \<Rightarrow> error + bool \<times> 'd option \<times> state \<times> recv_result list" where
  "receive_loop pm [] l s = Inl No_more_events"
| "receive_loop pm (ev # evs) l s =
     (case receive_iteration pm ev l s of
        Inl err \<Rightarrow> Inl err
      | Inr (Return b d s') \<Rightarrow> Inr (b, d, s', evs)
      | Inr (Continue l' s') \<Rightarrow> receive_loop pm evs l' s')"

text \<open>
  \<^verbatim>\<open>jerry_debugger_receive_ws\<close>: the result, what \<^verbatim>\<open>message_data_p\<close> points to on return,
  the state, and the results of \<^verbatim>\<open>recv\<close> that have not been consumed.
\<close>

definition jerry_debugger_receive_ws ::
  "'d process_message \<Rightarrow> recv_result list \<Rightarrow> 'd option \<Rightarrow> state
     \<Rightarrow> error + bool \<times> 'd option \<times> state \<times> recv_result list" where
  "jerry_debugger_receive_ws pm evs message_data_p s =
     (if debugger_flags s AND JERRY_DEBUGGER_CONNECTED = 0 then Inl Assertion_failed
      else if \<not> debugger_max_receive_size s \<le> 125 then Inl Assertion_failed
      else if \<not> (case message_data_p of
                   Some d \<Rightarrow> debugger_flags s AND JERRY_DEBUGGER_RECEIVE_DATA_MODE \<noteq> 0
                 | None \<Rightarrow> debugger_flags s AND JERRY_DEBUGGER_RECEIVE_DATA_MODE = 0)
      then Inl Assertion_failed
      else
        receive_loop pm evs
          \<lparr>resume_exec = False, expected_message_type = 0, message_data = message_data_p\<rparr>
          (s\<lparr>debugger_message_delay := JERRY_DEBUGGER_MESSAGE_FREQUENCY\<rparr>))"

text \<open>
  The number of calls of \<^verbatim>\<open>recv\<close> a returned call of \<^verbatim>\<open>jerry_debugger_receive_ws\<close> has
  made: the number of scripted results it has consumed.
\<close>

definition recv_calls ::
  "recv_result list \<Rightarrow> error + bool \<times> 'd option \<times> state \<times> recv_result list \<Rightarrow> nat option" where
  "recv_calls evs r =
     (case r of
        Inl err \<Rightarrow> None
      | Inr (b, d, s', rest) \<Rightarrow> Some (length evs - length rest))"

subsection \<open>Receiving (\<^verbatim>\<open>part_001\<close>)\<close>

text \<open>
  \<^verbatim>\<open>jerry_debugger_receive_ws\<close> of \<^verbatim>\<open>part_001\<close> makes one call of \<^verbatim>\<open>recv\<close> into the buffer
  of its caller and returns; \<open>data_size\<close> and \<open>data_offset\<close> are in-out parameters. The
  result holds the returned value, the buffer, \<^verbatim>\<open>*data_size\<close>, \<^verbatim>\<open>*data_offset\<close> and the
  state. As for \<^verbatim>\<open>part_002\<close>, the function is written in two steps: \<open>check_frame_p1\<close> is
  what follows the call of \<^verbatim>\<open>recv\<close> (lines 515 to 566), with the local \<open>offset\<close>.
\<close>

definition check_frame_p1 :: "u8 list \<Rightarrow> nat \<Rightarrow> nat \<Rightarrow> state \<Rightarrow> bool \<times> u8 list \<times> nat \<times> state" where
  "check_frame_p1 recv_buffer_p data_size offset s =
     (if offset < sizeof_receive_header then (True, recv_buffer_p, data_size, s)
      else
        let receive_header_size =
              (of_nat (JERRY_DEBUGGER_WEBSOCKET_HEADER_SIZE
                        + JERRY_DEBUGGER_WEBSOCKET_MASK_SIZE) :: u8);
            max_receive_size =
              (of_nat (JERRY_DEBUGGER_MAX_BUFFER_SIZE - unat receive_header_size) :: u8)
        in if (recv_buffer_p ! 0 AND NOT JERRY_DEBUGGER_WEBSOCKET_OPCODE_MASK)
                  \<noteq> JERRY_DEBUGGER_WEBSOCKET_FIN_BIT
                \<or> (recv_buffer_p ! 1 AND JERRY_DEBUGGER_WEBSOCKET_LENGTH_MASK) > max_receive_size
                \<or> (recv_buffer_p ! 1 AND JERRY_DEBUGGER_WEBSOCKET_MASK_BIT) = 0
           then (False, recv_buffer_p, data_size,
                 jerry_port_log JERRY_LOG_LEVEL_ERROR
                   (Text ''Unsupported Websocket message.\<newline>'') s)
           else if (recv_buffer_p ! 0 AND JERRY_DEBUGGER_WEBSOCKET_OPCODE_MASK)
                     \<noteq> JERRY_DEBUGGER_WEBSOCKET_BINARY_FRAME
           then (False, recv_buffer_p, data_size,
                 jerry_port_log JERRY_LOG_LEVEL_ERROR
                   (Text ''Unsupported Websocket opcode.\<newline>'') s)
           else
             let message_size =
                   unat (recv_buffer_p ! 1 AND JERRY_DEBUGGER_WEBSOCKET_LENGTH_MASK);
                 message_total_size = message_size + sizeof_receive_header
             in if offset < message_total_size then (True, recv_buffer_p, data_size, s)
                else
                  let data_p = sizeof_receive_header;
                      mask_p = data_p - JERRY_DEBUGGER_WEBSOCKET_MASK_SIZE;
                      mask_end_p = data_p;
                      data_end_p = data_p + message_size
                  in (True, unmask_loop recv_buffer_p data_p mask_p mask_end_p data_end_p,
                      message_size, s))"

definition jerry_debugger_receive_ws_p1 ::
  "recv_result \<Rightarrow> u8 list \<Rightarrow> nat \<Rightarrow> u32 \<Rightarrow> state \<Rightarrow> error + bool \<times> u8 list \<times> nat \<times> u32 \<times> state" where
  "jerry_debugger_receive_ws_p1 ev message_data_p data_size data_offset s =
     (let offset = unat data_offset
      in if JERRY_DEBUGGER_MAX_BUFFER_SIZE < offset then Inl Out_of_bounds
         else
           let (byte_recv, recv_buffer_p, s1) =
                 sys_recv ev message_data_p offset (JERRY_DEBUGGER_MAX_BUFFER_SIZE - offset) s
           in if byte_recv < 0 \<and> errno s1 \<noteq> EWOULDBLOCK
              then Inr (False, recv_buffer_p, data_size, data_offset, s1)
              else
                let byte_recv = (if byte_recv < 0 then 0 else byte_recv);
                    offset = offset + nat byte_recv;
                    (ok, recv_buffer_p', data_size', s2) =
                      check_frame_p1 recv_buffer_p data_size offset s1
                in Inr (ok, recv_buffer_p', data_size', of_nat offset, s2))"

subsection \<open>Sending (\<^verbatim>\<open>part_001\<close>)\<close>

text \<open>
  \<^verbatim>\<open>jerry_debugger_send_tcp\<close> of \<^verbatim>\<open>part_001\<close> has the loop of \<^verbatim>\<open>part_002\<close>
  without the assertion and without the closing of the connection: on an error other
  than \<^verbatim>\<open>EWOULDBLOCK\<close> it returns \<^verbatim>\<open>false\<close>.

  \<^verbatim>\<open>jerry_debugger_send_ws\<close> of \<^verbatim>\<open>part_001\<close> is given the buffer of its caller, which
  holds the payload behind two bytes left free for the header, and the size of the
  payload. It has no assertion. The result holds the returned value, the buffer and the
  state.
\<close>

fun send_tcp_loop_p1 :: "send_result list \<Rightarrow> u8 list \<Rightarrow> state \<Rightarrow> error + bool \<times> state" where
  "send_tcp_loop_p1 [] data s = Inl No_more_events"
| "send_tcp_loop_p1 (Send_error e # evs) data s =
     (if e = EWOULDBLOCK then
        (if 0 < length data then send_tcp_loop_p1 evs data (s\<lparr>errno := e\<rparr>)
         else Inr (True, s\<lparr>errno := e, send_script := evs\<rparr>))
      else Inr (False, s\<lparr>errno := e, send_script := evs\<rparr>))"
| "send_tcp_loop_p1 (Send_bytes k # evs) data s =
     (let sent_bytes = min k (length data);
          s' = s\<lparr>wire := wire s @ take sent_bytes data\<rparr>;
          data' = drop sent_bytes data
      in if 0 < length data' then send_tcp_loop_p1 evs data' s'
         else Inr (True, s'\<lparr>send_script := evs\<rparr>))"

definition jerry_debugger_send_tcp_p1 :: "u8 list \<Rightarrow> state \<Rightarrow> error + bool \<times> state" where
  "jerry_debugger_send_tcp_p1 data s = send_tcp_loop_p1 (send_script s) data s"

definition jerry_debugger_send_ws_p1 ::
  "u8 list \<Rightarrow> nat \<Rightarrow> state \<Rightarrow> error + bool \<times> u8 list \<times> state" where
  "jerry_debugger_send_ws_p1 message_data_p data_size s =
     (if length message_data_p < data_size + JERRY_DEBUGGER_WEBSOCKET_HEADER_SIZE
      then Inl Out_of_bounds
      else
        let header_p = message_data_p
              [0 := JERRY_DEBUGGER_WEBSOCKET_FIN_BIT OR JERRY_DEBUGGER_WEBSOCKET_BINARY_FRAME,
               1 := of_nat data_size]
        in case jerry_debugger_send_tcp_p1
                  (take (data_size + JERRY_DEBUGGER_WEBSOCKET_HEADER_SIZE) header_p) s of
             Inl err \<Rightarrow> Inl err
           | Inr (ok, s') \<Rightarrow> Inr (ok, header_p, s'))"

subsection \<open>The handshake (\<^verbatim>\<open>part_002\<close>)\<close>

text \<open>The bytes of a C string literal, without the terminating zero.\<close>

definition bytes_of_string :: "string \<Rightarrow> u8 list" where
  "bytes_of_string str = map (\<lambda>c. of_nat (of_char c)) str"

definition jerry_to_base64_character :: "u8 \<Rightarrow> u8" where
  "jerry_to_base64_character v =
     (if v < 26 then v + of_nat (of_char CHR ''A'')
      else if v < 52 then v - 26 + of_nat (of_char CHR ''a'')
      else if v < 62 then v - 52 + of_nat (of_char CHR ''0'')
      else if v = 62 then of_nat (of_char CHR ''+'')
      else of_nat (of_char CHR ''/''))"

text \<open>
  \<^verbatim>\<open>jerry_to_base64\<close>: the source is the list of \<open>length\<close> bytes at \<open>source_p\<close>, the result
  is what the loop writes at \<open>destination_p\<close>. Shifts work on operands promoted to
  \<^verbatim>\<open>int\<close>; the result is cut to a \<^verbatim>\<open>uint8_t\<close>.
\<close>

fun jerry_to_base64 :: "u8 list \<Rightarrow> u8 list" where
  "jerry_to_base64 (s0 # s1 # s2 # source_p) =
     [jerry_to_base64_character (ucast (drop_bit 2 (ucast s0 :: u32))),
      jerry_to_base64_character
        (ucast ((push_bit 4 (ucast s0 :: u32) OR drop_bit 4 (ucast s1 :: u32)) AND 0x3f)),
      jerry_to_base64_character
        (ucast ((push_bit 2 (ucast s1 :: u32) OR drop_bit 6 (ucast s2 :: u32)) AND 0x3f)),
      jerry_to_base64_character (ucast ((ucast s2 :: u32) AND 0x3f))]
     @ jerry_to_base64 source_p"
| "jerry_to_base64 source_p = []"

text \<open>
  Modelled from the spec: \<^verbatim>\<open>jerry_debugger_compute_sha1\<close> is declared in
  \<^verbatim>\<open>part_001\<close> and defined outside the given sources. The specification names it the
  SHA-1 primitive: it writes the 20 bytes of the SHA-1 digest of the first input followed
  by the second input. SHA-1 is the function of FIPS 180: the message is padded with a
  one bit, zero bits and its length in bits as a 64-bit number to a multiple of 64 bytes;
  each block of sixteen big-endian words is expanded to eighty words and run through
  eighty rounds on five chaining words.
\<close>

definition rotl32 :: "nat \<Rightarrow> u32 \<Rightarrow> u32" where
  "rotl32 n x = push_bit n x OR drop_bit (32 - n) x"

definition sha1_f :: "nat \<Rightarrow> u32 \<Rightarrow> u32 \<Rightarrow> u32 \<Rightarrow> u32" where
  "sha1_f t b c d =
     (if t < 20 then (b AND c) OR (NOT b AND d)
      else if t < 40 then b XOR c XOR d
      else if t < 60 then (b AND c) OR (b AND d) OR (c AND d)
      else b XOR c XOR d)"

definition sha1_k :: "nat \<Rightarrow> u32" where
  "sha1_k t =
     (if t < 20 then 0x5A827999 else if t < 40 then 0x6ED9EBA1
      else if t < 60 then 0x8F1BBCDC else 0xCA62C1D6)"

fun be32 :: "u8 list \<Rightarrow> u32 list" where
  "be32 (a # b # c # d # rest) =
     (push_bit 24 (ucast a) OR push_bit 16 (ucast b) OR push_bit 8 (ucast c) OR ucast d)
     # be32 rest"
| "be32 rest = []"

definition bytes_of_word :: "u32 \<Rightarrow> u8 list" where
  "bytes_of_word w =
     [ucast (drop_bit 24 w), ucast (drop_bit 16 w), ucast (drop_bit 8 w), ucast w]"

definition sha1_pad :: "u8 list \<Rightarrow> u8 list" where
  "sha1_pad msg =
     msg @ [0x80] @ replicate ((119 - length msg mod 64) mod 64) 0
       @ bytes_of_word (ucast (drop_bit 32 (of_nat (8 * length msg) :: 64 word)))
       @ bytes_of_word (ucast (of_nat (8 * length msg) :: 64 word))"

text \<open>The expansion of a block; \<open>rw\<close> holds the words so far, the newest first.\<close>

function sha1_schedule :: "nat \<Rightarrow> u32 list \<Rightarrow> u32 list" where
  "sha1_schedule t rw =
     (if t < 80
      then sha1_schedule (t + 1) (rotl32 1 (rw ! 2 XOR rw ! 7 XOR rw ! 13 XOR rw ! 15) # rw)
      else rev rw)"
  by pat_completeness auto
termination
  by (relation "measure (\<lambda>(t, rw). 80 - t)") auto

declare sha1_schedule.simps [simp del]

type_synonym sha1_state = "u32 \<times> u32 \<times> u32 \<times> u32 \<times> u32"

fun sha1_round :: "nat \<Rightarrow> u32 \<Rightarrow> sha1_state \<Rightarrow> sha1_state" where
  "sha1_round t w (a, b, c, d, e) =
     (rotl32 5 a + sha1_f t b c d + e + sha1_k t + w, a, rotl32 30 b, c, d)"

fun sha1_rounds :: "nat \<Rightarrow> u32 list \<Rightarrow> sha1_state \<Rightarrow> sha1_state" where
  "sha1_rounds t [] v = v"
| "sha1_rounds t (w # ws) v = sha1_rounds (t + 1) ws (sha1_round t w v)"

fun sha1_add :: "sha1_state \<Rightarrow> sha1_state \<Rightarrow> sha1_state" where
  "sha1_add (a, b, c, d, e) (a', b', c', d', e') = (a + a', b + b', c + c', d + d', e + e')"

definition sha1_block :: "u32 list \<Rightarrow> sha1_state \<Rightarrow> sha1_state" where
  "sha1_block ws h = sha1_add h (sha1_rounds 0 (sha1_schedule 16 (rev ws)) h)"

function sha1_blocks :: "u32 list \<Rightarrow> sha1_state \<Rightarrow> sha1_state" where
  "sha1_blocks ws h =
     (if ws = [] then h else sha1_blocks (drop 16 ws) (sha1_block (take 16 ws) h))"
  by pat_completeness auto
termination
  by (relation "measure (\<lambda>(ws, h). length ws)") auto

declare sha1_blocks.simps [simp del]

fun sha1_output :: "sha1_state \<Rightarrow> u8 list" where
  "sha1_output (a, b, c, d, e) =
     bytes_of_word a @ bytes_of_word b @ bytes_of_word c @ bytes_of_word d @ bytes_of_word e"

definition sha1 :: "u8 list \<Rightarrow> u8 list" where
  "sha1 msg =
     sha1_output (sha1_blocks (be32 (sha1_pad msg))
       (0x67452301, 0xEFCDAB89, 0x98BADCFE, 0x10325476, 0xC3D2E1F0))"

definition jerry_debugger_compute_sha1 :: "u8 list \<Rightarrow> u8 list \<Rightarrow> u8 list" where
  "jerry_debugger_compute_sha1 input1 input2 = sha1 (input1 @ input2)"

text \<open>
  The request buffer of \<^verbatim>\<open>jerry_process_handshake\<close> is the list \<open>request\<close> of the bytes
  between \<open>request_buffer_p\<close> and \<open>request_end_p\<close>; after every \<^verbatim>\<open>recv\<close> the source
  writes a zero at \<open>request_end_p\<close>. \<open>c_at\<close> reads a byte of this zero-terminated text.
  The source never reads behind the terminating zero.
\<close>

definition c_at :: "u8 list \<Rightarrow> nat \<Rightarrow> u8" where
  "c_at request i = (if i < length request then request ! i else 0)"

text \<open>
  The loop that buffers the request until it ends in two line ends (lines 226 to 252).
  The result is \<open>None\<close> where the source returns \<^verbatim>\<open>false\<close>.
\<close>

fun handshake_read ::
  "recv_result list \<Rightarrow> u8 list \<Rightarrow> state \<Rightarrow> error + u8 list option \<times> state \<times> recv_result list" where
  "handshake_read [] request s =
     (if 1024 - 1 - length request = 0
      then Inr (None,
             jerry_port_log JERRY_LOG_LEVEL_ERROR (Text ''Handshake buffer too small.\<newline>'') s, [])
      else Inl No_more_events)"
| "handshake_read (ev # evs) request s =
     (let len = 1024 - 1 - length request
      in if len = 0
         then Inr (None,
                jerry_port_log JERRY_LOG_LEVEL_ERROR (Text ''Handshake buffer too small.\<newline>'') s,
                ev # evs)
         else
           let (size, request', s1) = sys_recv ev request (length request) len s
           in if size < 0
              then Inr (None, jerry_port_log JERRY_LOG_LEVEL_ERROR (Strerror (errno s1)) s1, evs)
              else if length request' > 4
                      \<and> drop (length request' - 4) request'
                          = bytes_of_string [CHR 0x0D, CHR 0x0A, CHR 0x0D, CHR 0x0A]
              then Inr (Some request', s1, evs)
              else handshake_read evs request' s1)"

text \<open>The search for the header name (lines 270 to 288).\<close>

function find_websocket_key :: "u8 list \<Rightarrow> nat \<Rightarrow> nat option" where
  "find_websocket_key request websocket_key_p =
     (let text_p = bytes_of_string ''Sec-WebSocket-Key:'';
          text_len = length text_p
      in if length request - websocket_key_p < text_len then None
         else if request ! websocket_key_p = of_nat (of_char CHR ''S'')
                 \<and> request ! (websocket_key_p - 1) = of_nat (of_char CHR 0x0A)
                 \<and> request ! (websocket_key_p - 2) = of_nat (of_char CHR 0x0D)
                 \<and> take text_len (drop websocket_key_p request) = text_p
         then Some (websocket_key_p + text_len)
         else find_websocket_key request (websocket_key_p + 1))"
  by pat_completeness auto
termination
  by (relation "measure (\<lambda>(request, websocket_key_p). length request - websocket_key_p)")
     (auto simp: bytes_of_string_def)

declare find_websocket_key.simps [simp del]

text \<open>The two loops that delimit the key (lines 292 to 302).\<close>

function skip_spaces :: "u8 list \<Rightarrow> nat \<Rightarrow> nat" where
  "skip_spaces request websocket_key_p =
     (if c_at request websocket_key_p = of_nat (of_char CHR '' '')
      then skip_spaces request (websocket_key_p + 1)
      else websocket_key_p)"
  by pat_completeness auto
termination
  by (relation "measure (\<lambda>(request, websocket_key_p). length request - websocket_key_p)")
     (auto simp: c_at_def split: if_splits)

declare skip_spaces.simps [simp del]

function skip_key :: "u8 list \<Rightarrow> nat \<Rightarrow> nat" where
  "skip_key request websocket_key_end_p =
     (if c_at request websocket_key_end_p > of_nat (of_char CHR '' '')
      then skip_key request (websocket_key_end_p + 1)
      else websocket_key_end_p)"
  by pat_completeness auto
termination
  by (relation "measure (\<lambda>(request, websocket_key_end_p). length request - websocket_key_end_p)")
     (auto simp: c_at_def split: if_splits)

declare skip_key.simps [simp del]

definition websocket_guid :: "u8 list" where
  "websocket_guid = bytes_of_string ''258EAFA5-E914-47DA-95CA-C5AB0DC85B11''"

definition handshake_response_text :: "u8 list" where
  "handshake_response_text =
     bytes_of_string (''HTTP/1.1 101 Switching Protocols'' @ [CHR 0x0D, CHR 0x0A]
       @ ''Upgrade: websocket'' @ [CHR 0x0D, CHR 0x0A]
       @ ''Connection: Upgrade'' @ [CHR 0x0D, CHR 0x0A]
       @ ''Sec-WebSocket-Accept: '')"

definition handshake_response_end :: "u8 list" where
  "handshake_response_end = bytes_of_string ([CHR ''=''] @ [CHR 0x0D, CHR 0x0A, CHR 0x0D, CHR 0x0A])"

text \<open>
  \<^verbatim>\<open>jerry_process_handshake\<close>. The digest is written to the first 20 bytes of the request
  buffer, a zero behind it, and the Base64 text behind that; the key lies behind byte 36
  of the buffer, so the digest does not overwrite it while it is read.
\<close>

definition jerry_process_handshake ::
  "recv_result list \<Rightarrow> state \<Rightarrow> error + bool \<times> state \<times> recv_result list" where
  "jerry_process_handshake evs s =
     (case handshake_read evs [] s of
        Inl err \<Rightarrow> Inl err
      | Inr (None, s1, evs') \<Rightarrow> Inr (False, s1, evs')
      | Inr (Some request, s1, evs') \<Rightarrow>
          let text_p = bytes_of_string ''GET /jerry-debugger'';
              text_len = length text_p
          in if length request < text_len \<or> take text_len request \<noteq> text_p
             then Inr (False,
                    jerry_port_log JERRY_LOG_LEVEL_ERROR (Text ''Invalid handshake format.\<newline>'') s1,
                    evs')
             else
               (case find_websocket_key request text_len of
                  None \<Rightarrow>
                    Inr (False,
                      jerry_port_log JERRY_LOG_LEVEL_ERROR
                        (Text ''Sec-WebSocket-Key not found.\<newline>'') s1,
                      evs')
                | Some p \<Rightarrow>
                    let websocket_key_p = skip_spaces request p;
                        websocket_key_end_p = skip_key request websocket_key_p;
                        sha1_length = 20;
                        digest = jerry_debugger_compute_sha1
                                   (take (websocket_key_end_p - websocket_key_p)
                                      (drop websocket_key_p request))
                                   websocket_guid;
                        base64 = jerry_to_base64 (take sha1_length digest @ [0])
                    in (case jerry_debugger_send_tcp handshake_response_text s1 of
                          Inl err \<Rightarrow> Inl err
                        | Inr (False, s2) \<Rightarrow> Inr (False, s2, evs')
                        | Inr (True, s2) \<Rightarrow>
                            (case jerry_debugger_send_tcp (take 27 base64) s2 of
                               Inl err \<Rightarrow> Inl err
                             | Inr (False, s3) \<Rightarrow> Inr (False, s3, evs')
                             | Inr (True, s3) \<Rightarrow>
                                 (case jerry_debugger_send_tcp handshake_response_end s3 of
                                    Inl err \<Rightarrow> Inl err
                                  | Inr (ok, s4) \<Rightarrow> Inr (ok, s4, evs'))))))"

subsection \<open>Accepting a client (\<^verbatim>\<open>part_002\<close>)\<close>

text \<open>
  What the build fixes: the size of a compressed pointer and the byte order of the
  machine.
\<close>

record host =
  sizeof_cpointer :: u8
  little_endian :: bool

text \<open>
  Modelled from the spec: \<^verbatim>\<open>jerry_debugger_send_configuration\<close> is declared in
  \<^verbatim>\<open>debugger.h\<close> and defined outside the given sources. The specification says that the
  configuration message has type 1 and carries the maximum incoming payload, the size of a
  compressed pointer, the endianness flag and the protocol version; the order of the
  fields is that of \<^verbatim>\<open>jerry_debugger_send_configuration_t\<close>. It is sent as one frame
  through the send function of the transport.
\<close>

definition jerry_debugger_send_configuration :: "host \<Rightarrow> u8 \<Rightarrow> state \<Rightarrow> error + bool \<times> state" where
  "jerry_debugger_send_configuration h max_message_size s =
     (let p = debugger_send_buffer_payload_p s;
          buf = (debugger_send_buffer s)
                  [p := JERRY_DEBUGGER_CONFIGURATION,
                   p + 1 := max_message_size,
                   p + 2 := sizeof_cpointer h,
                   p + 3 := (if little_endian h then 1 else 0),
                   p + 4 := JERRY_DEBUGGER_VERSION]
      in jerry_debugger_send_ws 5 (s\<lparr>debugger_send_buffer := buf\<rparr>))"

text \<open>
  The results of the system calls that set the socket up: each is the value the call
  returns; \<open>env_errno\<close> is what a failing call leaves in \<^verbatim>\<open>errno\<close>, \<open>peer_address\<close> is
  the text \<^verbatim>\<open>inet_ntoa\<close> gives for the client.
\<close>

record socket_env =
  socket_result :: int
  setsockopt_result :: int
  bind_result :: int
  listen_result :: int
  accept_result :: int
  fcntl_getfl_result :: int
  fcntl_setfl_result :: int
  env_errno :: errno_t
  peer_address :: string

definition log_errno :: "socket_env \<Rightarrow> state \<Rightarrow> state" where
  "log_errno env s =
     jerry_port_log JERRY_LOG_LEVEL_ERROR (Strerror (env_errno env)) (s\<lparr>errno := env_errno env\<rparr>)"

definition close_as_result ::
  "bool \<Rightarrow> state \<Rightarrow> recv_result list \<Rightarrow> error + bool \<times> state \<times> recv_result list" where
  "close_as_result log_error s evs =
     (case jerry_debugger_close_connection_tcp log_error s of
        Inl err \<Rightarrow> Inl err
      | Inr s' \<Rightarrow> Inr (False, s', evs))"

definition jerry_debugger_accept_connection_ws ::
  "host \<Rightarrow> socket_env \<Rightarrow> recv_result list \<Rightarrow> state \<Rightarrow> error + bool \<times> state \<times> recv_result list" where
  "jerry_debugger_accept_connection_ws h env evs s0 =
     (let s = accept_set_sizes s0;
          max_receive_size = ws_max_receive_size JERRY_DEBUGGER_MAX_BUFFER_SIZE;
          server_socket = socket_result env
      in if server_socket = - 1 then Inr (False, log_errno env s, evs)
         else if setsockopt_result env = - 1
         then Inr (False, log_errno env (close_fd server_socket s), evs)
         else if bind_result env = - 1
         then Inr (False, log_errno env (close_fd server_socket s), evs)
         else if listen_result env = - 1
         then Inr (False, log_errno env (close_fd server_socket s), evs)
         else
           let s = jerry_port_log JERRY_LOG_LEVEL_DEBUG
                     (Text ''Waiting for client connection\<newline>'') s;
               s = s\<lparr>fd := accept_result env\<rparr>
           in if fd s = - 1
              then Inr (False, log_errno env (close_fd server_socket s), evs)
              else
                let s = close_fd server_socket s;
                    s = JERRY_DEBUGGER_SET_FLAGS JERRY_DEBUGGER_CONNECTED s
                in (case jerry_process_handshake evs s of
                      Inl err \<Rightarrow> Inl err
                    | Inr (is_handshake_ok, s, evs') \<Rightarrow>
                        if \<not> is_handshake_ok then close_as_result False s evs'
                        else
                          (case jerry_debugger_send_configuration h max_receive_size s of
                             Inl err \<Rightarrow> Inl err
                           | Inr (ok, s) \<Rightarrow>
                               if \<not> ok then Inr (False, s, evs')
                               else
                                 let socket_flags = fcntl_getfl_result env
                                 in if socket_flags < 0
                                    then close_as_result True (s\<lparr>errno := env_errno env\<rparr>) evs'
                                    else if fcntl_setfl_result env = - 1
                                    then close_as_result True (s\<lparr>errno := env_errno env\<rparr>) evs'
                                    else
                                      let s = jerry_port_log JERRY_LOG_LEVEL_DEBUG
                                                (Text (''Connected from: '' @ peer_address env
                                                        @ ''\<newline>'')) s;
                                          s = JERRY_DEBUGGER_SET_FLAGS JERRY_DEBUGGER_VM_STOP s;
                                          s = s\<lparr>debugger_stop_context := None\<rparr>
                                      in Inr (True, s, evs'))))"

subsection \<open>Example states\<close>

text \<open>
  A connected session as \<^verbatim>\<open>jerry_debugger_accept_connection_ws\<close> configures it, with
  empty buffers: descriptor 4, no pending system-call results.
\<close>

definition connected_state :: state where
  "connected_state =
     \<lparr>debugger_flags = JERRY_DEBUGGER_CONNECTED,
      debugger_send_buffer = replicate 128 0,
      debugger_send_buffer_payload_p = 2,
      debugger_max_send_size = 125,
      debugger_max_receive_size = 122,
      debugger_receive_buffer = replicate 128 0,
      debugger_receive_buffer_offset = 0,
      debugger_message_delay = 0,
      debugger_stop_context = None,
      debugger_byte_code_free_queue = [],
      fd = 4,
      errno = EBADF,
      send_script = [],
      wire = [],
      port_log = [],
      closed_fds = [],
      released_byte_code = []\<rparr>"

text \<open>
  A buffer that holds one complete masked frame of nine bytes with the first byte \<open>b0\<close>:
  the size byte with the mask bit and a payload of three bytes, the mask, and the masked
  payload. Unmasked, the payload is the byte 6 followed by two zero bytes.
\<close>

definition example_frame :: "u8 \<Rightarrow> u8 list" where
  "example_frame b0 = [b0, 0x83, 0x10, 0x20, 0x30, 0x40, 0x16, 0x20, 0x30]"

definition frame_state :: "u8 \<Rightarrow> state" where
  "frame_state b0 =
     connected_state\<lparr>debugger_receive_buffer := example_frame b0 @ replicate 119 0,
                     debugger_receive_buffer_offset := 9\<rparr>"

text \<open>A message handler that accepts every message and changes nothing.\<close>

definition pm_continue :: "unit process_message" where
  "pm_continue message_size l s = Inr (True, l, s)"

definition initial_locals :: "unit receive_locals" where
  "initial_locals = \<lparr>resume_exec = False, expected_message_type = 0, message_data = None\<rparr>"

subsection \<open>Comparing the two implementations of receiving\<close>

text \<open>
  What the caller of \<^verbatim>\<open>jerry_debugger_receive_ws\<close> of \<^verbatim>\<open>part_001\<close> sees: the returned
  value, the buffer, \<^verbatim>\<open>*data_size\<close> and \<^verbatim>\<open>*data_offset\<close>. \<open>frame_view\<close> reads the same
  four from a pass of the loop of \<^verbatim>\<open>part_002\<close>, where \<open>data_size\<close> is the value
  \<^verbatim>\<open>*data_size\<close> has before the call.
\<close>

definition p1_view :: "bool \<times> u8 list \<times> nat \<times> u32 \<times> state \<Rightarrow> bool \<times> u8 list \<times> nat \<times> u32" where
  "p1_view r = (case r of (ok, buf, data_size, data_offset, s) \<Rightarrow> (ok, buf, data_size, data_offset))"

definition frame_view :: "nat \<Rightarrow> frame_result \<Rightarrow> bool \<times> u8 list \<times> nat \<times> u32" where
  "frame_view data_size r =
     (case r of
        Closed s \<Rightarrow>
          (False, debugger_receive_buffer s, data_size, ucast (debugger_receive_buffer_offset s))
      | No_message s \<Rightarrow>
          (True, debugger_receive_buffer s, data_size, ucast (debugger_receive_buffer_offset s))
      | Message offset message_size message_total_size s \<Rightarrow>
          (True, debugger_receive_buffer s, message_size,
           ucast (debugger_receive_buffer_offset s)))"

text \<open>
  The state after \<^verbatim>\<open>jerry_debugger_close_connection_tcp\<close> in a connected session, with
  the log lines \<open>lines\<close> written before the closing line.
\<close>

definition closed_state :: "(log_level \<times> log_message) list \<Rightarrow> state \<Rightarrow> state" where
  "closed_state lines s =
     s\<lparr>debugger_flags := JERRY_DEBUGGER_VM_IGNORE,
       port_log := port_log s @ lines
          @ [(JERRY_LOG_LEVEL_DEBUG, Text ''Debugger client connection closed.\<newline>'')],
       closed_fds := closed_fds s @ [fd s],
       fd := - 1,
       released_byte_code := released_byte_code s @ debugger_byte_code_free_queue s,
       debugger_byte_code_free_queue := []\<rparr>"

text \<open>
  What a teardown leaves of a session \<open>s\<close>: the flags are exactly
  \<^verbatim>\<open>JERRY_DEBUGGER_VM_IGNORE\<close>, the descriptor is closed and forgotten, and the queue
  of byte code waiting to be freed has been released.
\<close>

definition torn_down :: "state \<Rightarrow> state \<Rightarrow> bool" where
  "torn_down s s' =
     (debugger_flags s' = JERRY_DEBUGGER_VM_IGNORE
      \<and> fd s' = - 1
      \<and> closed_fds s' = closed_fds s @ [fd s]
      \<and> debugger_byte_code_free_queue s' = []
      \<and> released_byte_code s' = released_byte_code s @ debugger_byte_code_free_queue s)"

subsection \<open>Frames as the specification describes them\<close>

text \<open>
  The frame the specification describes for a payload of \<open>n\<close> bytes that lies behind the
  two header bytes of \<open>buf\<close>: the byte \<open>0x82\<close> for FIN and BINARY, the length, and the
  payload.
\<close>

definition egress_frame :: "nat \<Rightarrow> u8 list \<Rightarrow> u8 list" where
  "egress_frame n buf = [0x82, of_nat n] @ take n (drop 2 buf)"

text \<open>
  What a call that sends \<open>frame\<close> and returns \<open>ok\<close> has put on the wire: a prefix of the
  frame, and the whole frame exactly when \<open>ok\<close> is \<^verbatim>\<open>true\<close>.
\<close>

definition sent_prefix :: "u8 list \<Rightarrow> bool \<Rightarrow> state \<Rightarrow> state \<Rightarrow> bool" where
  "sent_prefix frame ok s s' =
     (\<exists>k. k \<le> length frame \<and> wire s' = wire s @ take k frame \<and> (ok \<longleftrightarrow> k = length frame))"

text \<open>
  The conditions under which the specification accepts the frame at the start of \<open>buf\<close>:
  the FIN bit without a reserved bit, the BINARY opcode, the mask bit, and a 7-bit length
  of at most the maximum. \<open>frame_size\<close> is that length.
\<close>

definition frame_accepted :: "u8 list \<Rightarrow> u8 \<Rightarrow> bool" where
  "frame_accepted buf max_receive_size =
     (buf ! 0 AND 0x80 \<noteq> 0 \<and> buf ! 0 AND 0x70 = 0
      \<and> buf ! 0 AND 0x0f = JERRY_DEBUGGER_WEBSOCKET_BINARY_FRAME
      \<and> buf ! 1 AND 0x80 \<noteq> 0
      \<and> buf ! 1 AND 0x7f \<le> max_receive_size)"

definition frame_size :: "u8 list \<Rightarrow> nat" where
  "frame_size buf = unat (buf ! 1 AND 0x7f)"

text \<open>
  The error line of the transports for a frame that is not accepted: the line of the
  opcode when the opcode alone is at fault, the line of the message otherwise.
\<close>

definition rejection :: "u8 list \<Rightarrow> u8 \<Rightarrow> string" where
  "rejection buf max_receive_size =
     (if buf ! 0 AND 0x80 \<noteq> 0 \<and> buf ! 0 AND 0x70 = 0 \<and> buf ! 1 AND 0x80 \<noteq> 0
         \<and> buf ! 1 AND 0x7f \<le> max_receive_size
      then ''Unsupported Websocket opcode.\<newline>''
      else ''Unsupported Websocket message.\<newline>'')"

text \<open>
  A message handler that accepts every message and leaves a line in the log, which shows
  whether it has been called.
\<close>

definition pm_record :: "unit process_message" where
  "pm_record message_size l s =
     Inr (True, l, jerry_port_log JERRY_LOG_LEVEL_DEBUG (Text ''message handled'') s)"

subsection \<open>Base64 as a reference\<close>

text \<open>
  The Base64 encoding the specification refers to, written from its definition for an
  input whose length is a multiple of three: every three bytes form a group of 24 bits,
  the first byte in the highest bits; the group is cut into four numbers of six bits, the
  highest first, and each number selects a character of the alphabet. Bytes behind the
  last full group are left out, as \<^verbatim>\<open>jerry_to_base64\<close> does.
\<close>

definition base64_alphabet :: "u8 list" where
  "base64_alphabet =
     bytes_of_string ''ABCDEFGHIJKLMNOPQRSTUVWXYZabcdefghijklmnopqrstuvwxyz0123456789+/''"

definition base64_group :: "u8 \<Rightarrow> u8 \<Rightarrow> u8 \<Rightarrow> u32" where
  "base64_group a b c = push_bit 16 (ucast a) OR push_bit 8 (ucast b) OR ucast c"

definition base64_digit :: "u32 \<Rightarrow> nat \<Rightarrow> u8" where
  "base64_digit g i = base64_alphabet ! unat (drop_bit (6 * (3 - i)) g AND 63)"

fun base64_reference :: "u8 list \<Rightarrow> u8 list" where
  "base64_reference (a # b # c # rest) =
     [base64_digit (base64_group a b c) 0, base64_digit (base64_group a b c) 1,
      base64_digit (base64_group a b c) 2, base64_digit (base64_group a b c) 3]
     @ base64_reference rest"
| "base64_reference rest = []"

subsection \<open>An example handshake\<close>

text \<open>
  A client that asks for the upgrade with the key of RFC 6455, in two segments, and a
  machine on which every system call succeeds.
\<close>

definition sample_key :: "u8 list" where
  "sample_key = bytes_of_string ''dGhlIHNhbXBsZSBub25jZQ==''"

definition sample_request_head :: "u8 list" where
  "sample_request_head =
     bytes_of_string (''GET /jerry-debugger HTTP/1.1'' @ [CHR 0x0D, CHR 0x0A]
       @ ''Upgrade: websocket'' @ [CHR 0x0D, CHR 0x0A])"

definition sample_request_tail :: "u8 list" where
  "sample_request_tail =
     bytes_of_string (''Sec-WebSocket-Key: dGhlIHNhbXBsZSBub25jZQ=='' @ [CHR 0x0D, CHR 0x0A]
       @ [CHR 0x0D, CHR 0x0A])"

definition sample_env :: socket_env where
  "sample_env =
     \<lparr>socket_result = 3, setsockopt_result = 0, bind_result = 0, listen_result = 0,
      accept_result = 4, fcntl_getfl_result = 2, fcntl_setfl_result = 0,
      env_errno = EBADF, peer_address = ''127.0.0.1''\<rparr>"

definition sample_host :: host where
  "sample_host = \<lparr>sizeof_cpointer = 2, little_endian = True\<rparr>"

text \<open>The session before a client is accepted: no flag set, no descriptor.\<close>

definition initial_state :: state where
  "initial_state =
     connected_state\<lparr>debugger_flags := 0, debugger_send_buffer_payload_p := 0,
                     debugger_max_send_size := 0, debugger_max_receive_size := 0,
                     fd := - 1,
                     send_script := [Send_bytes 1024, Send_bytes 1024, Send_bytes 1024,
                                     Send_bytes 1024]\<rparr>"

section \<open>Properties\<close>

lemmas ws_consts =
  JERRY_DEBUGGER_MAX_BUFFER_SIZE_def JERRY_DEBUGGER_WEBSOCKET_HEADER_SIZE_def
  JERRY_DEBUGGER_WEBSOCKET_MASK_SIZE_def sizeof_receive_header_def
  JERRY_DEBUGGER_WEBSOCKET_FIN_BIT_def JERRY_DEBUGGER_WEBSOCKET_MASK_BIT_def
  JERRY_DEBUGGER_WEBSOCKET_OPCODE_MASK_def JERRY_DEBUGGER_WEBSOCKET_LENGTH_MASK_def
  JERRY_DEBUGGER_WEBSOCKET_BINARY_FRAME_def

lemmas flag_consts =
  JERRY_DEBUGGER_CONNECTED_def JERRY_DEBUGGER_VM_STOP_def JERRY_DEBUGGER_VM_IGNORE_def
  JERRY_DEBUGGER_BREAKPOINT_MODE_def JERRY_DEBUGGER_CLIENT_SOURCE_MODE_def
  JERRY_DEBUGGER_RECEIVE_DATA_MODE_def

subsection \<open>The configured sizes\<close>

lemma ws_max_send_size_128: "ws_max_send_size JERRY_DEBUGGER_MAX_BUFFER_SIZE = 125"
  by (simp add: ws_max_send_size_def ws_consts)

lemma ws_max_receive_size_128: "ws_max_receive_size JERRY_DEBUGGER_MAX_BUFFER_SIZE = 122"
  by (simp add: ws_max_receive_size_def ws_consts)

lemma ws_max_send_size_general:
  assumes "64 \<le> B" "B \<le> 256"
  shows "unat (ws_max_send_size B) = min (B - JERRY_DEBUGGER_WEBSOCKET_HEADER_SIZE) 125"
proof -
  have lt: "B - 2 < 256" using assms by arith
  have u: "unat (of_nat (B - 2) :: u8) = B - 2"
    using lt by (simp add: unat_of_nat)
  show ?thesis
  proof (cases "B - 2 > 125")
    case True
    then have "(of_nat (B - 2) :: u8) > 125"
      using u by (simp add: word_less_nat_alt)
    then show ?thesis using True by (simp add: ws_max_send_size_def ws_consts)
  next
    case False
    then have "\<not> (of_nat (B - 2) :: u8) > 125"
      using u by (simp add: word_less_nat_alt)
    then show ?thesis using False u by (simp add: ws_max_send_size_def ws_consts)
  qed
qed

subsection \<open>Closing and sending\<close>

lemma close_connection_tcp_connected:
  assumes "debugger_flags s AND JERRY_DEBUGGER_CONNECTED \<noteq> 0"
  shows "jerry_debugger_close_connection_tcp log_error s =
     Inr (s\<lparr>debugger_flags := JERRY_DEBUGGER_VM_IGNORE,
            port_log := port_log s
               @ (if log_error then [(JERRY_LOG_LEVEL_ERROR, Strerror (errno s))] else [])
               @ [(JERRY_LOG_LEVEL_DEBUG, Text ''Debugger client connection closed.\<newline>'')],
            closed_fds := closed_fds s @ [fd s],
            fd := - 1,
            released_byte_code := released_byte_code s @ debugger_byte_code_free_queue s,
            debugger_byte_code_free_queue := []\<rparr>)"
  using assms
  by (simp add: jerry_debugger_close_connection_tcp_def jerry_port_log_def close_fd_def
      jerry_debugger_free_unreferenced_byte_code_def Let_def)

lemma send_tcp_loop_True:
  "send_tcp_loop evs data s = Inr (True, s') \<Longrightarrow>
     \<exists>e sc. s' = s\<lparr>errno := e, send_script := sc, wire := wire s @ data\<rparr>"
proof (induction evs arbitrary: data s)
  case Nil
  then show ?case by simp
next
  case (Cons ev evs)
  show ?case
  proof (cases ev)
    case (Send_error e)
    show ?thesis
    proof (cases "e = EWOULDBLOCK \<and> 0 < length data")
      case True
      with Cons.prems Send_error
      have "send_tcp_loop evs data (s\<lparr>errno := e\<rparr>) = Inr (True, s')" by simp
      from Cons.IH [OF this] show ?thesis by auto
    next
      case False
      with Cons.prems Send_error
      have "s' = s\<lparr>errno := e, send_script := evs, wire := wire s @ data\<rparr>"
        by (auto split: if_splits sum.splits)
      then show ?thesis by blast
    qed
  next
    case (Send_bytes k)
    show ?thesis
    proof (cases "k < length data")
      case True
      then have m: "min k (length data) = k" by simp
      from True Cons.prems Send_bytes
      have "send_tcp_loop evs (drop k data) (s\<lparr>wire := wire s @ take k data\<rparr>) = Inr (True, s')"
        by (simp add: Let_def m)
      from Cons.IH [OF this] show ?thesis by auto
    next
      case False
      then have m: "min k (length data) = length data" by simp
      from False Cons.prems Send_bytes
      have "s' = s\<lparr>errno := errno s, send_script := evs, wire := wire s @ data\<rparr>"
        by (auto simp: Let_def m)
      then show ?thesis by blast
    qed
  qed
qed

lemma send_tcp_loop_False:
  "send_tcp_loop evs data s = Inr (False, s') \<Longrightarrow>
     debugger_flags s' = JERRY_DEBUGGER_VM_IGNORE \<and> fd s' = - 1
     \<and> closed_fds s' = closed_fds s @ [fd s]
     \<and> debugger_byte_code_free_queue s' = []
     \<and> released_byte_code s' = released_byte_code s @ debugger_byte_code_free_queue s"
proof (induction evs arbitrary: data s)
  case Nil
  then show ?case by simp
next
  case (Cons ev evs)
  show ?case
  proof (cases ev)
    case (Send_error e)
    show ?thesis
    proof (cases "e = EWOULDBLOCK")
      case True
      with Cons.prems Send_error
      have "send_tcp_loop evs data (s\<lparr>errno := e\<rparr>) = Inr (False, s')"
        by (simp split: if_splits)
      from Cons.IH [OF this] show ?thesis by simp
    next
      case False
      with Cons.prems Send_error show ?thesis
        by (auto simp: jerry_debugger_close_connection_tcp_def jerry_port_log_def close_fd_def
            jerry_debugger_free_unreferenced_byte_code_def Let_def split: if_splits sum.splits)
    qed
  next
    case (Send_bytes k)
    with Cons.prems
    have "send_tcp_loop evs (drop (min k (length data)) data)
            (s\<lparr>wire := wire s @ take (min k (length data)) data\<rparr>) = Inr (False, s')"
      by (simp add: Let_def split: if_splits)
    from Cons.IH [OF this] show ?thesis by simp
  qed
qed

lemma send_tcp_loop_wire:
  "send_tcp_loop evs data s = Inr (ok, s') \<Longrightarrow> data \<noteq> [] \<Longrightarrow> sent_prefix data ok s s'"
proof (induction evs arbitrary: data s)
  case Nil
  then show ?case by simp
next
  case (Cons ev evs)
  show ?case
  proof (cases ev)
    case (Send_error e)
    show ?thesis
    proof (cases "e = EWOULDBLOCK")
      case True
      with Cons.prems Send_error
      have "send_tcp_loop evs data (s\<lparr>errno := e\<rparr>) = Inr (ok, s')" by simp
      from Cons.IH [OF this Cons.prems(2)] show ?thesis by (simp add: sent_prefix_def)
    next
      case False
      with Cons.prems Send_error have "ok = False \<and> wire s' = wire s"
        by (auto simp: jerry_debugger_close_connection_tcp_def jerry_port_log_def close_fd_def
            jerry_debugger_free_unreferenced_byte_code_def Let_def split: if_splits sum.splits)
      with Cons.prems(2) have "0 \<le> length data \<and> wire s' = wire s @ take 0 data
          \<and> (ok \<longleftrightarrow> 0 = length data)" by simp
      then show ?thesis unfolding sent_prefix_def by blast
    qed
  next
    case (Send_bytes k)
    define m where "m = min k (length data)"
    show ?thesis
    proof (cases "drop m data = []")
      case True
      then have m: "m = length data" by (simp add: m_def)
      then have kl: "length data \<le> k" by (simp add: m_def)
      with Cons.prems Send_bytes have "ok = True \<and> wire s' = wire s @ data"
        by (auto simp: Let_def)
      then have "length data \<le> length data \<and> wire s' = wire s @ take (length data) data
          \<and> (ok \<longleftrightarrow> length data = length data)" by simp
      then show ?thesis unfolding sent_prefix_def by blast
    next
      case False
      with Cons.prems Send_bytes
      have "send_tcp_loop evs (drop m data) (s\<lparr>wire := wire s @ take m data\<rparr>) = Inr (ok, s')"
        by (simp add: Let_def m_def)
      from Cons.IH [OF this False] obtain j where j: "j \<le> length (drop m data)"
        "wire s' = wire s @ take m data @ take j (drop m data)"
        "ok \<longleftrightarrow> j = length (drop m data)"
        by (auto simp: sent_prefix_def)
      have ml: "m \<le> length data" by (simp add: m_def)
      have t: "take (m + j) data = take m data @ take j (drop m data)"
        by (simp add: take_add)
      from j ml have "m + j \<le> length data \<and> wire s' = wire s @ take (m + j) data
          \<and> (ok \<longleftrightarrow> m + j = length data)" by (auto simp: t)
      then show ?thesis unfolding sent_prefix_def by blast
    qed
  qed
qed

lemma send_tcp_loop_p1_wire:
  "send_tcp_loop_p1 evs data s = Inr (ok, s') \<Longrightarrow> data \<noteq> [] \<Longrightarrow>
     sent_prefix data ok s s' \<and> debugger_flags s' = debugger_flags s \<and> fd s' = fd s
     \<and> closed_fds s' = closed_fds s \<and> port_log s' = port_log s"
proof (induction evs arbitrary: data s)
  case Nil
  then show ?case by simp
next
  case (Cons ev evs)
  show ?case
  proof (cases ev)
    case (Send_error e)
    show ?thesis
    proof (cases "e = EWOULDBLOCK")
      case True
      with Cons.prems Send_error
      have "send_tcp_loop_p1 evs data (s\<lparr>errno := e\<rparr>) = Inr (ok, s')" by simp
      from Cons.IH [OF this Cons.prems(2)] show ?thesis by (simp add: sent_prefix_def)
    next
      case False
      with Cons.prems Send_error have e: "ok = False \<and> s' = s\<lparr>errno := e, send_script := evs\<rparr>"
        by auto
      with Cons.prems(2) have "0 \<le> length data \<and> wire s' = wire s @ take 0 data
          \<and> (ok \<longleftrightarrow> 0 = length data)" by simp
      then have "sent_prefix data ok s s'" unfolding sent_prefix_def by blast
      with e show ?thesis by simp
    qed
  next
    case (Send_bytes k)
    define m where "m = min k (length data)"
    show ?thesis
    proof (cases "drop m data = []")
      case True
      then have m: "m = length data" by (simp add: m_def)
      then have kl: "length data \<le> k" by (simp add: m_def)
      with Cons.prems Send_bytes have e: "ok = True \<and> s' = s\<lparr>wire := wire s @ data, send_script := evs\<rparr>"
        by (auto simp: Let_def)
      then have "length data \<le> length data \<and> wire s' = wire s @ take (length data) data
          \<and> (ok \<longleftrightarrow> length data = length data)" by simp
      then have "sent_prefix data ok s s'" unfolding sent_prefix_def by blast
      with e show ?thesis by simp
    next
      case False
      with Cons.prems Send_bytes
      have "send_tcp_loop_p1 evs (drop m data) (s\<lparr>wire := wire s @ take m data\<rparr>) = Inr (ok, s')"
        by (simp add: Let_def m_def)
      from Cons.IH [OF this False] obtain j where j: "j \<le> length (drop m data)"
        "wire s' = wire s @ take m data @ take j (drop m data)"
        "ok \<longleftrightarrow> j = length (drop m data)"
        and rest: "debugger_flags s' = debugger_flags s \<and> fd s' = fd s
          \<and> closed_fds s' = closed_fds s \<and> port_log s' = port_log s"
        by (auto simp: sent_prefix_def)
      have ml: "m \<le> length data" by (simp add: m_def)
      have t: "take (m + j) data = take m data @ take j (drop m data)"
        by (simp add: take_add)
      from j ml have "m + j \<le> length data \<and> wire s' = wire s @ take (m + j) data
          \<and> (ok \<longleftrightarrow> m + j = length data)" by (auto simp: t)
      then have "sent_prefix data ok s s'" unfolding sent_prefix_def by blast
      with rest show ?thesis by simp
    qed
  qed
qed

lemma send_tcp_loop_Inl:
  "debugger_flags s AND JERRY_DEBUGGER_CONNECTED \<noteq> 0 \<Longrightarrow>
     send_tcp_loop evs data s = Inl err \<Longrightarrow> err = No_more_events"
proof (induction evs arbitrary: data s)
  case Nil
  then show ?case by simp
next
  case (Cons ev evs)
  show ?case
  proof (cases ev)
    case (Send_error e)
    show ?thesis
    proof (cases "e = EWOULDBLOCK")
      case True
      with Cons.prems Send_error
      have "send_tcp_loop evs data (s\<lparr>errno := e\<rparr>) = Inl err" by (simp split: if_splits)
      moreover have "debugger_flags (s\<lparr>errno := e\<rparr>) AND JERRY_DEBUGGER_CONNECTED \<noteq> 0"
        using Cons.prems(1) by simp
      ultimately show ?thesis using Cons.IH by blast
    next
      case False
      with Cons.prems Send_error show ?thesis
        by (auto simp: jerry_debugger_close_connection_tcp_def Let_def split: if_splits sum.splits)
    qed
  next
    case (Send_bytes k)
    with Cons.prems
    have "send_tcp_loop evs (drop (min k (length data)) data)
            (s\<lparr>wire := wire s @ take (min k (length data)) data\<rparr>) = Inl err"
      by (simp add: Let_def split: if_splits)
    moreover have "debugger_flags (s\<lparr>wire := wire s @ take (min k (length data)) data\<rparr>)
        AND JERRY_DEBUGGER_CONNECTED \<noteq> 0"
      using Cons.prems(1) by simp
    ultimately show ?thesis using Cons.IH by blast
  qed
qed

lemma send_tcp_loop_p1_Inl:
  "send_tcp_loop_p1 evs data s = Inl err \<Longrightarrow> err = No_more_events"
proof (induction evs arbitrary: data s)
  case Nil
  then show ?case by simp
next
  case (Cons ev evs)
  show ?case
  proof (cases ev)
    case (Send_error e)
    with Cons.prems have "send_tcp_loop_p1 evs data (s\<lparr>errno := e\<rparr>) = Inl err"
      by (simp split: if_splits)
    with Cons.IH show ?thesis by blast
  next
    case (Send_bytes k)
    with Cons.prems
    have "send_tcp_loop_p1 evs (drop (min k (length data)) data)
            (s\<lparr>wire := wire s @ take (min k (length data)) data\<rparr>) = Inl err"
      by (simp add: Let_def split: if_splits)
    with Cons.IH show ?thesis by blast
  qed
qed

lemma header_written:
  assumes "n + 2 \<le> length buf"
  shows "buf[0 := 0x82, 1 := of_nat n] = egress_frame n buf @ drop (2 + n) buf"
    and "take (n + 2) (buf[0 := 0x82, 1 := of_nat n]) = egress_frame n buf"
    and "length (egress_frame n buf) = 2 + n"
proof -
  obtain a b rest where b: "buf = a # b # rest"
    using assms by (cases buf; cases "tl buf") auto
  show "buf[0 := 0x82, 1 := of_nat n] = egress_frame n buf @ drop (2 + n) buf"
    by (simp add: b egress_frame_def)
  show "take (n + 2) (buf[0 := 0x82, 1 := of_nat n]) = egress_frame n buf"
    using assms by (simp add: b egress_frame_def)
  show "length (egress_frame n buf) = 2 + n"
    using assms by (simp add: b egress_frame_def)
qed

lemma send_ws_ndebug_frame:
  assumes "n + 2 \<le> length (debugger_send_buffer s)"
  shows "jerry_debugger_send_ws_ndebug n s =
           jerry_debugger_send_tcp (egress_frame n (debugger_send_buffer s))
             (s\<lparr>debugger_send_buffer :=
                  egress_frame n (debugger_send_buffer s) @ drop (2 + n) (debugger_send_buffer s)\<rparr>)"
  using assms header_written(1,2) [OF assms]
  by (simp add: jerry_debugger_send_ws_ndebug_def ws_consts Let_def)

lemma send_ws_p1_frame:
  assumes "n + 2 \<le> length buf"
  shows "jerry_debugger_send_ws_p1 buf n s =
           (case jerry_debugger_send_tcp_p1 (egress_frame n buf) s of
              Inl err \<Rightarrow> Inl err
            | Inr (ok, s') \<Rightarrow> Inr (ok, egress_frame n buf @ drop (2 + n) buf, s'))"
proof -
  have a: "\<not> length buf < n + 2" using assms by simp
  have c: "JERRY_DEBUGGER_WEBSOCKET_FIN_BIT OR JERRY_DEBUGGER_WEBSOCKET_BINARY_FRAME = (0x82::u8)"
    by (simp add: ws_consts)
  show ?thesis
    unfolding jerry_debugger_send_ws_p1_def c JERRY_DEBUGGER_WEBSOCKET_HEADER_SIZE_def Let_def
    apply (simp only: a if_False header_written(2) [OF assms])
    apply (simp only: header_written(1) [OF assms])
    done
qed

lemma send_ws_debug_ndebug:
  "jerry_debugger_send_ws n s =
     (if n \<le> unat (debugger_max_send_size s) then jerry_debugger_send_ws_ndebug n s
      else Inl Assertion_failed)"
  by (simp add: jerry_debugger_send_ws_def jerry_debugger_send_ws_ndebug_def)


lemma egress_frame_bytes:
  assumes "n + 2 \<le> length buf"
  shows "egress_frame n buf ! 0 = 0x82"
    and "egress_frame n buf ! 1 = of_nat n"
    and "drop 2 (egress_frame n buf) = take n (drop 2 buf)"
  by (simp_all add: egress_frame_def)

lemma send_ws_ndebug_sent:
  assumes conn: "debugger_flags s AND JERRY_DEBUGGER_CONNECTED \<noteq> 0"
    and len: "n + 2 \<le> length (debugger_send_buffer s)"
  shows "jerry_debugger_send_ws_ndebug n s = Inr (ok, s') \<Longrightarrow>
           sent_prefix (egress_frame n (debugger_send_buffer s)) ok s s'"
    and "jerry_debugger_send_ws_ndebug n s = Inl err \<Longrightarrow> err = No_more_events"
proof -
  let ?f = "egress_frame n (debugger_send_buffer s)"
  let ?s1 = "s\<lparr>debugger_send_buffer := ?f @ drop (2 + n) (debugger_send_buffer s)\<rparr>"
  have call: "jerry_debugger_send_ws_ndebug n s = send_tcp_loop (send_script s) ?f ?s1"
    using send_ws_ndebug_frame [OF len] conn by (simp add: jerry_debugger_send_tcp_def)
  have ne: "?f \<noteq> []" by (simp add: egress_frame_def)
  have c1: "debugger_flags ?s1 AND JERRY_DEBUGGER_CONNECTED \<noteq> 0" using conn by simp
  show "sent_prefix ?f ok s s'" if "jerry_debugger_send_ws_ndebug n s = Inr (ok, s')"
  proof -
    from that call have "send_tcp_loop (send_script s) ?f ?s1 = Inr (ok, s')" by simp
    from send_tcp_loop_wire [OF this ne] show ?thesis by (simp add: sent_prefix_def)
  qed
  show "err = No_more_events" if "jerry_debugger_send_ws_ndebug n s = Inl err"
  proof -
    from that call have "send_tcp_loop (send_script s) ?f ?s1 = Inl err" by simp
    from send_tcp_loop_Inl [OF c1 this] show ?thesis .
  qed
qed

lemma send_ws_p1_sent:
  assumes len: "n + 2 \<le> length buf"
  shows "jerry_debugger_send_ws_p1 buf n s = Inr (ok, b, s') \<Longrightarrow>
           sent_prefix (egress_frame n buf) ok s s' \<and> debugger_flags s' = debugger_flags s
           \<and> fd s' = fd s \<and> closed_fds s' = closed_fds s \<and> port_log s' = port_log s"
    and "jerry_debugger_send_ws_p1 buf n s = Inl err \<Longrightarrow> err = No_more_events"
proof -
  let ?f = "egress_frame n buf"
  have ne: "?f \<noteq> []" by (simp add: egress_frame_def)
  note call = send_ws_p1_frame [OF len, of s]
  show "sent_prefix ?f ok s s' \<and> debugger_flags s' = debugger_flags s
           \<and> fd s' = fd s \<and> closed_fds s' = closed_fds s \<and> port_log s' = port_log s"
    if "jerry_debugger_send_ws_p1 buf n s = Inr (ok, b, s')"
  proof -
    from that call have "send_tcp_loop_p1 (send_script s) ?f s = Inr (ok, s')"
      by (auto simp: jerry_debugger_send_tcp_p1_def split: sum.splits)
    from send_tcp_loop_p1_wire [OF this ne] show ?thesis .
  qed
  show "err = No_more_events" if "jerry_debugger_send_ws_p1 buf n s = Inl err"
  proof -
    from that call have "send_tcp_loop_p1 (send_script s) ?f s = Inl err"
      by (auto simp: jerry_debugger_send_tcp_p1_def split: sum.splits)
    from send_tcp_loop_p1_Inl [OF this] show ?thesis .
  qed
qed

text \<open>
  C3, as stated, fails for \<^verbatim>\<open>jerry_debugger_send_ws\<close> of \<^verbatim>\<open>part_001\<close>, which does not
  bound the payload size: called with a payload size of 300 it writes the length byte 44
  and passes 302 bytes to the TCP send path.
\<close>

theorem send_ws_unbounded_counterexample:
  "jerry_debugger_send_ws_p1 (0 # 0 # replicate 300 7) 300
       (connected_state\<lparr>send_script := [Send_bytes 302]\<rparr>)
     = Inr (True, 0x82 # 44 # replicate 300 7,
         connected_state\<lparr>send_script := [], wire := 0x82 # 44 # replicate 300 7\<rparr>)
   \<and> length (0x82 # 44 # replicate 300 (7::u8)) = 302
   \<and> \<not> (300::nat) \<le> 125"
  by (simp add: jerry_debugger_send_ws_p1_def jerry_debugger_send_tcp_p1_def connected_state_def
      ws_consts Let_def)

text \<open>
  C3, amended: for every call of \<^verbatim>\<open>jerry_debugger_send_ws\<close> with a payload size \<open>n\<close> of
  at most 125, which is for the caller to ensure, the bytes passed to the TCP send path
  are the frame of \<open>2 + n\<close> bytes whose first byte is \<open>0x82\<close> (FIN and BINARY), whose
  second byte is \<open>n\<close> and whose rest is the payload. What goes out on the wire is a prefix
  of this frame, and all of it exactly when the call returns \<^verbatim>\<open>true\<close>. This holds for
  \<^verbatim>\<open>part_001\<close>, which has no check, for \<^verbatim>\<open>part_002\<close> built without assertions, and
  for \<^verbatim>\<open>part_002\<close> built with assertions, where a call with \<open>n\<close> above
  \<^verbatim>\<open>debugger_max_send_size\<close> stops at the assertion instead.
\<close>

theorem send_ws_frame:
  "(n \<le> 125 \<and> debugger_flags s AND JERRY_DEBUGGER_CONNECTED \<noteq> 0
      \<and> length (debugger_send_buffer s) = JERRY_DEBUGGER_MAX_BUFFER_SIZE \<longrightarrow>
        length (egress_frame n (debugger_send_buffer s)) = 2 + n
        \<and> egress_frame n (debugger_send_buffer s) ! 0 = 0x82
        \<and> unat (egress_frame n (debugger_send_buffer s) ! 1) = n
        \<and> unat (egress_frame n (debugger_send_buffer s) ! 1) \<le> 125
        \<and> drop 2 (egress_frame n (debugger_send_buffer s)) = take n (drop 2 (debugger_send_buffer s))
        \<and> jerry_debugger_send_ws_ndebug n s =
            jerry_debugger_send_tcp (egress_frame n (debugger_send_buffer s))
              (s\<lparr>debugger_send_buffer :=
                   egress_frame n (debugger_send_buffer s) @ drop (2 + n) (debugger_send_buffer s)\<rparr>)
        \<and> (\<forall>ok s'. jerry_debugger_send_ws_ndebug n s = Inr (ok, s') \<longrightarrow>
              sent_prefix (egress_frame n (debugger_send_buffer s)) ok s s')
        \<and> (\<forall>err. jerry_debugger_send_ws_ndebug n s = Inl err \<longrightarrow> err = No_more_events))
     \<and> jerry_debugger_send_ws n s =
         (if n \<le> unat (debugger_max_send_size s) then jerry_debugger_send_ws_ndebug n s
          else Inl Assertion_failed)
     \<and> (n \<le> 125 \<and> n + 2 \<le> length message_data_p \<longrightarrow>
        length (egress_frame n message_data_p) = 2 + n
        \<and> egress_frame n message_data_p ! 0 = 0x82
        \<and> unat (egress_frame n message_data_p ! 1) = n
        \<and> unat (egress_frame n message_data_p ! 1) \<le> 125
        \<and> drop 2 (egress_frame n message_data_p) = take n (drop 2 message_data_p)
        \<and> jerry_debugger_send_ws_p1 message_data_p n s =
            (case jerry_debugger_send_tcp_p1 (egress_frame n message_data_p) s of
               Inl err \<Rightarrow> Inl err
             | Inr (ok, s') \<Rightarrow>
                 Inr (ok, egress_frame n message_data_p @ drop (2 + n) message_data_p, s'))
        \<and> (\<forall>ok b s'. jerry_debugger_send_ws_p1 message_data_p n s = Inr (ok, b, s') \<longrightarrow>
              sent_prefix (egress_frame n message_data_p) ok s s')
        \<and> (\<forall>err. jerry_debugger_send_ws_p1 message_data_p n s = Inl err \<longrightarrow>
              err = No_more_events))"
proof -
  have f: "length (egress_frame n b) = 2 + n \<and> egress_frame n b ! 0 = 0x82
        \<and> unat (egress_frame n b ! 1) = n \<and> unat (egress_frame n b ! 1) \<le> 125
        \<and> drop 2 (egress_frame n b) = take n (drop 2 b)"
    if "n \<le> 125" "n + 2 \<le> length b" for b
  proof -
    have u: "unat (of_nat n :: u8) = n" using that(1) by (simp add: unat_of_nat)
    from header_written(3) [OF that(2)] egress_frame_bytes [OF that(2)] u that(1)
    show ?thesis by simp
  qed
  have A: "length (egress_frame n (debugger_send_buffer s)) = 2 + n
        \<and> egress_frame n (debugger_send_buffer s) ! 0 = 0x82
        \<and> unat (egress_frame n (debugger_send_buffer s) ! 1) = n
        \<and> unat (egress_frame n (debugger_send_buffer s) ! 1) \<le> 125
        \<and> drop 2 (egress_frame n (debugger_send_buffer s)) = take n (drop 2 (debugger_send_buffer s))
        \<and> jerry_debugger_send_ws_ndebug n s =
            jerry_debugger_send_tcp (egress_frame n (debugger_send_buffer s))
              (s\<lparr>debugger_send_buffer :=
                   egress_frame n (debugger_send_buffer s) @ drop (2 + n) (debugger_send_buffer s)\<rparr>)
        \<and> (\<forall>ok s'. jerry_debugger_send_ws_ndebug n s = Inr (ok, s') \<longrightarrow>
              sent_prefix (egress_frame n (debugger_send_buffer s)) ok s s')
        \<and> (\<forall>err. jerry_debugger_send_ws_ndebug n s = Inl err \<longrightarrow> err = No_more_events)"
    if h: "n \<le> 125 \<and> debugger_flags s AND JERRY_DEBUGGER_CONNECTED \<noteq> 0
      \<and> length (debugger_send_buffer s) = JERRY_DEBUGGER_MAX_BUFFER_SIZE"
  proof -
    from h have bound: "n \<le> 125" and conn: "debugger_flags s AND JERRY_DEBUGGER_CONNECTED \<noteq> 0"
      and len: "n + 2 \<le> length (debugger_send_buffer s)"
      by (simp_all add: ws_consts)
    note 1 = f [OF bound len]
    note 2 = send_ws_ndebug_frame [OF len]
    have 4: "\<forall>ok s'. jerry_debugger_send_ws_ndebug n s = Inr (ok, s') \<longrightarrow>
           sent_prefix (egress_frame n (debugger_send_buffer s)) ok s s'"
      using send_ws_ndebug_sent(1) [OF conn len] by blast
    have 5: "\<forall>err. jerry_debugger_send_ws_ndebug n s = Inl err \<longrightarrow> err = No_more_events"
      using send_ws_ndebug_sent(2) [OF conn len] by blast
    from 1 2 4 5 show ?thesis by (intro conjI) simp_all
  qed
  note B = send_ws_debug_ndebug [of n s]
  have C: "length (egress_frame n message_data_p) = 2 + n
        \<and> egress_frame n message_data_p ! 0 = 0x82
        \<and> unat (egress_frame n message_data_p ! 1) = n
        \<and> unat (egress_frame n message_data_p ! 1) \<le> 125
        \<and> drop 2 (egress_frame n message_data_p) = take n (drop 2 message_data_p)
        \<and> jerry_debugger_send_ws_p1 message_data_p n s =
            (case jerry_debugger_send_tcp_p1 (egress_frame n message_data_p) s of
               Inl err \<Rightarrow> Inl err
             | Inr (ok, s') \<Rightarrow>
                 Inr (ok, egress_frame n message_data_p @ drop (2 + n) message_data_p, s'))
        \<and> (\<forall>ok b s'. jerry_debugger_send_ws_p1 message_data_p n s = Inr (ok, b, s') \<longrightarrow>
              sent_prefix (egress_frame n message_data_p) ok s s')
        \<and> (\<forall>err. jerry_debugger_send_ws_p1 message_data_p n s = Inl err \<longrightarrow>
              err = No_more_events)"
    if h: "n \<le> 125 \<and> n + 2 \<le> length message_data_p"
  proof -
    from h have bound: "n \<le> 125" and buf1: "n + 2 \<le> length message_data_p" by simp_all
    note 6 = f [OF bound buf1]
    note 7 = send_ws_p1_frame [OF buf1, of s]
    have 8: "\<forall>ok b s'. jerry_debugger_send_ws_p1 message_data_p n s = Inr (ok, b, s') \<longrightarrow>
           sent_prefix (egress_frame n message_data_p) ok s s'"
      using send_ws_p1_sent(1) [OF buf1] by blast
    have 9: "\<forall>err. jerry_debugger_send_ws_p1 message_data_p n s = Inl err \<longrightarrow> err = No_more_events"
      using send_ws_p1_sent(2) [OF buf1] by blast
    from 6 7 8 9 show ?thesis by (intro conjI) simp_all
  qed
  show ?thesis
    apply (rule conjI, rule impI, erule A)
    apply (rule conjI, rule B)
    apply (rule impI, erule C)
    done
qed

theorem send_ws_frame_witness:
  "jerry_debugger_send_ws 5
     (connected_state\<lparr>debugger_send_buffer := [0, 0, 1, 122, 2, 1, 2] @ replicate 121 0,
                      send_script := [Send_bytes 3, Send_error EWOULDBLOCK, Send_error EPIPE]\<rparr>)
   = jerry_debugger_send_tcp [0x82, 5, 1, 122, 2, 1, 2]
       (connected_state\<lparr>debugger_send_buffer := [0x82, 5, 1, 122, 2, 1, 2] @ replicate 121 0,
                        send_script := [Send_bytes 3, Send_error EWOULDBLOCK, Send_error EPIPE]\<rparr>)
   \<and> (\<exists>s'. jerry_debugger_send_ws 5
        (connected_state\<lparr>debugger_send_buffer := [0, 0, 1, 122, 2, 1, 2] @ replicate 121 0,
                         send_script := [Send_bytes 3, Send_error EWOULDBLOCK, Send_error EPIPE]\<rparr>)
          = Inr (False, s') \<and> wire s' = [0x82, 5, 1])
   \<and> (\<exists>b s'. jerry_debugger_send_ws_p1 [0, 0, 1, 122, 2, 1, 2] 5
          (connected_state\<lparr>send_script := [Send_bytes 3, Send_error EWOULDBLOCK, Send_bytes 9]\<rparr>)
          = Inr (True, b, s') \<and> wire s' = [0x82, 5, 1, 122, 2, 1, 2])"
proof -
  let ?s = "connected_state\<lparr>debugger_send_buffer := [0, 0, 1, 122, 2, 1, 2] @ replicate 121 0,
                      send_script := [Send_bytes 3, Send_error EWOULDBLOCK, Send_error EPIPE]\<rparr>"
  let ?t = "connected_state\<lparr>send_script := [Send_bytes 3, Send_error EWOULDBLOCK, Send_bytes 9]\<rparr>"
  have h: "(5::nat) \<le> 125 \<and> debugger_flags ?s AND JERRY_DEBUGGER_CONNECTED \<noteq> 0
      \<and> length (debugger_send_buffer ?s) = JERRY_DEBUGGER_MAX_BUFFER_SIZE"
    by (simp add: connected_state_def flag_consts ws_consts)
  have sb: "debugger_send_buffer ?s = [0, 0, 1, 122, 2, 1, 2] @ replicate 121 0" by simp
  have e: "egress_frame 5 ([0, 0, 1, 122, 2, 1, 2] @ replicate 121 0) = [0x82, 5, 1, 122, 2, 1, 2]"
    by (simp add: egress_frame_def)
  have d: "drop (2 + 5) ([0, 0, 1, 122, 2, 1, 2::u8] @ replicate 121 0) = replicate 121 0" by simp
  have mx: "5 \<le> unat (debugger_max_send_size ?s)" by (simp add: connected_state_def)
  have st: "?s\<lparr>debugger_send_buffer := [0x82, 5, 1, 122, 2, 1, 2] @ replicate 121 0\<rparr>
      = connected_state\<lparr>debugger_send_buffer := [0x82, 5, 1, 122, 2, 1, 2] @ replicate 121 0,
                        send_script := [Send_bytes 3, Send_error EWOULDBLOCK, Send_error EPIPE]\<rparr>"
    by simp
  note t = send_ws_frame [of 5 ?s "[0, 0, 1, 122, 2, 1, 2]"]
  from t [THEN conjunct1] h
  have "jerry_debugger_send_ws_ndebug 5 ?s =
      jerry_debugger_send_tcp (egress_frame 5 (debugger_send_buffer ?s))
        (?s\<lparr>debugger_send_buffer :=
               egress_frame 5 (debugger_send_buffer ?s) @ drop (2 + 5) (debugger_send_buffer ?s)\<rparr>)"
    by blast
  then have nd: "jerry_debugger_send_ws_ndebug 5 ?s =
      jerry_debugger_send_tcp [0x82, 5, 1, 122, 2, 1, 2]
        (?s\<lparr>debugger_send_buffer := [0x82, 5, 1, 122, 2, 1, 2] @ replicate 121 0\<rparr>)"
    by (simp only: sb e d)
  from t [THEN conjunct2, THEN conjunct1]
  have "jerry_debugger_send_ws 5 ?s = jerry_debugger_send_ws_ndebug 5 ?s"
    by (simp only: mx if_True)
  with nd have a: "jerry_debugger_send_ws 5 ?s =
      jerry_debugger_send_tcp [0x82, 5, 1, 122, 2, 1, 2]
       (connected_state\<lparr>debugger_send_buffer := [0x82, 5, 1, 122, 2, 1, 2] @ replicate 121 0,
                        send_script := [Send_bytes 3, Send_error EWOULDBLOCK, Send_error EPIPE]\<rparr>)"
    by (simp only: st)
  have b: "\<exists>s'. jerry_debugger_send_ws 5 ?s = Inr (False, s') \<and> wire s' = [0x82, 5, 1]"
    unfolding a
    by (simp add: jerry_debugger_send_tcp_def jerry_debugger_close_connection_tcp_def
        jerry_port_log_def close_fd_def jerry_debugger_free_unreferenced_byte_code_def
        connected_state_def flag_consts Let_def)
  have c: "\<exists>b s'. jerry_debugger_send_ws_p1 [0, 0, 1, 122, 2, 1, 2] 5 ?t = Inr (True, b, s')
             \<and> wire s' = [0x82, 5, 1, 122, 2, 1, 2]"
    by (simp add: jerry_debugger_send_ws_p1_def jerry_debugger_send_tcp_p1_def
        connected_state_def ws_consts Let_def)
  from a b c show ?thesis by blast
qed

text \<open>
  C9, as stated, fails in its last part: the maximum is compared with the payload size
  only in a \<^verbatim>\<open>JERRY_ASSERT\<close>. In a build without assertions
  \<^verbatim>\<open>jerry_debugger_send_ws\<close>, in a session that holds the maximum of 125, sends a payload
  of 126 bytes in a frame of 128 bytes.
\<close>

theorem payload_above_maximum_counterexample:
  "debugger_max_send_size (accept_set_sizes connected_state) = 125
   \<and> (\<exists>s'. jerry_debugger_send_ws_ndebug 126
              ((accept_set_sizes connected_state)\<lparr>send_script := [Send_bytes 128]\<rparr>) = Inr (True, s')
          \<and> wire s' = [0x82, 126] @ replicate 126 0
          \<and> length (wire s') = 128)"
proof -
  let ?s = "(accept_set_sizes connected_state)\<lparr>send_script := [Send_bytes 128]\<rparr>"
  have len: "126 + 2 \<le> length (debugger_send_buffer ?s)"
    by (simp add: accept_set_sizes_def connected_state_def)
  have e: "egress_frame 126 (debugger_send_buffer ?s) = [0x82, 126] @ replicate 126 0"
    by (simp add: egress_frame_def accept_set_sizes_def connected_state_def)
  have "\<exists>s'. jerry_debugger_send_ws_ndebug 126 ?s = Inr (True, s')
          \<and> wire s' = [0x82, 126] @ replicate 126 0"
    unfolding send_ws_ndebug_frame [OF len] e
    by (simp add: jerry_debugger_send_tcp_def accept_set_sizes_def connected_state_def
        flag_consts Let_def)
  moreover have "debugger_max_send_size (accept_set_sizes connected_state) = 125"
    by (simp add: accept_set_sizes_def ws_max_send_size_128)
  ultimately show ?thesis by auto
qed

text \<open>
  C9, amended: the maximum payload of an outgoing message is the buffer size less the two
  bytes of the send header, capped at 125; with the buffer of 128 bytes it is 125, and
  \<^verbatim>\<open>jerry_debugger_accept_connection_ws\<close> stores it in the session. In a session that
  holds it, \<^verbatim>\<open>jerry_debugger_send_ws\<close> sends a payload of at most 125 bytes as one frame
  with that payload. A larger payload stops at the assertion in a build with assertions;
  in a build without assertions it is neither clamped nor rejected: 126 bytes are sent as
  they are, and more would be read from behind the send buffer.
\<close>

theorem max_send_payload:
  "(\<forall>B. 64 \<le> B \<and> B \<le> 256 \<longrightarrow>
       unat (ws_max_send_size B) = min (B - JERRY_DEBUGGER_WEBSOCKET_HEADER_SIZE) 125)
   \<and> debugger_max_send_size (accept_set_sizes s) = 125
   \<and> (\<forall>n t. debugger_max_send_size t = debugger_max_send_size (accept_set_sizes s)
            \<and> length (debugger_send_buffer t) = JERRY_DEBUGGER_MAX_BUFFER_SIZE
            \<and> n \<le> 125 \<longrightarrow>
          jerry_debugger_send_ws n t =
            jerry_debugger_send_tcp (egress_frame n (debugger_send_buffer t))
              (t\<lparr>debugger_send_buffer :=
                   egress_frame n (debugger_send_buffer t) @ drop (2 + n) (debugger_send_buffer t)\<rparr>)
          \<and> jerry_debugger_send_ws_ndebug n t = jerry_debugger_send_ws n t
          \<and> length (drop 2 (egress_frame n (debugger_send_buffer t))) = n)
   \<and> (\<forall>n t. debugger_max_send_size t = debugger_max_send_size (accept_set_sizes s) \<and> 125 < n \<longrightarrow>
          jerry_debugger_send_ws n t = Inl Assertion_failed)
   \<and> (\<forall>t. length (debugger_send_buffer t) = JERRY_DEBUGGER_MAX_BUFFER_SIZE \<longrightarrow>
          jerry_debugger_send_ws_ndebug 126 t =
            jerry_debugger_send_tcp (egress_frame 126 (debugger_send_buffer t))
              (t\<lparr>debugger_send_buffer := egress_frame 126 (debugger_send_buffer t)\<rparr>)
          \<and> length (drop 2 (egress_frame 126 (debugger_send_buffer t))) = 126)
   \<and> (\<forall>n t. length (debugger_send_buffer t) = JERRY_DEBUGGER_MAX_BUFFER_SIZE \<and> 126 < n \<longrightarrow>
          jerry_debugger_send_ws_ndebug n t = Inl Out_of_bounds)"
proof -
  have a: "debugger_max_send_size (accept_set_sizes s) = 125"
    by (simp add: accept_set_sizes_def ws_max_send_size_128)
  have fr: "jerry_debugger_send_ws_ndebug n t =
                jerry_debugger_send_tcp (egress_frame n (debugger_send_buffer t))
                  (t\<lparr>debugger_send_buffer :=
                       egress_frame n (debugger_send_buffer t) @ drop (2 + n) (debugger_send_buffer t)\<rparr>)
            \<and> length (drop 2 (egress_frame n (debugger_send_buffer t))) = n"
    if "n \<le> 126" "length (debugger_send_buffer t) = JERRY_DEBUGGER_MAX_BUFFER_SIZE" for n t
  proof -
    from that have len: "n + 2 \<le> length (debugger_send_buffer t)" by (simp add: ws_consts)
    from send_ws_ndebug_frame [OF len] egress_frame_bytes(3) [OF len] len show ?thesis by simp
  qed
  have 1: "jerry_debugger_send_ws n t =
            jerry_debugger_send_tcp (egress_frame n (debugger_send_buffer t))
              (t\<lparr>debugger_send_buffer :=
                   egress_frame n (debugger_send_buffer t) @ drop (2 + n) (debugger_send_buffer t)\<rparr>)
          \<and> jerry_debugger_send_ws_ndebug n t = jerry_debugger_send_ws n t
          \<and> length (drop 2 (egress_frame n (debugger_send_buffer t))) = n"
    if "debugger_max_send_size t = debugger_max_send_size (accept_set_sizes s)
            \<and> length (debugger_send_buffer t) = JERRY_DEBUGGER_MAX_BUFFER_SIZE
            \<and> n \<le> 125" for n t
  proof -
    from that a have m: "unat (debugger_max_send_size t) = 125" by simp
    from that have "n \<le> 126" "length (debugger_send_buffer t) = JERRY_DEBUGGER_MAX_BUFFER_SIZE"
      by simp_all
    from fr [OF this] that m show ?thesis by (simp add: send_ws_debug_ndebug)
  qed
  have 2: "jerry_debugger_send_ws n t = Inl Assertion_failed"
    if "debugger_max_send_size t = debugger_max_send_size (accept_set_sizes s) \<and> 125 < n" for n t
    using that a by (simp add: send_ws_debug_ndebug)
  have 3: "jerry_debugger_send_ws_ndebug 126 t =
            jerry_debugger_send_tcp (egress_frame 126 (debugger_send_buffer t))
              (t\<lparr>debugger_send_buffer := egress_frame 126 (debugger_send_buffer t)\<rparr>)
          \<and> length (drop 2 (egress_frame 126 (debugger_send_buffer t))) = 126"
    if "length (debugger_send_buffer t) = JERRY_DEBUGGER_MAX_BUFFER_SIZE" for t
  proof -
    from that have d: "drop (2 + 126) (debugger_send_buffer t) = []" by (simp add: ws_consts)
    from fr [of 126 t] that d show ?thesis by simp
  qed
  have 4: "jerry_debugger_send_ws_ndebug n t = Inl Out_of_bounds"
    if "length (debugger_send_buffer t) = JERRY_DEBUGGER_MAX_BUFFER_SIZE \<and> 126 < n" for n t
    using that by (simp add: jerry_debugger_send_ws_ndebug_def ws_consts)
  from a 1 2 3 4 ws_max_send_size_general show ?thesis by blast
qed

theorem max_send_payload_witness:
  "unat (ws_max_send_size 128) = 125
   \<and> debugger_max_send_size (accept_set_sizes connected_state) = 125
   \<and> jerry_debugger_send_ws 125 (accept_set_sizes connected_state)
       = jerry_debugger_send_tcp ([0x82, 125] @ replicate 125 0)
           ((accept_set_sizes connected_state)
              \<lparr>debugger_send_buffer := [0x82, 125] @ replicate 125 0 @ [0]\<rparr>)
   \<and> jerry_debugger_send_ws 126 (accept_set_sizes connected_state) = Inl Assertion_failed
   \<and> jerry_debugger_send_ws_ndebug 127 (accept_set_sizes connected_state) = Inl Out_of_bounds"
proof -
  let ?t = "accept_set_sizes connected_state"
  note t = max_send_payload [of connected_state]
  from t have 1: "unat (ws_max_send_size 128) = min (128 - JERRY_DEBUGGER_WEBSOCKET_HEADER_SIZE) 125"
    by simp
  have h: "debugger_max_send_size ?t = debugger_max_send_size (accept_set_sizes connected_state)"
    "length (debugger_send_buffer ?t) = JERRY_DEBUGGER_MAX_BUFFER_SIZE"
    by (simp_all add: accept_set_sizes_def connected_state_def ws_consts)
  from t h have 2: "jerry_debugger_send_ws 126 ?t = Inl Assertion_failed" by simp
  from t h have 4: "jerry_debugger_send_ws_ndebug 127 ?t = Inl Out_of_bounds" by simp
  from t h have "jerry_debugger_send_ws 125 ?t =
      jerry_debugger_send_tcp (egress_frame 125 (debugger_send_buffer ?t))
        (?t\<lparr>debugger_send_buffer :=
               egress_frame 125 (debugger_send_buffer ?t) @ drop (2 + 125) (debugger_send_buffer ?t)\<rparr>)"
    by simp
  moreover have "egress_frame 125 (debugger_send_buffer ?t) = [0x82, 125] @ replicate 125 0"
    "drop (2 + 125) (debugger_send_buffer ?t) = [0]"
    by (simp_all add: egress_frame_def accept_set_sizes_def connected_state_def)
  ultimately have 3: "jerry_debugger_send_ws 125 ?t
       = jerry_debugger_send_tcp ([0x82, 125] @ replicate 125 0)
           (?t\<lparr>debugger_send_buffer := [0x82, 125] @ replicate 125 0 @ [0]\<rparr>)"
    by simp
  from 1 2 3 4 t show ?thesis by (simp add: ws_consts)
qed

subsection \<open>Checking a frame\<close>

lemma all_less_8:
  "(\<forall>n<8. P n) = (P 0 \<and> P 1 \<and> P 2 \<and> P 3 \<and> P 4 \<and> P 5 \<and> P (6::nat) \<and> P 7)"
proof -
  have "{n::nat. n < 8} = {0,1,2,3,4,5,6,7}" by auto
  then show ?thesis by (metis (mono_tags, lifting) insert_iff mem_Collect_eq empty_iff)
qed

lemma u8_eq_iff:
  "((x::u8) = y) = (bit x 0 = bit y 0 \<and> bit x 1 = bit y 1 \<and> bit x 2 = bit y 2 \<and> bit x 3 = bit y 3
    \<and> bit x 4 = bit y 4 \<and> bit x 5 = bit y 5 \<and> bit x 6 = bit y 6 \<and> bit x 7 = bit y 7)"
proof -
  have "(x = y) = (\<forall>n<8. bit x n = bit y n)"
    by (auto intro: bit_word_eqI)
  then show ?thesis by (simp only: all_less_8)
qed

lemma fin_no_reserved: "((b::u8) AND NOT 0x0f = 0x80) = (b AND 0x80 \<noteq> 0 \<and> b AND 0x70 = 0)"
  by (auto simp: u8_eq_iff bit_simps)

lemma close_logged:
  assumes "debugger_flags s AND JERRY_DEBUGGER_CONNECTED \<noteq> 0"
  shows "close_as_frame_result False (jerry_port_log level msg s)
           = Inr (Closed (closed_state [(level, msg)] s))"
  using assms
  by (simp add: close_as_frame_result_def jerry_debugger_close_connection_tcp_def
      jerry_port_log_def close_fd_def jerry_debugger_free_unreferenced_byte_code_def
      closed_state_def Let_def)

lemma check_frame_short:
  "offset < sizeof_receive_header \<Longrightarrow> check_frame offset s = Inr (No_message s)"
  by (simp add: check_frame_def)

lemma check_frame_bad_header:
  assumes "debugger_flags s AND JERRY_DEBUGGER_CONNECTED \<noteq> 0"
    and "sizeof_receive_header \<le> offset"
    and "\<not> (debugger_receive_buffer s ! 0 AND NOT 0x0f = 0x80
           \<and> debugger_receive_buffer s ! 1 AND 0x7f \<le> debugger_max_receive_size s
           \<and> debugger_receive_buffer s ! 1 AND 0x80 \<noteq> 0)"
  shows "check_frame offset s =
           Inr (Closed (closed_state
             [(JERRY_LOG_LEVEL_ERROR, Text ''Unsupported Websocket message.\<newline>'')] s))"
proof -
  from assms(2,3) have "check_frame offset s = close_as_frame_result False
          (jerry_port_log JERRY_LOG_LEVEL_ERROR (Text ''Unsupported Websocket message.\<newline>'') s)"
    by (auto simp: check_frame_def ws_consts Let_def not_le)
  with close_logged [OF assms(1)] show ?thesis by simp
qed

lemma check_frame_bad_opcode:
  assumes "debugger_flags s AND JERRY_DEBUGGER_CONNECTED \<noteq> 0"
    and "sizeof_receive_header \<le> offset"
    and "debugger_receive_buffer s ! 0 AND NOT 0x0f = 0x80"
    and "debugger_receive_buffer s ! 1 AND 0x7f \<le> debugger_max_receive_size s"
    and "debugger_receive_buffer s ! 1 AND 0x80 \<noteq> 0"
    and "debugger_receive_buffer s ! 0 AND 0x0f \<noteq> 2"
  shows "check_frame offset s =
           Inr (Closed (closed_state
             [(JERRY_LOG_LEVEL_ERROR, Text ''Unsupported Websocket opcode.\<newline>'')] s))"
proof -
  from assms(2-6) have "check_frame offset s = close_as_frame_result False
          (jerry_port_log JERRY_LOG_LEVEL_ERROR (Text ''Unsupported Websocket opcode.\<newline>'') s)"
    by (auto simp: check_frame_def ws_consts Let_def not_le)
  with close_logged [OF assms(1)] show ?thesis by simp
qed

lemma check_frame_good:
  assumes "sizeof_receive_header \<le> offset"
    and "debugger_receive_buffer s ! 0 AND NOT 0x0f = 0x80"
    and "debugger_receive_buffer s ! 1 AND 0x7f \<le> debugger_max_receive_size s"
    and "debugger_receive_buffer s ! 1 AND 0x80 \<noteq> 0"
    and "debugger_receive_buffer s ! 0 AND 0x0f = 2"
  shows "check_frame offset s =
     (let n = unat (debugger_receive_buffer s ! 1 AND 0x7f)
      in if offset < n + 6 then Inr (No_message s)
         else Inr (Message offset n (n + 6)
                (s\<lparr>debugger_receive_buffer := unmask_loop (debugger_receive_buffer s) 6 2 6 (6 + n)\<rparr>)))"
  using assms by (auto simp: check_frame_def ws_consts Let_def not_le)


lemma frame_accepted_iff:
  "frame_accepted buf m \<longleftrightarrow>
     (buf ! 0 AND NOT 0x0f = 0x80 \<and> buf ! 1 AND 0x7f \<le> m \<and> buf ! 1 AND 0x80 \<noteq> 0)
     \<and> buf ! 0 AND 0x0f = 2"
  using fin_no_reserved [of "buf ! 0"]
  unfolding frame_accepted_def JERRY_DEBUGGER_WEBSOCKET_BINARY_FRAME_def by blast

lemma rejection_eq:
  "rejection buf m =
     (if buf ! 0 AND NOT 0x0f = 0x80 \<and> buf ! 1 AND 0x7f \<le> m \<and> buf ! 1 AND 0x80 \<noteq> 0
      then ''Unsupported Websocket opcode.\<newline>''
      else ''Unsupported Websocket message.\<newline>'')"
  using fin_no_reserved [of "buf ! 0"]
  unfolding rejection_def by auto

lemma check_frame_cases:
  assumes conn: "debugger_flags s AND JERRY_DEBUGGER_CONNECTED \<noteq> 0"
  shows "check_frame offset s =
     (if offset < 6
         \<or> (frame_accepted (debugger_receive_buffer s) (debugger_max_receive_size s)
            \<and> offset < frame_size (debugger_receive_buffer s) + 6)
      then Inr (No_message s)
      else if \<not> frame_accepted (debugger_receive_buffer s) (debugger_max_receive_size s)
      then Inr (Closed (closed_state
             [(JERRY_LOG_LEVEL_ERROR,
               Text (rejection (debugger_receive_buffer s) (debugger_max_receive_size s)))] s))
      else Inr (Message offset (frame_size (debugger_receive_buffer s))
                 (frame_size (debugger_receive_buffer s) + 6)
                 (s\<lparr>debugger_receive_buffer :=
                      unmask_loop (debugger_receive_buffer s) 6 2 6
                        (6 + frame_size (debugger_receive_buffer s))\<rparr>)))"
proof -
  let ?buf = "debugger_receive_buffer s" and ?m = "debugger_max_receive_size s"
  let ?first = "?buf ! 0 AND NOT 0x0f = 0x80 \<and> ?buf ! 1 AND 0x7f \<le> ?m \<and> ?buf ! 1 AND 0x80 \<noteq> 0"
  show ?thesis
  proof (cases "offset < 6")
    case True
    then show ?thesis using check_frame_short [of offset s] by (simp add: ws_consts)
  next
    case False
    then have six: "sizeof_receive_header \<le> offset" by (simp add: ws_consts)
    consider (good) "?first" "?buf ! 0 AND 0x0f = 2" | (opcode) "?first" "?buf ! 0 AND 0x0f \<noteq> 2"
      | (header) "\<not> ?first" by blast
    then show ?thesis
    proof cases
      case good
      then have acc: "frame_accepted ?buf ?m" by (simp add: frame_accepted_iff)
      from good check_frame_good [OF six, of s] False acc show ?thesis
        by (simp add: Let_def frame_size_def)
    next
      case opcode
      then have acc: "\<not> frame_accepted ?buf ?m" by (simp add: frame_accepted_iff)
      from opcode have r: "rejection ?buf ?m = ''Unsupported Websocket opcode.\<newline>''"
        by (simp add: rejection_eq)
      from opcode check_frame_bad_opcode [OF conn six] False acc r show ?thesis by simp
    next
      case header
      then have acc: "\<not> frame_accepted ?buf ?m" by (simp add: frame_accepted_iff)
      from header have r: "rejection ?buf ?m = ''Unsupported Websocket message.\<newline>''"
        by (simp add: rejection_eq)
      from header check_frame_bad_header [OF conn six] False acc r show ?thesis by simp
    qed
  qed
qed

subsection \<open>The receive loop\<close>

lemma unat_u16_small: "k \<le> 128 \<Longrightarrow> unat (of_nat k :: u16) = k"
  by (simp add: unat_of_nat)

lemma receive_recv_hard_error:
  assumes "debugger_flags s AND JERRY_DEBUGGER_CONNECTED \<noteq> 0"
    and "e \<noteq> EWOULDBLOCK"
    and "unat (debugger_receive_buffer_offset s) \<le> JERRY_DEBUGGER_MAX_BUFFER_SIZE"
  shows "receive_recv (Recv_error e) s =
           Inr (None, closed_state [(JERRY_LOG_LEVEL_ERROR, Strerror e)] (s\<lparr>errno := e\<rparr>))"
  using assms
  by (simp add: receive_recv_def sys_recv_def jerry_debugger_close_connection_tcp_def
      jerry_port_log_def close_fd_def jerry_debugger_free_unreferenced_byte_code_def
      closed_state_def Let_def)

lemma receive_recv_would_block:
  assumes "unat (debugger_receive_buffer_offset s) \<le> JERRY_DEBUGGER_MAX_BUFFER_SIZE"
  shows "receive_recv (Recv_error EWOULDBLOCK) s =
           Inr (Some (unat (debugger_receive_buffer_offset s)), s\<lparr>errno := EWOULDBLOCK\<rparr>)"
  using assms
  by (simp add: receive_recv_def sys_recv_def Let_def)

lemma receive_recv_bytes:
  assumes "unat (debugger_receive_buffer_offset s) \<le> JERRY_DEBUGGER_MAX_BUFFER_SIZE"
  shows "receive_recv (Recv_bytes bs) s =
     (let offset = unat (debugger_receive_buffer_offset s);
          data = take (JERRY_DEBUGGER_MAX_BUFFER_SIZE - offset) bs
      in Inr (Some (offset + length data),
           s\<lparr>debugger_receive_buffer :=
                take offset (debugger_receive_buffer s) @ data
                  @ drop (offset + length data) (debugger_receive_buffer s),
              debugger_receive_buffer_offset := of_nat (offset + length data)\<rparr>))"
  using assms
  by (simp add: receive_recv_def sys_recv_def Let_def)

lemma receive_recv_Some:
  assumes "receive_recv ev s = Inr (Some offset, s1)"
  shows "unat (debugger_receive_buffer_offset s) \<le> offset \<and> offset \<le> JERRY_DEBUGGER_MAX_BUFFER_SIZE
         \<and> debugger_receive_buffer_offset s1 = of_nat offset
         \<and> debugger_flags s1 = debugger_flags s"
proof -
  from assms have le: "unat (debugger_receive_buffer_offset s) \<le> JERRY_DEBUGGER_MAX_BUFFER_SIZE"
    by (auto simp: receive_recv_def Let_def split: if_splits)
  show ?thesis
  proof (cases ev)
    case (Recv_error e)
    with assms le show ?thesis
      by (auto simp: receive_recv_def sys_recv_def Let_def split: if_splits sum.splits)
  next
    case (Recv_bytes bs)
    with assms le receive_recv_bytes [OF le, of bs] show ?thesis
      by (auto simp: Let_def ws_consts)
  qed
qed

lemma receive_recv_None:
  assumes "receive_recv ev s = Inr (None, s1)"
  shows "debugger_receive_buffer_offset s1 = debugger_receive_buffer_offset s
         \<and> debugger_flags s1 = JERRY_DEBUGGER_VM_IGNORE \<and> fd s1 = - 1"
  using assms
  by (cases ev)
     (auto simp: receive_recv_def sys_recv_def jerry_debugger_close_connection_tcp_def
      jerry_port_log_def close_fd_def jerry_debugger_free_unreferenced_byte_code_def
      Let_def split: if_splits sum.splits)

lemma check_frame_result:
  assumes "check_frame offset s = Inr r"
  shows "case r of
           Closed s' \<Rightarrow> debugger_receive_buffer_offset s' = debugger_receive_buffer_offset s
         | No_message s' \<Rightarrow> s' = s
         | Message off n t s' \<Rightarrow>
             off = offset \<and> t = n + sizeof_receive_header \<and> t \<le> offset
             \<and> n = unat (debugger_receive_buffer s ! 1 AND JERRY_DEBUGGER_WEBSOCKET_LENGTH_MASK)
             \<and> s' = s\<lparr>debugger_receive_buffer := unmask_loop (debugger_receive_buffer s)
                         sizeof_receive_header
                         (sizeof_receive_header - JERRY_DEBUGGER_WEBSOCKET_MASK_SIZE)
                         sizeof_receive_header (sizeof_receive_header + n)\<rparr>"
  using assms
  by (auto simp: check_frame_def close_as_frame_result_def jerry_debugger_close_connection_tcp_def
      jerry_port_log_def close_fd_def jerry_debugger_free_unreferenced_byte_code_def
      Let_def split: if_splits sum.splits)


lemma receive_frame_offset:
  assumes "receive_frame ev s = Inr r"
  shows "unat (debugger_receive_buffer_offset s) \<le> JERRY_DEBUGGER_MAX_BUFFER_SIZE \<and>
     (case r of
        Closed s' \<Rightarrow> unat (debugger_receive_buffer_offset s') \<le> JERRY_DEBUGGER_MAX_BUFFER_SIZE
      | No_message s' \<Rightarrow> unat (debugger_receive_buffer_offset s') \<le> JERRY_DEBUGGER_MAX_BUFFER_SIZE
      | Message off n t s' \<Rightarrow>
          off \<le> JERRY_DEBUGGER_MAX_BUFFER_SIZE \<and> t \<le> off
          \<and> debugger_receive_buffer_offset s' = of_nat off)"
proof -
  from assms have le: "unat (debugger_receive_buffer_offset s) \<le> JERRY_DEBUGGER_MAX_BUFFER_SIZE"
    by (auto simp: receive_frame_def receive_recv_def Let_def split: if_splits)
  from assms obtain o1 s1 where rr: "receive_recv ev s = Inr (o1, s1)"
    by (auto simp: receive_frame_def split: sum.splits)
  show ?thesis
  proof (cases o1)
    case None
    with rr assms have "r = Closed s1" by (simp add: receive_frame_def)
    with receive_recv_None [of ev s s1] rr None le show ?thesis by simp
  next
    case (Some offset)
    with rr assms have cf: "check_frame offset s1 = Inr r" by (simp add: receive_frame_def)
    from receive_recv_Some [of ev s offset s1] rr Some
    have o: "offset \<le> JERRY_DEBUGGER_MAX_BUFFER_SIZE"
      and f: "debugger_receive_buffer_offset s1 = of_nat offset" by simp_all
    from o have u: "unat (of_nat offset :: u16) = offset"
      by (simp add: unat_u16_small ws_consts)
    from check_frame_result [OF cf] le o f u show ?thesis
      by (cases r) (auto simp: ws_consts)
  qed
qed

lemma receive_iteration_offset:
  assumes pm_offset: "\<And>n l t ok l' t'. pm n l t = Inr (ok, l', t') \<Longrightarrow>
            debugger_receive_buffer_offset t' = debugger_receive_buffer_offset t"
    and it: "receive_iteration pm ev l s = Inr r"
  shows "case r of
           Continue l' s' \<Rightarrow> unat (debugger_receive_buffer_offset s') \<le> JERRY_DEBUGGER_MAX_BUFFER_SIZE
         | Return b d s' \<Rightarrow> unat (debugger_receive_buffer_offset s') \<le> JERRY_DEBUGGER_MAX_BUFFER_SIZE"
proof -
  from it obtain fr where fr: "receive_frame ev s = Inr fr"
    by (auto simp: receive_iteration_def split: sum.splits)
  note ro = receive_frame_offset [OF fr]
  show ?thesis
  proof (cases fr)
    case (Closed s')
    with fr it ro show ?thesis by (auto simp: receive_iteration_def)
  next
    case (No_message s')
    with fr it ro show ?thesis by (auto simp: receive_iteration_def split: if_splits)
  next
    case (Message off n t s')
    with fr it have d: "dispatch_message pm off n t l s' = Inr r"
      by (simp add: receive_iteration_def)
    from ro Message have o: "off \<le> JERRY_DEBUGGER_MAX_BUFFER_SIZE"
      and f: "debugger_receive_buffer_offset s' = of_nat off" by simp_all
    from d obtain ok l' t' where pm: "pm n l s' = Inr (ok, l', t')"
      by (auto simp: dispatch_message_def split: sum.splits)
    from pm_offset [OF pm] f have f': "debugger_receive_buffer_offset t' = of_nat off" by simp
    from o have u: "unat (of_nat off :: u16) = off" "unat (of_nat (off - t) :: u16) = off - t"
      by (simp_all add: unat_u16_small ws_consts)
    from d pm f' u o show ?thesis
      by (auto simp: dispatch_message_def Let_def ws_consts split: if_splits)
  qed
qed

lemma receive_loop_offset:
  assumes pm_offset: "\<And>n l t ok l' t'. pm n l t = Inr (ok, l', t') \<Longrightarrow>
            debugger_receive_buffer_offset t' = debugger_receive_buffer_offset t"
  shows "receive_loop pm evs l s = Inr (b, d, s', rest) \<Longrightarrow>
           unat (debugger_receive_buffer_offset s') \<le> JERRY_DEBUGGER_MAX_BUFFER_SIZE"
proof (induction evs arbitrary: l s)
  case Nil
  then show ?case by simp
next
  case (Cons ev evs)
  from Cons.prems obtain r where r: "receive_iteration pm ev l s = Inr r"
    by (auto split: sum.splits)
  note io = receive_iteration_offset [OF pm_offset r]
  show ?case
  proof (cases r)
    case (Continue l1 s1)
    with r Cons.prems have "receive_loop pm evs l1 s1 = Inr (b, d, s', rest)" by simp
    from Cons.IH [OF this] show ?thesis .
  next
    case (Return b1 d1 s1)
    with r Cons.prems io show ?thesis by simp
  qed
qed

lemma receive_loop_no_overrun:
  assumes pm_offset: "\<And>n l t ok l' t'. pm n l t = Inr (ok, l', t') \<Longrightarrow>
            debugger_receive_buffer_offset t' = debugger_receive_buffer_offset t"
    and pm_bounds: "\<And>n l t. pm n l t \<noteq> Inl Out_of_bounds"
  shows "unat (debugger_receive_buffer_offset s) \<le> JERRY_DEBUGGER_MAX_BUFFER_SIZE \<Longrightarrow>
           receive_loop pm evs l s \<noteq> Inl Out_of_bounds"
proof (induction evs arbitrary: l s)
  case Nil
  then show ?case by simp
next
  case (Cons ev evs)
  show ?case
  proof (cases "receive_iteration pm ev l s")
    case it: (Inl err)
    have "err \<noteq> Out_of_bounds"
    proof
      assume e: "err = Out_of_bounds"
      show False
      proof (cases "receive_frame ev s")
        case (Inl err')
        with it e have "receive_frame ev s = Inl Out_of_bounds"
          by (simp add: receive_iteration_def)
        with Cons.prems show False
          by (cases ev)
             (auto simp: receive_frame_def receive_recv_def sys_recv_def check_frame_def
               close_as_frame_result_def jerry_debugger_close_connection_tcp_def Let_def
               split: if_splits sum.splits option.splits prod.splits)
      next
        case (Inr fr)
        with it e pm_bounds show False
          by (cases fr) (auto simp: receive_iteration_def dispatch_message_def Let_def
              split: if_splits sum.splits)
      qed
    qed
    with it show ?thesis by simp
  next
    case it: (Inr r)
    note io = receive_iteration_offset [OF pm_offset it]
    show ?thesis
    proof (cases r)
      case (Continue l1 s1)
      with io have "unat (debugger_receive_buffer_offset s1) \<le> JERRY_DEBUGGER_MAX_BUFFER_SIZE"
        by simp
      from Cons.IH [OF this] it Continue show ?thesis by simp
    next
      case (Return b1 d1 s1)
      with it show ?thesis by simp
    qed
  qed
qed

lemma receive_loop_consumes:
  "receive_loop pm evs l s = Inr (b, d, s', rest) \<Longrightarrow>
     \<exists>used. evs = used @ rest \<and> used \<noteq> []"
proof (induction evs arbitrary: l s)
  case Nil
  then show ?case by simp
next
  case (Cons ev evs)
  from Cons.prems obtain r where r: "receive_iteration pm ev l s = Inr r"
    by (auto split: sum.splits)
  show ?case
  proof (cases r)
    case (Continue l1 s1)
    with r Cons.prems have "receive_loop pm evs l1 s1 = Inr (b, d, s', rest)" by simp
    from Cons.IH [OF this] obtain used where "evs = used @ rest" by blast
    then have "ev # evs = (ev # used) @ rest \<and> ev # used \<noteq> []" by simp
    then show ?thesis by blast
  next
    case (Return b1 d1 s1)
    with r Cons.prems have "ev # evs = [ev] @ rest \<and> [ev] \<noteq> []" by simp
    then show ?thesis by blast
  qed
qed


lemmas eval_defs =
  jerry_debugger_receive_ws_def receive_iteration_def receive_frame_def receive_recv_def
  sys_recv_def check_frame_def dispatch_message_def memmove_def unmask_loop.simps
  close_as_frame_result_def jerry_debugger_close_connection_tcp_def jerry_port_log_def
  close_fd_def jerry_debugger_free_unreferenced_byte_code_def
  connected_state_def frame_state_def example_frame_def pm_continue_def initial_locals_def
  ws_consts flag_consts JERRY_DEBUGGER_MESSAGE_FREQUENCY_def Let_def

lemma torn_down_closed_state: "torn_down s (closed_state lines s)"
  by (simp add: torn_down_def closed_state_def)

text \<open>
  C7: in a connected session, a \<^verbatim>\<open>send\<close> or a \<^verbatim>\<open>recv\<close> that fails with an error other
  than \<^verbatim>\<open>EWOULDBLOCK\<close> ends in \<^verbatim>\<open>jerry_debugger_close_connection_tcp\<close>: the flags are
  exactly \<^verbatim>\<open>JERRY_DEBUGGER_VM_IGNORE\<close>, the socket is closed and the queue of byte code
  waiting to be freed is flushed. This holds for a failing \<^verbatim>\<open>send\<close> at any pass of the
  loop of \<^verbatim>\<open>jerry_debugger_send_tcp\<close>, so whenever that function returns \<^verbatim>\<open>false\<close>,
  and for a failing \<^verbatim>\<open>recv\<close> at any pass of the loop of \<^verbatim>\<open>jerry_debugger_receive_ws\<close>,
  which then returns \<^verbatim>\<open>true\<close>.
\<close>

theorem io_error_tears_down:
  assumes conn: "debugger_flags s AND JERRY_DEBUGGER_CONNECTED \<noteq> 0"
    and hard: "e \<noteq> EWOULDBLOCK"
  shows "(\<exists>s'. send_tcp_loop (Send_error e # evs) data s = Inr (False, s') \<and> torn_down s s')
     \<and> (\<exists>s'. jerry_debugger_send_tcp data (s\<lparr>send_script := Send_error e # evs\<rparr>) = Inr (False, s')
            \<and> torn_down s s')
     \<and> (\<forall>sc s'. jerry_debugger_send_tcp data (s\<lparr>send_script := sc\<rparr>) = Inr (False, s')
            \<longrightarrow> torn_down s s')
     \<and> (unat (debugger_receive_buffer_offset s) \<le> JERRY_DEBUGGER_MAX_BUFFER_SIZE \<longrightarrow>
          (\<exists>s'. receive_iteration pm (Recv_error e) l s = Inr (Return True (message_data l) s')
             \<and> torn_down s s'))"
proof -
  have a: "send_tcp_loop (Send_error e # evs) data t
             = Inr (False, closed_state [(JERRY_LOG_LEVEL_ERROR, Strerror e)]
                             (t\<lparr>errno := e, send_script := evs\<rparr>))"
    if "debugger_flags t AND JERRY_DEBUGGER_CONNECTED \<noteq> 0" for t
    using that hard
    by (simp add: jerry_debugger_close_connection_tcp_def jerry_port_log_def close_fd_def
        jerry_debugger_free_unreferenced_byte_code_def closed_state_def Let_def)
  have td: "torn_down s (closed_state lines (s\<lparr>errno := e, send_script := evs\<rparr>))" for lines
    by (simp add: torn_down_def closed_state_def)
  have 1: "\<exists>s'. send_tcp_loop (Send_error e # evs) data s = Inr (False, s') \<and> torn_down s s'"
    using a [OF conn] td by blast
  have 2: "\<exists>s'. jerry_debugger_send_tcp data (s\<lparr>send_script := Send_error e # evs\<rparr>) = Inr (False, s')
            \<and> torn_down s s'"
    using a [of "s\<lparr>send_script := Send_error e # evs\<rparr>"] conn td
    by (simp add: jerry_debugger_send_tcp_def)
  have 3: "torn_down s s'"
    if "jerry_debugger_send_tcp data (s\<lparr>send_script := sc\<rparr>) = Inr (False, s')" for sc s'
  proof -
    from that conn have "send_tcp_loop sc data (s\<lparr>send_script := sc\<rparr>) = Inr (False, s')"
      by (simp add: jerry_debugger_send_tcp_def)
    from send_tcp_loop_False [OF this] show ?thesis by (simp add: torn_down_def)
  qed
  have 4: "\<exists>s'. receive_iteration pm (Recv_error e) l s = Inr (Return True (message_data l) s')
             \<and> torn_down s s'"
    if le: "unat (debugger_receive_buffer_offset s) \<le> JERRY_DEBUGGER_MAX_BUFFER_SIZE"
  proof -
    from receive_recv_hard_error [OF conn hard le]
    have "receive_iteration pm (Recv_error e) l s
            = Inr (Return True (message_data l)
                (closed_state [(JERRY_LOG_LEVEL_ERROR, Strerror e)] (s\<lparr>errno := e\<rparr>)))"
      by (simp add: receive_iteration_def receive_frame_def)
    moreover have "torn_down s (closed_state [(JERRY_LOG_LEVEL_ERROR, Strerror e)] (s\<lparr>errno := e\<rparr>))"
      by (simp add: torn_down_def closed_state_def)
    ultimately show ?thesis by blast
  qed
  from 1 2 3 4 show ?thesis by blast
qed

theorem io_error_tears_down_witness:
  "(\<exists>s'. jerry_debugger_send_tcp [1, 2, 3]
            ((frame_state 0x82)\<lparr>debugger_byte_code_free_queue := [7, 9],
                                send_script := [Send_error EPIPE]\<rparr>) = Inr (False, s')
      \<and> debugger_flags s' = JERRY_DEBUGGER_VM_IGNORE \<and> fd s' = - 1 \<and> closed_fds s' = [4]
      \<and> debugger_byte_code_free_queue s' = [] \<and> released_byte_code s' = [7, 9])
   \<and> (\<exists>s'. receive_iteration pm_continue (Recv_error ECONNRESET) initial_locals
            ((frame_state 0x82)\<lparr>debugger_byte_code_free_queue := [7, 9]\<rparr>) = Inr (Return True None s')
      \<and> debugger_flags s' = JERRY_DEBUGGER_VM_IGNORE \<and> fd s' = - 1 \<and> closed_fds s' = [4]
      \<and> debugger_byte_code_free_queue s' = [] \<and> released_byte_code s' = [7, 9])"
proof -
  let ?s = "(frame_state 0x82)\<lparr>debugger_byte_code_free_queue := [7, 9]\<rparr>"
  have c: "debugger_flags ?s AND JERRY_DEBUGGER_CONNECTED \<noteq> 0"
    by (simp add: frame_state_def connected_state_def flag_consts)
  have le: "unat (debugger_receive_buffer_offset ?s) \<le> JERRY_DEBUGGER_MAX_BUFFER_SIZE"
    by (simp add: frame_state_def connected_state_def ws_consts)
  have h1: "EPIPE \<noteq> EWOULDBLOCK" and h2: "ECONNRESET \<noteq> EWOULDBLOCK" by simp_all
  from io_error_tears_down [OF c h1, of "[]" "[1, 2, 3]", THEN conjunct2, THEN conjunct1]
  have A: "\<exists>s'. jerry_debugger_send_tcp [1, 2, 3] (?s\<lparr>send_script := [Send_error EPIPE]\<rparr>) = Inr (False, s')
      \<and> torn_down ?s s'" .
  from io_error_tears_down [OF c h2, where pm = pm_continue and l = initial_locals]  le
  have B: "\<exists>s'. receive_iteration pm_continue (Recv_error ECONNRESET) initial_locals ?s
                 = Inr (Return True (message_data initial_locals) s') \<and> torn_down ?s s'"
    by blast
  from A B show ?thesis
    by (simp add: torn_down_def frame_state_def connected_state_def initial_locals_def)
qed


lemma memmove_front:
  "src + n \<le> length buf \<Longrightarrow> take n (memmove buf 0 src n) = take n (drop src buf)"
  by (simp add: memmove_def)

lemma memmove_length:
  "src + n \<le> length buf \<Longrightarrow> length (memmove buf 0 src n) = length buf"
  by (simp add: memmove_def)

text \<open>
  C6: the receive offset never exceeds the buffer size of 128 bytes in the receive loop.
  With a message handler that leaves the offset alone, a call of
  \<^verbatim>\<open>jerry_debugger_receive_ws\<close> that starts with an offset of at most 128 never reaches
  a \<^verbatim>\<open>recv\<close> with an offset above 128 and returns with an offset of at most 128, and
  so does every pass of its loop. Each \<^verbatim>\<open>recv\<close> takes at most 128 less the offset
  bytes, written at the offset; after a complete message of total size \<open>T\<close> has been
  handled, the bytes behind it are moved to the start of the buffer and the offset becomes
  the offset less \<open>T\<close>.
\<close>

theorem receive_offset_bounded:
  assumes pm_offset: "\<And>n l t ok l' t'. pm n l t = Inr (ok, l', t') \<Longrightarrow>
            debugger_receive_buffer_offset t' = debugger_receive_buffer_offset t"
    and pm_bounds: "\<And>n l t. pm n l t \<noteq> Inl Out_of_bounds"
    and inv: "unat (debugger_receive_buffer_offset s) \<le> JERRY_DEBUGGER_MAX_BUFFER_SIZE"
  shows "jerry_debugger_receive_ws pm evs d s \<noteq> Inl Out_of_bounds
     \<and> (\<forall>b d' s' rest. jerry_debugger_receive_ws pm evs d s = Inr (b, d', s', rest) \<longrightarrow>
          unat (debugger_receive_buffer_offset s') \<le> JERRY_DEBUGGER_MAX_BUFFER_SIZE)
     \<and> (\<forall>ev l r. receive_iteration pm ev l s = Inr r \<longrightarrow>
          (case r of
             Continue l' s' \<Rightarrow>
               unat (debugger_receive_buffer_offset s') \<le> JERRY_DEBUGGER_MAX_BUFFER_SIZE
           | Return b d' s' \<Rightarrow>
               unat (debugger_receive_buffer_offset s') \<le> JERRY_DEBUGGER_MAX_BUFFER_SIZE))
     \<and> (\<forall>bs. \<exists>data.
          data = take (JERRY_DEBUGGER_MAX_BUFFER_SIZE - unat (debugger_receive_buffer_offset s)) bs
          \<and> unat (debugger_receive_buffer_offset s) + length data \<le> JERRY_DEBUGGER_MAX_BUFFER_SIZE
          \<and> receive_recv (Recv_bytes bs) s =
              Inr (Some (unat (debugger_receive_buffer_offset s) + length data),
                s\<lparr>debugger_receive_buffer :=
                     take (unat (debugger_receive_buffer_offset s)) (debugger_receive_buffer s)
                       @ data
                       @ drop (unat (debugger_receive_buffer_offset s) + length data)
                           (debugger_receive_buffer s),
                   debugger_receive_buffer_offset :=
                     of_nat (unat (debugger_receive_buffer_offset s) + length data)\<rparr>))
     \<and> (\<forall>offset n T l l' t t'.
          pm n l t = Inr (True, l', t') \<and> T \<le> offset \<and> offset \<le> length (debugger_receive_buffer t') \<longrightarrow>
          (\<exists>t''. dispatch_message pm offset n T l t = Inr (Continue l' t'')
             \<and> debugger_receive_buffer_offset t'' = of_nat (offset - T)
             \<and> take (offset - T) (debugger_receive_buffer t'')
                 = take (offset - T) (drop T (debugger_receive_buffer t'))
             \<and> length (debugger_receive_buffer t'') = length (debugger_receive_buffer t')))"
proof -
  let ?B = JERRY_DEBUGGER_MAX_BUFFER_SIZE
  let ?l0 = "\<lparr>resume_exec = False, expected_message_type = 0, message_data = d\<rparr>"
  let ?s0 = "s\<lparr>debugger_message_delay := JERRY_DEBUGGER_MESSAGE_FREQUENCY\<rparr>"
  have inv0: "unat (debugger_receive_buffer_offset ?s0) \<le> ?B" using inv by simp
  have 1: "jerry_debugger_receive_ws pm evs d s \<noteq> Inl Out_of_bounds"
    using receive_loop_no_overrun [of pm ?s0 evs ?l0, OF pm_offset pm_bounds inv0]
    by (simp add: jerry_debugger_receive_ws_def)
  have 2: "unat (debugger_receive_buffer_offset s') \<le> ?B"
    if "jerry_debugger_receive_ws pm evs d s = Inr (b, d', s', rest)" for b d' s' rest
  proof -
    from that have "receive_loop pm evs ?l0 ?s0 = Inr (b, d', s', rest)"
      by (simp add: jerry_debugger_receive_ws_def split: if_splits)
    from receive_loop_offset [of pm evs ?l0 ?s0, OF pm_offset this] show ?thesis .
  qed
  have 3: "case r of
             Continue l' s' \<Rightarrow> unat (debugger_receive_buffer_offset s') \<le> ?B
           | Return b d' s' \<Rightarrow> unat (debugger_receive_buffer_offset s') \<le> ?B"
    if "receive_iteration pm ev l s = Inr r" for ev l r
    using receive_iteration_offset [of pm ev l s r, OF pm_offset that] .
  have 4: "\<exists>data.
          data = take (?B - unat (debugger_receive_buffer_offset s)) bs
          \<and> unat (debugger_receive_buffer_offset s) + length data \<le> ?B
          \<and> receive_recv (Recv_bytes bs) s =
              Inr (Some (unat (debugger_receive_buffer_offset s) + length data),
                s\<lparr>debugger_receive_buffer :=
                     take (unat (debugger_receive_buffer_offset s)) (debugger_receive_buffer s)
                       @ data
                       @ drop (unat (debugger_receive_buffer_offset s) + length data)
                           (debugger_receive_buffer s),
                   debugger_receive_buffer_offset :=
                     of_nat (unat (debugger_receive_buffer_offset s) + length data)\<rparr>)" for bs
    using receive_recv_bytes [OF inv, of bs] inv by (simp add: Let_def)
  have 5: "\<exists>t''. dispatch_message pm offset n T l t = Inr (Continue l' t'')
             \<and> debugger_receive_buffer_offset t'' = of_nat (offset - T)
             \<and> take (offset - T) (debugger_receive_buffer t'')
                 = take (offset - T) (drop T (debugger_receive_buffer t'))
             \<and> length (debugger_receive_buffer t'') = length (debugger_receive_buffer t')"
    if "pm n l t = Inr (True, l', t')" "T \<le> offset" "offset \<le> length (debugger_receive_buffer t')"
    for offset n T l l' t t'
  proof (cases "T < offset")
    case True
    with that have "T + (offset - T) \<le> length (debugger_receive_buffer t')" by simp
    from memmove_front [OF this] memmove_length [OF this] that(1) True show ?thesis
      by (simp add: dispatch_message_def Let_def)
  next
    case False
    with that show ?thesis by (simp add: dispatch_message_def Let_def)
  qed
  from 1 2 3 4 5 show ?thesis by blast
qed


lemma pm_continue_offset:
  "pm_continue n l t = Inr (ok, l', t') \<Longrightarrow>
     debugger_receive_buffer_offset t' = debugger_receive_buffer_offset t"
  by (simp add: pm_continue_def)

lemma pm_continue_bounds: "pm_continue n l t \<noteq> Inl Out_of_bounds"
  by (simp add: pm_continue_def)

theorem receive_offset_bounded_witness:
  "jerry_debugger_receive_ws pm_continue
     [Recv_bytes (example_frame 0x82 @ [0x82, 0x83]), Recv_error EWOULDBLOCK] None connected_state
     \<noteq> Inl Out_of_bounds
   \<and> (\<exists>s'. jerry_debugger_receive_ws pm_continue
              [Recv_bytes (example_frame 0x82 @ [0x82, 0x83]), Recv_error EWOULDBLOCK] None
              connected_state = Inr (False, None, s', [])
          \<and> unat (debugger_receive_buffer_offset s') \<le> JERRY_DEBUGGER_MAX_BUFFER_SIZE
          \<and> debugger_receive_buffer_offset s' = 2
          \<and> take 2 (debugger_receive_buffer s') = [0x82, 0x83])"
proof -
  let ?evs = "[Recv_bytes (example_frame 0x82 @ [0x82, 0x83]), Recv_error EWOULDBLOCK]"
  have inv: "unat (debugger_receive_buffer_offset connected_state) \<le> JERRY_DEBUGGER_MAX_BUFFER_SIZE"
    by (simp add: connected_state_def)
  have ev: "\<exists>s'. jerry_debugger_receive_ws pm_continue ?evs None connected_state
                   = Inr (False, None, s', [])
          \<and> debugger_receive_buffer_offset s' = 2
          \<and> take 2 (debugger_receive_buffer s') = [0x82, 0x83]"
    by (simp add: eval_defs)
  then obtain s' where s': "jerry_debugger_receive_ws pm_continue ?evs None connected_state
                   = Inr (False, None, s', [])"
    and rest: "debugger_receive_buffer_offset s' = 2"
      "take 2 (debugger_receive_buffer s') = [0x82, 0x83]" by blast
  have a: "jerry_debugger_receive_ws pm_continue ?evs None connected_state \<noteq> Inl Out_of_bounds"
    by (rule receive_offset_bounded [THEN conjunct1])
       (erule pm_continue_offset, rule pm_continue_bounds, rule inv)
  have "\<forall>b d' s' rest. jerry_debugger_receive_ws pm_continue ?evs None connected_state
            = Inr (b, d', s', rest) \<longrightarrow>
          unat (debugger_receive_buffer_offset s') \<le> JERRY_DEBUGGER_MAX_BUFFER_SIZE"
    by (rule receive_offset_bounded [THEN conjunct2, THEN conjunct1])
       (erule pm_continue_offset, rule pm_continue_bounds, rule inv)
  with s' have "unat (debugger_receive_buffer_offset s') \<le> JERRY_DEBUGGER_MAX_BUFFER_SIZE"
    by blast
  with a s' rest show ?thesis by blast
qed

subsection \<open>A pass of the receive loop\<close>

lemma unat_ucast_u16_u32: "unat (ucast (x :: u16) :: u32) = unat x"
proof -
  have "unat x < 2 ^ 16" using unsigned_less [of x] by simp
  then have "unat x < 2 ^ 32" by simp
  then show ?thesis by (simp add: unsigned_ucast_eq take_bit_nat_eq_self)
qed

lemma sys_recv_state:
  assumes "sys_recv ev buf off len s0 = (k, buf1, s1)"
  shows "debugger_flags s1 = debugger_flags s0"
    and "debugger_max_receive_size s1 = debugger_max_receive_size s0"
    and "port_log s1 = port_log s0" and "fd s1 = fd s0" and "closed_fds s1 = closed_fds s0"
    and "debugger_receive_buffer_offset s1 = debugger_receive_buffer_offset s0"
    and "0 \<le> k \<Longrightarrow> nat k \<le> len"
  using assms by (auto simp: sys_recv_def Let_def split: recv_result.splits)

lemma sys_recv_errno:
  assumes "sys_recv ev buf off len s0 = (k, buf1, s1)"
  shows "s1 = s0\<lparr>errno := errno s1\<rparr>"
  using assms by (auto simp: sys_recv_def Let_def split: recv_result.splits)

lemma receive_recv_sys:
  assumes le: "unat (debugger_receive_buffer_offset s0) \<le> JERRY_DEBUGGER_MAX_BUFFER_SIZE"
    and sr: "sys_recv ev (debugger_receive_buffer s0) (unat (debugger_receive_buffer_offset s0))
               (JERRY_DEBUGGER_MAX_BUFFER_SIZE - unat (debugger_receive_buffer_offset s0)) s0
             = (k, buf1, s1)"
  shows "receive_recv ev s0 =
     (if k < 0 \<and> errno s1 \<noteq> EWOULDBLOCK
      then (case jerry_debugger_close_connection_tcp True (s1\<lparr>debugger_receive_buffer := buf1\<rparr>) of
              Inl err \<Rightarrow> Inl err
            | Inr s' \<Rightarrow> Inr (None, s'))
      else Inr (Some (unat (debugger_receive_buffer_offset s0) + (if k < 0 then 0 else nat k)),
             s1\<lparr>debugger_receive_buffer := buf1,
                debugger_receive_buffer_offset :=
                  of_nat (unat (debugger_receive_buffer_offset s0) + (if k < 0 then 0 else nat k))\<rparr>))"
  using le by (simp add: receive_recv_def sr Let_def)

lemma receive_iteration_pass:
  assumes conn: "debugger_flags s0 AND JERRY_DEBUGGER_CONNECTED \<noteq> 0"
    and le: "unat (debugger_receive_buffer_offset s0) \<le> JERRY_DEBUGGER_MAX_BUFFER_SIZE"
    and sr: "sys_recv ev (debugger_receive_buffer s0) (unat (debugger_receive_buffer_offset s0))
               (JERRY_DEBUGGER_MAX_BUFFER_SIZE - unat (debugger_receive_buffer_offset s0)) s0
             = (k, buf1, s1)"
    and o: "offset = unat (debugger_receive_buffer_offset s0) + (if k < 0 then 0 else nat k)"
    and s: "s = s1\<lparr>debugger_receive_buffer := buf1, debugger_receive_buffer_offset := of_nat offset\<rparr>"
  shows "receive_iteration pm ev l s0 =
     (if k < 0 \<and> errno s1 \<noteq> EWOULDBLOCK
      then Inr (Return True (message_data l)
             (closed_state [(JERRY_LOG_LEVEL_ERROR, Strerror (errno s1))]
                (s1\<lparr>debugger_receive_buffer := buf1\<rparr>)))
      else if offset < 6
              \<or> (frame_accepted buf1 (debugger_max_receive_size s0) \<and> offset < frame_size buf1 + 6)
      then (if expected_message_type l \<noteq> 0 then Inr (Continue l s)
            else Inr (Return (resume_exec l) (message_data l) s))
      else if \<not> frame_accepted buf1 (debugger_max_receive_size s0)
      then Inr (Return True (message_data l)
             (closed_state
                [(JERRY_LOG_LEVEL_ERROR, Text (rejection buf1 (debugger_max_receive_size s0)))] s))
      else dispatch_message pm offset (frame_size buf1) (frame_size buf1 + 6) l
             (s\<lparr>debugger_receive_buffer := unmask_loop buf1 6 2 6 (6 + frame_size buf1)\<rparr>))"
proof -
  note st = sys_recv_state [OF sr]
  show ?thesis
  proof (cases "k < 0 \<and> errno s1 \<noteq> EWOULDBLOCK")
    case True
    have c1: "debugger_flags (s1\<lparr>debugger_receive_buffer := buf1\<rparr>) AND JERRY_DEBUGGER_CONNECTED \<noteq> 0"
      using conn st(1) by simp
    from True receive_recv_sys [OF le sr] close_connection_tcp_connected [OF c1, of True]
    have "receive_recv ev s0 = Inr (None, closed_state [(JERRY_LOG_LEVEL_ERROR, Strerror (errno s1))]
                (s1\<lparr>debugger_receive_buffer := buf1\<rparr>))"
      by (simp add: closed_state_def)
    with True show ?thesis by (simp add: receive_iteration_def receive_frame_def)
  next
    case False
    with receive_recv_sys [OF le sr] o s
    have rr: "receive_recv ev s0 = Inr (Some offset, s)" by simp
    have c: "debugger_flags s AND JERRY_DEBUGGER_CONNECTED \<noteq> 0" using conn st(1) s by simp
    have b: "debugger_receive_buffer s = buf1"
      "debugger_max_receive_size s = debugger_max_receive_size s0"
      using s st(2) by simp_all
    note cf = check_frame_cases [OF c, of offset, unfolded b]
    have "receive_iteration pm ev l s0 =
     (if offset < 6
              \<or> (frame_accepted buf1 (debugger_max_receive_size s0) \<and> offset < frame_size buf1 + 6)
      then (if expected_message_type l \<noteq> 0 then Inr (Continue l s)
            else Inr (Return (resume_exec l) (message_data l) s))
      else if \<not> frame_accepted buf1 (debugger_max_receive_size s0)
      then Inr (Return True (message_data l)
             (closed_state
                [(JERRY_LOG_LEVEL_ERROR, Text (rejection buf1 (debugger_max_receive_size s0)))] s))
      else dispatch_message pm offset (frame_size buf1) (frame_size buf1 + 6) l
             (s\<lparr>debugger_receive_buffer := unmask_loop buf1 6 2 6 (6 + frame_size buf1)\<rparr>))"
      by (simp add: receive_iteration_def receive_frame_def rr cf)
    then show ?thesis by (simp only: False if_False)
  qed
qed

lemma dispatch_message_eq:
  "dispatch_message pm offset n T l s =
     (case pm n l s of
        Inl err \<Rightarrow> Inl err
      | Inr (ok, l', s') \<Rightarrow>
          if ok
          then Inr (Continue l'
                 (s'\<lparr>debugger_receive_buffer :=
                       (if T < offset then memmove (debugger_receive_buffer s') 0 T (offset - T)
                        else debugger_receive_buffer s'),
                     debugger_receive_buffer_offset := of_nat (offset - T)\<rparr>))
          else Inr (Return True (message_data l') s'))"
  by (simp add: dispatch_message_def Let_def split: sum.splits)

lemma receive_ws_p1_pass:
  assumes le: "unat data_offset \<le> JERRY_DEBUGGER_MAX_BUFFER_SIZE"
    and sr: "sys_recv ev buf (unat data_offset) (JERRY_DEBUGGER_MAX_BUFFER_SIZE - unat data_offset) s0
             = (k, buf1, s1)"
    and o: "offset = unat data_offset + (if k < 0 then 0 else nat k)"
  shows "jerry_debugger_receive_ws_p1 ev buf data_size data_offset s0 =
     (if k < 0 \<and> errno s1 \<noteq> EWOULDBLOCK
      then Inr (False, buf1, data_size, data_offset, s1)
      else if offset < 6 \<or> (frame_accepted buf1 122 \<and> offset < frame_size buf1 + 6)
      then Inr (True, buf1, data_size, of_nat offset, s1)
      else if \<not> frame_accepted buf1 122
      then Inr (False, buf1, data_size, of_nat offset,
             jerry_port_log JERRY_LOG_LEVEL_ERROR (Text (rejection buf1 122)) s1)
      else Inr (True, unmask_loop buf1 6 2 6 (6 + frame_size buf1), frame_size buf1,
             of_nat offset, s1))"
proof -
  let ?first = "buf1 ! 0 AND NOT 0x0f = 0x80 \<and> buf1 ! 1 AND 0x7f \<le> 122 \<and> buf1 ! 1 AND 0x80 \<noteq> 0"
  have cf: "check_frame_p1 buf1 data_size offset s1 =
     (if offset < 6 \<or> (frame_accepted buf1 122 \<and> offset < frame_size buf1 + 6)
      then (True, buf1, data_size, s1)
      else if \<not> frame_accepted buf1 122
      then (False, buf1, data_size,
             jerry_port_log JERRY_LOG_LEVEL_ERROR (Text (rejection buf1 122)) s1)
      else (True, unmask_loop buf1 6 2 6 (6 + frame_size buf1), frame_size buf1, s1))"
  proof -
    consider (good) "?first" "buf1 ! 0 AND 0x0f = 2" | (opcode) "?first" "buf1 ! 0 AND 0x0f \<noteq> 2"
      | (header) "\<not> ?first" by blast
    then show ?thesis
    proof cases
      case good
      then have acc: "frame_accepted buf1 122" by (simp add: frame_accepted_iff)
      from good acc show ?thesis
        by (auto simp: check_frame_p1_def ws_consts Let_def frame_size_def not_le not_less)
    next
      case opcode
      then have acc: "\<not> frame_accepted buf1 122" by (simp add: frame_accepted_iff)
      from opcode have r: "rejection buf1 122 = ''Unsupported Websocket opcode.\<newline>''"
        by (simp add: rejection_eq)
      from opcode acc r show ?thesis
        by (auto simp: check_frame_p1_def ws_consts Let_def not_le not_less)
    next
      case header
      then have acc: "\<not> frame_accepted buf1 122" by (simp add: frame_accepted_iff)
      from header have r: "rejection buf1 122 = ''Unsupported Websocket message.\<newline>''"
        by (simp add: rejection_eq)
      from header acc r show ?thesis
        by (auto simp: check_frame_p1_def ws_consts Let_def not_le not_less)
    qed
  qed
  have after: "(case check_frame_p1 buf1 data_size offset s1 of
            (ok, b', ds', s2) \<Rightarrow> Inr (ok, b', ds', w, s2)) =
     (if offset < 6 \<or> (frame_accepted buf1 122 \<and> offset < frame_size buf1 + 6)
      then Inr (True, buf1, data_size, w, s1)
      else if \<not> frame_accepted buf1 122
      then Inr (False, buf1, data_size, w,
             jerry_port_log JERRY_LOG_LEVEL_ERROR (Text (rejection buf1 122)) s1)
      else Inr (True, unmask_loop buf1 6 2 6 (6 + frame_size buf1), frame_size buf1, w, s1))"
    for w :: u32
    by (simp add: cf)
  have eq: "unat data_offset + nat (if k < 0 then 0 else k) = offset" using o by simp
  have "jerry_debugger_receive_ws_p1 ev buf data_size data_offset s0 =
     (if k < 0 \<and> errno s1 \<noteq> EWOULDBLOCK
      then Inr (False, buf1, data_size, data_offset, s1)
      else (case check_frame_p1 buf1 data_size
                   (unat data_offset + nat (if k < 0 then 0 else k)) s1 of
              (ok, b', ds', s2) \<Rightarrow>
                Inr (ok, b', ds', of_nat (unat data_offset + nat (if k < 0 then 0 else k)), s2)))"
    using le by (simp add: jerry_debugger_receive_ws_p1_def sr Let_def)
  then show ?thesis by (simp only: eq after)
qed


lemma receive_ws_p1_pass_u16:
  assumes le: "unat (off :: u16) \<le> JERRY_DEBUGGER_MAX_BUFFER_SIZE"
    and sr: "sys_recv ev buf (unat off) (JERRY_DEBUGGER_MAX_BUFFER_SIZE - unat off) s0 = (k, buf1, s1)"
    and o: "offset = unat off + (if k < 0 then 0 else nat k)"
  shows "jerry_debugger_receive_ws_p1 ev buf data_size (ucast off) s0 =
     (if k < 0 \<and> errno s1 \<noteq> EWOULDBLOCK
      then Inr (False, buf1, data_size, ucast off, s1)
      else if offset < 6 \<or> (frame_accepted buf1 122 \<and> offset < frame_size buf1 + 6)
      then Inr (True, buf1, data_size, of_nat offset, s1)
      else if \<not> frame_accepted buf1 122
      then Inr (False, buf1, data_size, of_nat offset,
             jerry_port_log JERRY_LOG_LEVEL_ERROR (Text (rejection buf1 122)) s1)
      else Inr (True, unmask_loop buf1 6 2 6 (6 + frame_size buf1), frame_size buf1,
             of_nat offset, s1))"
proof -
  have u: "unat (ucast off :: u32) = unat off" by (rule unat_ucast_u16_u32)
  from le have le1: "unat (ucast off :: u32) \<le> JERRY_DEBUGGER_MAX_BUFFER_SIZE" by (simp only: u)
  from sr have sr1: "sys_recv ev buf (unat (ucast off :: u32))
      (JERRY_DEBUGGER_MAX_BUFFER_SIZE - unat (ucast off :: u32)) s0 = (k, buf1, s1)"
    by (simp only: u)
  from o have o1: "offset = unat (ucast off :: u32) + (if k < 0 then 0 else nat k)"
    by (simp only: u)
  from receive_ws_p1_pass [OF le1 sr1 o1] show ?thesis .
qed

lemma example_recv:
  "sys_recv (Recv_bytes (example_frame b)) (debugger_receive_buffer connected_state)
     (unat (debugger_receive_buffer_offset connected_state))
     (JERRY_DEBUGGER_MAX_BUFFER_SIZE - unat (debugger_receive_buffer_offset connected_state))
     connected_state
   = (9, example_frame b @ replicate 119 0, connected_state)"
  by (simp add: sys_recv_def connected_state_def example_frame_def ws_consts)

lemma example_frame_size: "frame_size (example_frame b @ replicate 119 0) = 3"
  by (simp add: frame_size_def example_frame_def)

lemma frame_state_recv:
  "sys_recv (Recv_error EWOULDBLOCK) (debugger_receive_buffer (frame_state b))
     (unat (debugger_receive_buffer_offset (frame_state b)))
     (JERRY_DEBUGGER_MAX_BUFFER_SIZE - unat (debugger_receive_buffer_offset (frame_state b)))
     (frame_state b)
   = (- 1, example_frame b @ replicate 119 0, (frame_state b)\<lparr>errno := EWOULDBLOCK\<rparr>)"
  by (simp add: sys_recv_def frame_state_def)

lemma sys_recv_bytes_at:
  assumes sr: "sys_recv (Recv_bytes bs) buf off len s0 = (k, buf1, s1)"
    and fit: "off + len \<le> length buf"
  shows "k = int (min len (length bs))" and "s1 = s0" and "length buf1 = length buf"
    and "\<forall>i<length buf. buf1 ! i = (if off \<le> i \<and> i < off + nat k then bs ! (i - off) else buf ! i)"
proof -
  define data where "data = take len bs"
  from sr have k: "k = int (length data)" and s1: "s1 = s0"
    and b: "buf1 = take off buf @ data @ drop (off + length data) buf"
    by (simp_all add: sys_recv_def data_def Let_def)
  have ld: "length data = min len (length bs)" by (simp add: data_def min.commute)
  show "k = int (min len (length bs))" using k ld by simp
  show "s1 = s0" by (rule s1)
  have dl: "length data \<le> len" by (simp add: data_def)
  show "length buf1 = length buf" using b fit dl by simp
  show "\<forall>i<length buf. buf1 ! i = (if off \<le> i \<and> i < off + nat k then bs ! (i - off) else buf ! i)"
  proof (intro allI impI)
    fix i assume i: "i < length buf"
    have lo: "length (take off buf) = off" using fit by simp
    consider (before) "i < off" | (inside) "off \<le> i" "i < off + length data"
      | (behind) "off + length data \<le> i" by linarith
    then show "buf1 ! i = (if off \<le> i \<and> i < off + nat k then bs ! (i - off) else buf ! i)"
    proof cases
      case before
      then show ?thesis using b lo k by (simp add: nth_append)
    next
      case inside
      then have lt: "i - off < length data" by arith
      from inside lt have "buf1 ! i = data ! (i - off)" using b lo by (simp add: nth_append)
      also have "\<dots> = bs ! (i - off)" using inside by (simp add: data_def)
      finally show ?thesis using inside k by simp
    next
      case behind
      then have ge: "\<not> i < off" "\<not> i - off < length data" by arith+
      from behind ge have "buf1 ! i = drop (off + length data) buf ! (i - off - length data)"
        using b lo by (simp add: nth_append)
      also have "\<dots> = buf ! i" using behind i by simp
      finally show ?thesis using behind k by simp
    qed
  qed
qed

text \<open>
  C2, as stated, fails in two places. \<^verbatim>\<open>jerry_debugger_receive_ws\<close> of \<^verbatim>\<open>part_001\<close>
  logs a completed text frame as an error and returns \<^verbatim>\<open>false\<close>, but does not close
  the connection: the session is as connected as before. And in \<^verbatim>\<open>part_002\<close> a
  completed valid frame is not dispatched when the \<^verbatim>\<open>recv\<close> of its pass fails: of two
  frames that arrive in one segment, followed by a reset of the connection, only the
  first reaches the handler.
\<close>

theorem text_frame_not_closed_counterexample:
  "jerry_debugger_receive_ws_p1 (Recv_bytes (example_frame 0x81)) (replicate 128 0) 0 0 connected_state
     = Inr (False, example_frame 0x81 @ replicate 119 0, 0, 9,
         connected_state\<lparr>port_log :=
           [(JERRY_LOG_LEVEL_ERROR, Text ''Unsupported Websocket opcode.\<newline>'')]\<rparr>)
   \<and> debugger_flags connected_state = JERRY_DEBUGGER_CONNECTED
   \<and> fd connected_state = 4
   \<and> closed_fds connected_state = []
   \<and> (\<exists>s'. jerry_debugger_receive_ws pm_record
              [Recv_bytes (example_frame 0x82 @ example_frame 0x82), Recv_error ECONNRESET] None
              connected_state = Inr (True, None, s', [])
          \<and> port_log s' =
              [(JERRY_LOG_LEVEL_DEBUG, Text ''message handled''),
               (JERRY_LOG_LEVEL_ERROR, Strerror ECONNRESET),
               (JERRY_LOG_LEVEL_DEBUG, Text ''Debugger client connection closed.\<newline>'')]
          \<and> take 9 (debugger_receive_buffer s') = example_frame 0x82
          \<and> debugger_receive_buffer_offset s' = 9)"
proof -
  have a: "jerry_debugger_receive_ws_p1 (Recv_bytes (example_frame 0x81)) (replicate 128 0) 0 0
             connected_state
     = Inr (False, example_frame 0x81 @ replicate 119 0, 0, 9,
         connected_state\<lparr>port_log :=
           [(JERRY_LOG_LEVEL_ERROR, Text ''Unsupported Websocket opcode.\<newline>'')]\<rparr>)"
    by (simp add: jerry_debugger_receive_ws_p1_def check_frame_p1_def sys_recv_def
        jerry_port_log_def example_frame_def connected_state_def ws_consts Let_def)
  have b: "debugger_flags connected_state = JERRY_DEBUGGER_CONNECTED \<and> fd connected_state = 4
      \<and> closed_fds connected_state = []"
    by (simp add: connected_state_def)
  have c: "\<exists>s'. jerry_debugger_receive_ws pm_record
              [Recv_bytes (example_frame 0x82 @ example_frame 0x82), Recv_error ECONNRESET] None
              connected_state = Inr (True, None, s', [])
          \<and> port_log s' =
              [(JERRY_LOG_LEVEL_DEBUG, Text ''message handled''),
               (JERRY_LOG_LEVEL_ERROR, Strerror ECONNRESET),
               (JERRY_LOG_LEVEL_DEBUG, Text ''Debugger client connection closed.\<newline>'')]
          \<and> take 9 (debugger_receive_buffer s') = example_frame 0x82
          \<and> debugger_receive_buffer_offset s' = 9"
    by (simp add: eval_defs pm_record_def)
  from a b c show ?thesis by blast
qed

text \<open>
  C2, amended: let a pass of the loop of \<^verbatim>\<open>jerry_debugger_receive_ws\<close> of
  \<^verbatim>\<open>part_002\<close>, or a call of \<^verbatim>\<open>jerry_debugger_receive_ws\<close> of \<^verbatim>\<open>part_001\<close> on the
  same buffer and offset, make its \<^verbatim>\<open>recv\<close>. If the \<^verbatim>\<open>recv\<close> fails with an error
  other than \<^verbatim>\<open>EWOULDBLOCK\<close>, \<^verbatim>\<open>part_002\<close> closes the connection and returns
  \<^verbatim>\<open>true\<close>, \<^verbatim>\<open>part_001\<close> returns \<^verbatim>\<open>false\<close>, and the buffer is not looked at.
  Otherwise a completed frame in the buffer is accepted if and only if its first byte has
  the FIN bit and no reserved bit, its opcode is BINARY, its mask bit is set and its
  7-bit length is at most the maximum, which is the configured one in \<^verbatim>\<open>part_002\<close> and
  122 in \<^verbatim>\<open>part_001\<close>. An accepted frame is unmasked; \<^verbatim>\<open>part_002\<close> hands it to the
  message handler and goes on or returns as the handler says, \<^verbatim>\<open>part_001\<close> returns
  \<^verbatim>\<open>true\<close> with its size in \<^verbatim>\<open>*data_size\<close>. Every other completed frame is logged as
  an error and not handed on; \<^verbatim>\<open>part_002\<close> closes the connection and returns
  \<^verbatim>\<open>true\<close> in the same pass, \<^verbatim>\<open>part_001\<close> returns \<^verbatim>\<open>false\<close> and leaves the
  connection open.
\<close>

theorem completed_frame_accepted_iff:
  assumes le: "unat (debugger_receive_buffer_offset s0) \<le> JERRY_DEBUGGER_MAX_BUFFER_SIZE"
    and sr: "sys_recv ev (debugger_receive_buffer s0) (unat (debugger_receive_buffer_offset s0))
               (JERRY_DEBUGGER_MAX_BUFFER_SIZE - unat (debugger_receive_buffer_offset s0)) s0
             = (k, buf1, s1)"
    and o: "offset = unat (debugger_receive_buffer_offset s0) + (if k < 0 then 0 else nat k)"
    and s: "s = s1\<lparr>debugger_receive_buffer := buf1, debugger_receive_buffer_offset := of_nat offset\<rparr>"
  shows
    "(debugger_flags s0 AND JERRY_DEBUGGER_CONNECTED \<noteq> 0
        \<and> k < 0 \<and> errno s1 \<noteq> EWOULDBLOCK \<longrightarrow>
        receive_iteration pm ev l s0 =
          Inr (Return True (message_data l)
            (closed_state [(JERRY_LOG_LEVEL_ERROR, Strerror (errno s1))]
               (s1\<lparr>debugger_receive_buffer := buf1\<rparr>))))
     \<and> (k < 0 \<and> errno s1 \<noteq> EWOULDBLOCK \<longrightarrow>
        jerry_debugger_receive_ws_p1 ev (debugger_receive_buffer s0) data_size
            (ucast (debugger_receive_buffer_offset s0)) s0 =
          Inr (False, buf1, data_size, ucast (debugger_receive_buffer_offset s0), s1))
     \<and> (debugger_flags s0 AND JERRY_DEBUGGER_CONNECTED \<noteq> 0
        \<and> \<not> (k < 0 \<and> errno s1 \<noteq> EWOULDBLOCK) \<and> frame_size buf1 + 6 \<le> offset
        \<and> frame_accepted buf1 (debugger_max_receive_size s0) \<longrightarrow>
        receive_iteration pm ev l s0 =
          (case pm (frame_size buf1) l
                  (s\<lparr>debugger_receive_buffer :=
                       unmask_loop buf1 6 2 6 (6 + frame_size buf1)\<rparr>) of
             Inl err \<Rightarrow> Inl err
           | Inr (ok, l', s') \<Rightarrow>
               if ok
               then Inr (Continue l'
                      (s'\<lparr>debugger_receive_buffer :=
                            (if frame_size buf1 + 6 < offset
                             then memmove (debugger_receive_buffer s') 0 (frame_size buf1 + 6)
                                    (offset - (frame_size buf1 + 6))
                             else debugger_receive_buffer s'),
                          debugger_receive_buffer_offset :=
                            of_nat (offset - (frame_size buf1 + 6))\<rparr>))
               else Inr (Return True (message_data l') s')))
     \<and> (debugger_flags s0 AND JERRY_DEBUGGER_CONNECTED \<noteq> 0
        \<and> \<not> (k < 0 \<and> errno s1 \<noteq> EWOULDBLOCK) \<and> frame_size buf1 + 6 \<le> offset
        \<and> \<not> frame_accepted buf1 (debugger_max_receive_size s0) \<longrightarrow>
        receive_iteration pm ev l s0 =
          Inr (Return True (message_data l)
            (closed_state
               [(JERRY_LOG_LEVEL_ERROR, Text (rejection buf1 (debugger_max_receive_size s0)))] s)))
     \<and> (\<not> (k < 0 \<and> errno s1 \<noteq> EWOULDBLOCK) \<and> frame_size buf1 + 6 \<le> offset
        \<and> frame_accepted buf1 122 \<longrightarrow>
        jerry_debugger_receive_ws_p1 ev (debugger_receive_buffer s0) data_size
            (ucast (debugger_receive_buffer_offset s0)) s0 =
          Inr (True, unmask_loop buf1 6 2 6 (6 + frame_size buf1), frame_size buf1,
            of_nat offset, s1))
     \<and> (\<not> (k < 0 \<and> errno s1 \<noteq> EWOULDBLOCK) \<and> frame_size buf1 + 6 \<le> offset
        \<and> \<not> frame_accepted buf1 122 \<longrightarrow>
        jerry_debugger_receive_ws_p1 ev (debugger_receive_buffer s0) data_size
            (ucast (debugger_receive_buffer_offset s0)) s0 =
          Inr (False, buf1, data_size, of_nat offset,
            s0\<lparr>errno := errno s1,
               port_log := port_log s0 @ [(JERRY_LOG_LEVEL_ERROR, Text (rejection buf1 122))]\<rparr>))"
proof -
  define hard where "hard = (k < 0 \<and> errno s1 \<noteq> EWOULDBLOCK)"
  define conn where "conn = (debugger_flags s0 AND JERRY_DEBUGGER_CONNECTED \<noteq> 0)"
  have P: "receive_iteration pm ev l s0 =
     (if hard
      then Inr (Return True (message_data l)
             (closed_state [(JERRY_LOG_LEVEL_ERROR, Strerror (errno s1))]
                (s1\<lparr>debugger_receive_buffer := buf1\<rparr>)))
      else if offset < 6
              \<or> (frame_accepted buf1 (debugger_max_receive_size s0) \<and> offset < frame_size buf1 + 6)
      then (if expected_message_type l \<noteq> 0 then Inr (Continue l s)
            else Inr (Return (resume_exec l) (message_data l) s))
      else if \<not> frame_accepted buf1 (debugger_max_receive_size s0)
      then Inr (Return True (message_data l)
             (closed_state
                [(JERRY_LOG_LEVEL_ERROR, Text (rejection buf1 (debugger_max_receive_size s0)))] s))
      else dispatch_message pm offset (frame_size buf1) (frame_size buf1 + 6) l
             (s\<lparr>debugger_receive_buffer := unmask_loop buf1 6 2 6 (6 + frame_size buf1)\<rparr>))"
    if conn
    using receive_iteration_pass [OF that [unfolded conn_def] le sr o s, of pm l]
    by (simp only: hard_def)
  note Q = receive_ws_p1_pass_u16 [OF le sr o, of data_size, folded hard_def]
  note st = sys_recv_state [OF sr]
  have 1: "receive_iteration pm ev l s0 =
          Inr (Return True (message_data l)
            (closed_state [(JERRY_LOG_LEVEL_ERROR, Strerror (errno s1))]
               (s1\<lparr>debugger_receive_buffer := buf1\<rparr>)))"
    if "conn \<and> hard"
    using that P by simp
  have 2: "jerry_debugger_receive_ws_p1 ev (debugger_receive_buffer s0) data_size
            (ucast (debugger_receive_buffer_offset s0)) s0 =
          Inr (False, buf1, data_size, ucast (debugger_receive_buffer_offset s0), s1)"
    if "hard"
    using that Q by simp
  have soft: "\<not> offset < 6
        \<and> \<not> (frame_accepted buf1 m \<and> offset < frame_size buf1 + 6)"
    if "frame_size buf1 + 6 \<le> offset" for m
    using that by simp
  have 3: "receive_iteration pm ev l s0 =
             (case pm (frame_size buf1) l
                     (s\<lparr>debugger_receive_buffer :=
                          unmask_loop buf1 6 2 6 (6 + frame_size buf1)\<rparr>) of
                Inl err \<Rightarrow> Inl err
              | Inr (ok, l', s') \<Rightarrow>
                  if ok
                  then Inr (Continue l'
                         (s'\<lparr>debugger_receive_buffer :=
                               (if frame_size buf1 + 6 < offset
                                then memmove (debugger_receive_buffer s') 0 (frame_size buf1 + 6)
                                       (offset - (frame_size buf1 + 6))
                                else debugger_receive_buffer s'),
                             debugger_receive_buffer_offset :=
                               of_nat (offset - (frame_size buf1 + 6))\<rparr>))
                  else Inr (Return True (message_data l') s'))"
    if h: "conn \<and> \<not> hard \<and> frame_size buf1 + 6 \<le> offset
      \<and> frame_accepted buf1 (debugger_max_receive_size s0)"
  proof -
    from h have c: conn and nh: "\<not> hard" and co: "frame_size buf1 + 6 \<le> offset"
      and acc: "frame_accepted buf1 (debugger_max_receive_size s0)" by simp_all
    from nh acc P [OF c] soft [OF co] show ?thesis by (simp add: dispatch_message_eq)
  qed
  have 4: "receive_iteration pm ev l s0 =
             Inr (Return True (message_data l)
               (closed_state
                  [(JERRY_LOG_LEVEL_ERROR, Text (rejection buf1 (debugger_max_receive_size s0)))] s))"
    if h: "conn \<and> \<not> hard \<and> frame_size buf1 + 6 \<le> offset
      \<and> \<not> frame_accepted buf1 (debugger_max_receive_size s0)"
  proof -
    from h have c: conn and nh: "\<not> hard" and co: "frame_size buf1 + 6 \<le> offset"
      and acc: "\<not> frame_accepted buf1 (debugger_max_receive_size s0)" by simp_all
    from nh acc P [OF c] soft [OF co] show ?thesis by simp
  qed
  have 5: "jerry_debugger_receive_ws_p1 ev (debugger_receive_buffer s0) data_size
               (ucast (debugger_receive_buffer_offset s0)) s0 =
             Inr (True, unmask_loop buf1 6 2 6 (6 + frame_size buf1), frame_size buf1,
               of_nat offset, s1)"
    if h: "\<not> hard \<and> frame_size buf1 + 6 \<le> offset \<and> frame_accepted buf1 122"
  proof -
    from h have nh: "\<not> hard" and co: "frame_size buf1 + 6 \<le> offset"
      and acc: "frame_accepted buf1 122" by simp_all
    from nh acc Q soft [OF co] show ?thesis by simp
  qed
  have 6: "jerry_debugger_receive_ws_p1 ev (debugger_receive_buffer s0) data_size
               (ucast (debugger_receive_buffer_offset s0)) s0 =
             Inr (False, buf1, data_size, of_nat offset,
               s0\<lparr>errno := errno s1,
                  port_log := port_log s0 @ [(JERRY_LOG_LEVEL_ERROR, Text (rejection buf1 122))]\<rparr>)"
    if h: "\<not> hard \<and> frame_size buf1 + 6 \<le> offset \<and> \<not> frame_accepted buf1 122"
  proof -
    from h have nh: "\<not> hard" and co: "frame_size buf1 + 6 \<le> offset"
      and acc: "\<not> frame_accepted buf1 122" by simp_all
    have "jerry_port_log JERRY_LOG_LEVEL_ERROR (Text (rejection buf1 122)) s1
        = s0\<lparr>errno := errno s1,
             port_log := port_log s0 @ [(JERRY_LOG_LEVEL_ERROR, Text (rejection buf1 122))]\<rparr>"
      by (subst sys_recv_errno [OF sr]) (simp add: jerry_port_log_def)
    with nh acc Q soft [OF co] show ?thesis by simp
  qed
  show ?thesis
    unfolding hard_def [symmetric] conn_def [symmetric]
    apply (rule conjI, rule impI, erule 1)
    apply (rule conjI, rule impI, erule 2)
    apply (rule conjI, rule impI, erule 3)
    apply (rule conjI, rule impI, erule 4)
    apply (rule conjI, rule impI, erule 5)
    apply (rule impI, erule 6)
    done
qed


theorem completed_frame_accepted_iff_witness:
  "receive_iteration pm_record (Recv_bytes (example_frame 0x81)) initial_locals connected_state =
     Inr (Return True None
       (closed_state [(JERRY_LOG_LEVEL_ERROR, Text ''Unsupported Websocket opcode.\<newline>'')]
          (connected_state\<lparr>debugger_receive_buffer := example_frame 0x81 @ replicate 119 0,
                           debugger_receive_buffer_offset := 9\<rparr>)))
   \<and> receive_iteration pm_record (Recv_bytes (example_frame 0x82)) initial_locals connected_state =
     Inr (Continue initial_locals
       (connected_state\<lparr>debugger_receive_buffer :=
                          [0x82, 0x83, 0x10, 0x20, 0x30, 0x40, 6, 0, 0] @ replicate 119 0,
                        debugger_receive_buffer_offset := 0,
                        port_log := [(JERRY_LOG_LEVEL_DEBUG, Text ''message handled'')]\<rparr>))
   \<and> jerry_debugger_receive_ws_p1 (Recv_bytes (example_frame 0x82))
       (debugger_receive_buffer connected_state) 0
       (ucast (debugger_receive_buffer_offset connected_state)) connected_state =
     Inr (True, [0x82, 0x83, 0x10, 0x20, 0x30, 0x40, 6, 0, 0] @ replicate 119 0, 3, 9,
       connected_state)"
proof -
  have conn: "debugger_flags connected_state AND JERRY_DEBUGGER_CONNECTED \<noteq> 0"
    by (simp add: connected_state_def flag_consts)
  have le: "unat (debugger_receive_buffer_offset connected_state) \<le> JERRY_DEBUGGER_MAX_BUFFER_SIZE"
    by (simp add: connected_state_def)
  have o: "9 = unat (debugger_receive_buffer_offset connected_state)
                 + (if (9::int) < 0 then 0 else nat 9)"
    by (simp add: connected_state_def)
  note bad = completed_frame_accepted_iff [OF le example_recv [of "0x81"] o refl,
      where pm = pm_record and l = initial_locals and data_size = 0]
  note good = completed_frame_accepted_iff [OF le example_recv [of "0x82"] o refl,
      where pm = pm_record and l = initial_locals and data_size = 0]
  have soft: "\<not> ((9::int) < 0 \<and> errno connected_state \<noteq> EWOULDBLOCK)" by simp
  have complete: "frame_size (example_frame b @ replicate 119 0) + 6 \<le> 9" for b
    by (simp add: example_frame_size)
  have nacc: "\<not> frame_accepted (example_frame 0x81 @ replicate 119 0)
                  (debugger_max_receive_size connected_state)"
    by (simp add: frame_accepted_def example_frame_def ws_consts)
  have acc: "frame_accepted (example_frame 0x82 @ replicate 119 0)
                  (debugger_max_receive_size connected_state)"
    "frame_accepted (example_frame 0x82 @ replicate 119 0) 122"
    by (simp_all add: frame_accepted_def example_frame_def connected_state_def ws_consts)
  have rej: "rejection (example_frame 0x81 @ replicate 119 0)
                  (debugger_max_receive_size connected_state) = ''Unsupported Websocket opcode.\<newline>''"
    by (simp add: rejection_def example_frame_def connected_state_def)
  have un: "unmask_loop (example_frame 0x82 @ replicate 119 0) 6 2 6 9
              = [0x82, 0x83, 0x10, 0x20, 0x30, 0x40, 6, 0, 0] @ replicate 119 0"
    by (simp add: unmask_loop.simps example_frame_def ws_consts)
  from bad conn soft complete [of "0x81"] nacc
  have 1: "receive_iteration pm_record (Recv_bytes (example_frame 0x81)) initial_locals connected_state =
     Inr (Return True (message_data initial_locals)
       (closed_state [(JERRY_LOG_LEVEL_ERROR, Text (rejection (example_frame 0x81 @ replicate 119 0)
                  (debugger_max_receive_size connected_state)))]
          (connected_state\<lparr>debugger_receive_buffer := example_frame 0x81 @ replicate 119 0,
                           debugger_receive_buffer_offset := of_nat 9\<rparr>)))"
    by blast
  from good conn soft complete [of "0x82"] acc(1)
  have 2: "receive_iteration pm_record (Recv_bytes (example_frame 0x82)) initial_locals connected_state =
     (case pm_record (frame_size (example_frame 0x82 @ replicate 119 0)) initial_locals
             (connected_state\<lparr>debugger_receive_buffer := example_frame 0x82 @ replicate 119 0,
                           debugger_receive_buffer_offset := of_nat 9,
                           debugger_receive_buffer :=
                             unmask_loop (example_frame 0x82 @ replicate 119 0) 6 2 6
                               (6 + frame_size (example_frame 0x82 @ replicate 119 0))\<rparr>) of
        Inl err \<Rightarrow> Inl err
      | Inr (ok, l', s') \<Rightarrow>
          if ok
          then Inr (Continue l'
                 (s'\<lparr>debugger_receive_buffer :=
                       (if frame_size (example_frame 0x82 @ replicate 119 0) + 6 < 9
                        then memmove (debugger_receive_buffer s') 0
                               (frame_size (example_frame 0x82 @ replicate 119 0) + 6)
                               (9 - (frame_size (example_frame 0x82 @ replicate 119 0) + 6))
                        else debugger_receive_buffer s'),
                     debugger_receive_buffer_offset :=
                       of_nat (9 - (frame_size (example_frame 0x82 @ replicate 119 0) + 6))\<rparr>))
          else Inr (Return True (message_data l') s'))"
    by blast
  from good soft complete [of "0x82"] acc(2)
  have 3: "jerry_debugger_receive_ws_p1 (Recv_bytes (example_frame 0x82))
       (debugger_receive_buffer connected_state) 0
       (ucast (debugger_receive_buffer_offset connected_state)) connected_state =
     Inr (True, unmask_loop (example_frame 0x82 @ replicate 119 0) 6 2 6
                  (6 + frame_size (example_frame 0x82 @ replicate 119 0)),
          frame_size (example_frame 0x82 @ replicate 119 0), of_nat 9, connected_state)"
    by blast
  from 1 have A: "receive_iteration pm_record (Recv_bytes (example_frame 0x81)) initial_locals
       connected_state =
     Inr (Return True None
       (closed_state [(JERRY_LOG_LEVEL_ERROR, Text ''Unsupported Websocket opcode.\<newline>'')]
          (connected_state\<lparr>debugger_receive_buffer := example_frame 0x81 @ replicate 119 0,
                           debugger_receive_buffer_offset := 9\<rparr>)))"
    by (simp add: rej initial_locals_def)
  from 2 have B: "receive_iteration pm_record (Recv_bytes (example_frame 0x82)) initial_locals
       connected_state =
     Inr (Continue initial_locals
       (connected_state\<lparr>debugger_receive_buffer :=
                          [0x82, 0x83, 0x10, 0x20, 0x30, 0x40, 6, 0, 0] @ replicate 119 0,
                        debugger_receive_buffer_offset := 0,
                        port_log := [(JERRY_LOG_LEVEL_DEBUG, Text ''message handled'')]\<rparr>))"
    by (simp add: example_frame_size un pm_record_def jerry_port_log_def connected_state_def)
  from 3 have C: "jerry_debugger_receive_ws_p1 (Recv_bytes (example_frame 0x82))
       (debugger_receive_buffer connected_state) 0
       (ucast (debugger_receive_buffer_offset connected_state)) connected_state =
     Inr (True, [0x82, 0x83, 0x10, 0x20, 0x30, 0x40, 6, 0, 0] @ replicate 119 0, 3, 9,
       connected_state)"
    by (simp add: example_frame_size un)
  from A B C show ?thesis by blast
qed

text \<open>
  C8, as stated, fails: a frame with the CLOSE opcode is not shut down gracefully; it
  takes the path of every opcode other than BINARY, which logs the error
  \<^verbatim>\<open>Unsupported Websocket opcode.\<close> and closes the connection.
\<close>

theorem close_opcode_counterexample:
  "check_frame 9 (frame_state 0x88) =
     Inr (Closed ((frame_state 0x88)
       \<lparr>debugger_flags := JERRY_DEBUGGER_VM_IGNORE,
        port_log := [(JERRY_LOG_LEVEL_ERROR, Text ''Unsupported Websocket opcode.\<newline>''),
                     (JERRY_LOG_LEVEL_DEBUG, Text ''Debugger client connection closed.\<newline>'')],
        closed_fds := [4],
        fd := - 1\<rparr>))"
  by (simp add: check_frame_def close_as_frame_result_def jerry_debugger_close_connection_tcp_def
      jerry_port_log_def close_fd_def jerry_debugger_free_unreferenced_byte_code_def
      frame_state_def connected_state_def example_frame_def ws_consts flag_consts Let_def)

text \<open>
  C8, amended: on ingress only frames with the BINARY opcode are processed as data. When
  the \<^verbatim>\<open>recv\<close> of a pass of \<^verbatim>\<open>part_002\<close>, or of a call of \<^verbatim>\<open>part_001\<close>, has not
  failed with an error other than \<^verbatim>\<open>EWOULDBLOCK\<close> and the buffer holds the six bytes
  of a header, a frame with any other opcode, CLOSE, PING and PONG alike, is logged as an
  error and neither unmasked nor handed on; when its header is otherwise valid, the line
  is \<^verbatim>\<open>Unsupported Websocket opcode.\<close> Then \<^verbatim>\<open>part_002\<close> closes the connection and
  returns \<^verbatim>\<open>true\<close>; \<^verbatim>\<open>part_001\<close> returns \<^verbatim>\<open>false\<close> and leaves the connection as
  it is: of the session only \<^verbatim>\<open>errno\<close> and the log have changed.
\<close>

theorem non_binary_opcode_is_protocol_error:
  assumes le: "unat (debugger_receive_buffer_offset s0) \<le> JERRY_DEBUGGER_MAX_BUFFER_SIZE"
    and sr: "sys_recv ev (debugger_receive_buffer s0) (unat (debugger_receive_buffer_offset s0))
               (JERRY_DEBUGGER_MAX_BUFFER_SIZE - unat (debugger_receive_buffer_offset s0)) s0
             = (k, buf1, s1)"
    and o: "offset = unat (debugger_receive_buffer_offset s0) + (if k < 0 then 0 else nat k)"
    and s: "s = s1\<lparr>debugger_receive_buffer := buf1, debugger_receive_buffer_offset := of_nat offset\<rparr>"
    and soft: "\<not> (k < 0 \<and> errno s1 \<noteq> EWOULDBLOCK)"
    and six: "sizeof_receive_header \<le> offset"
    and opcode: "buf1 ! 0 AND JERRY_DEBUGGER_WEBSOCKET_OPCODE_MASK
                   \<noteq> JERRY_DEBUGGER_WEBSOCKET_BINARY_FRAME"
  shows
    "(debugger_flags s0 AND JERRY_DEBUGGER_CONNECTED \<noteq> 0
        \<and> buf1 ! 0 AND NOT JERRY_DEBUGGER_WEBSOCKET_OPCODE_MASK = JERRY_DEBUGGER_WEBSOCKET_FIN_BIT
        \<and> buf1 ! 1 AND JERRY_DEBUGGER_WEBSOCKET_LENGTH_MASK \<le> debugger_max_receive_size s0
        \<and> buf1 ! 1 AND JERRY_DEBUGGER_WEBSOCKET_MASK_BIT \<noteq> 0 \<longrightarrow>
        receive_iteration pm ev l s0 =
          Inr (Return True (message_data l)
            (closed_state
               [(JERRY_LOG_LEVEL_ERROR, Text ''Unsupported Websocket opcode.\<newline>'')] s)))
     \<and> (buf1 ! 0 AND NOT JERRY_DEBUGGER_WEBSOCKET_OPCODE_MASK = JERRY_DEBUGGER_WEBSOCKET_FIN_BIT
        \<and> buf1 ! 1 AND JERRY_DEBUGGER_WEBSOCKET_LENGTH_MASK \<le> 122
        \<and> buf1 ! 1 AND JERRY_DEBUGGER_WEBSOCKET_MASK_BIT \<noteq> 0 \<longrightarrow>
        jerry_debugger_receive_ws_p1 ev (debugger_receive_buffer s0) data_size
            (ucast (debugger_receive_buffer_offset s0)) s0 =
          Inr (False, buf1, data_size, of_nat offset,
            s0\<lparr>errno := errno s1,
               port_log := port_log s0
                 @ [(JERRY_LOG_LEVEL_ERROR, Text ''Unsupported Websocket opcode.\<newline>'')]\<rparr>))
     \<and> (debugger_flags s0 AND JERRY_DEBUGGER_CONNECTED \<noteq> 0 \<longrightarrow>
        receive_iteration pm ev l s0 =
          Inr (Return True (message_data l)
            (closed_state
               [(JERRY_LOG_LEVEL_ERROR, Text (rejection buf1 (debugger_max_receive_size s0)))] s)))
     \<and> jerry_debugger_receive_ws_p1 ev (debugger_receive_buffer s0) data_size
            (ucast (debugger_receive_buffer_offset s0)) s0 =
          Inr (False, buf1, data_size, of_nat offset,
            s0\<lparr>errno := errno s1,
               port_log := port_log s0 @ [(JERRY_LOG_LEVEL_ERROR, Text (rejection buf1 122))]\<rparr>)"
proof -
  define hard where "hard = (k < 0 \<and> errno s1 \<noteq> EWOULDBLOCK)"
  have nh: "\<not> hard" using soft by (simp add: hard_def)
  have n6: "\<not> offset < 6" using six by (simp add: ws_consts)
  note Q = receive_ws_p1_pass_u16 [OF le sr o, of data_size, folded hard_def]
  note st = sys_recv_state [OF sr]
  have nacc: "\<not> frame_accepted buf1 m" for m
    using opcode by (simp add: frame_accepted_def ws_consts)
  have rej: "rejection buf1 m = ''Unsupported Websocket opcode.\<newline>''"
    if "buf1 ! 0 AND NOT JERRY_DEBUGGER_WEBSOCKET_OPCODE_MASK = JERRY_DEBUGGER_WEBSOCKET_FIN_BIT
        \<and> buf1 ! 1 AND JERRY_DEBUGGER_WEBSOCKET_LENGTH_MASK \<le> m
        \<and> buf1 ! 1 AND JERRY_DEBUGGER_WEBSOCKET_MASK_BIT \<noteq> 0" for m
    using that by (simp add: rejection_eq ws_consts)
  have 3: "receive_iteration pm ev l s0 =
          Inr (Return True (message_data l)
            (closed_state
               [(JERRY_LOG_LEVEL_ERROR, Text (rejection buf1 (debugger_max_receive_size s0)))] s))"
    if conn: "debugger_flags s0 AND JERRY_DEBUGGER_CONNECTED \<noteq> 0"
    using receive_iteration_pass [OF conn le sr o s, of pm l, folded hard_def] nh n6 nacc
    by simp
  have 4: "jerry_debugger_receive_ws_p1 ev (debugger_receive_buffer s0) data_size
            (ucast (debugger_receive_buffer_offset s0)) s0 =
          Inr (False, buf1, data_size, of_nat offset,
            s0\<lparr>errno := errno s1,
               port_log := port_log s0 @ [(JERRY_LOG_LEVEL_ERROR, Text (rejection buf1 122))]\<rparr>)"
  proof -
    have "jerry_port_log JERRY_LOG_LEVEL_ERROR (Text (rejection buf1 122)) s1
        = s0\<lparr>errno := errno s1,
             port_log := port_log s0 @ [(JERRY_LOG_LEVEL_ERROR, Text (rejection buf1 122))]\<rparr>"
      by (subst sys_recv_errno [OF sr]) (simp add: jerry_port_log_def)
    with Q nh n6 nacc show ?thesis by simp
  qed
  have 1: "receive_iteration pm ev l s0 =
          Inr (Return True (message_data l)
            (closed_state
               [(JERRY_LOG_LEVEL_ERROR, Text ''Unsupported Websocket opcode.\<newline>'')] s))"
    if h: "debugger_flags s0 AND JERRY_DEBUGGER_CONNECTED \<noteq> 0
        \<and> buf1 ! 0 AND NOT JERRY_DEBUGGER_WEBSOCKET_OPCODE_MASK = JERRY_DEBUGGER_WEBSOCKET_FIN_BIT
        \<and> buf1 ! 1 AND JERRY_DEBUGGER_WEBSOCKET_LENGTH_MASK \<le> debugger_max_receive_size s0
        \<and> buf1 ! 1 AND JERRY_DEBUGGER_WEBSOCKET_MASK_BIT \<noteq> 0"
  proof -
    from h have conn: "debugger_flags s0 AND JERRY_DEBUGGER_CONNECTED \<noteq> 0" by simp
    from h have "rejection buf1 (debugger_max_receive_size s0) = ''Unsupported Websocket opcode.\<newline>''"
      by (intro rej) simp
    with 3 [OF conn] show ?thesis by simp
  qed
  have 2: "jerry_debugger_receive_ws_p1 ev (debugger_receive_buffer s0) data_size
            (ucast (debugger_receive_buffer_offset s0)) s0 =
          Inr (False, buf1, data_size, of_nat offset,
            s0\<lparr>errno := errno s1,
               port_log := port_log s0
                 @ [(JERRY_LOG_LEVEL_ERROR, Text ''Unsupported Websocket opcode.\<newline>'')]\<rparr>)"
    if h: "buf1 ! 0 AND NOT JERRY_DEBUGGER_WEBSOCKET_OPCODE_MASK = JERRY_DEBUGGER_WEBSOCKET_FIN_BIT
        \<and> buf1 ! 1 AND JERRY_DEBUGGER_WEBSOCKET_LENGTH_MASK \<le> 122
        \<and> buf1 ! 1 AND JERRY_DEBUGGER_WEBSOCKET_MASK_BIT \<noteq> 0"
    using 4 rej [OF h] by simp
  show ?thesis
    apply (rule conjI, rule impI, erule 1)
    apply (rule conjI, rule impI, erule 2)
    apply (rule conjI, rule impI, erule 3)
    apply (rule 4)
    done
qed

theorem non_binary_opcode_is_protocol_error_witness:
  "receive_iteration pm_record (Recv_error EWOULDBLOCK) initial_locals
       (frame_state (JERRY_DEBUGGER_WEBSOCKET_FIN_BIT OR JERRY_DEBUGGER_WEBSOCKET_PING)) =
     Inr (Return True None
       (closed_state [(JERRY_LOG_LEVEL_ERROR, Text ''Unsupported Websocket opcode.\<newline>'')]
          ((frame_state 0x89)\<lparr>errno := EWOULDBLOCK\<rparr>)))
   \<and> jerry_debugger_receive_ws_p1 (Recv_error EWOULDBLOCK)
       (debugger_receive_buffer
          (frame_state (JERRY_DEBUGGER_WEBSOCKET_FIN_BIT OR JERRY_DEBUGGER_WEBSOCKET_PONG))) 0
       (ucast (debugger_receive_buffer_offset (frame_state 0x8a))) (frame_state 0x8a) =
     Inr (False, example_frame 0x8a @ replicate 119 0, 0, 9,
       (frame_state 0x8a)\<lparr>errno := EWOULDBLOCK,
          port_log := [(JERRY_LOG_LEVEL_ERROR, Text ''Unsupported Websocket opcode.\<newline>'')]\<rparr>)
   \<and> debugger_flags ((frame_state 0x8a)\<lparr>errno := EWOULDBLOCK\<rparr>) = JERRY_DEBUGGER_CONNECTED
   \<and> closed_fds ((frame_state 0x8a)\<lparr>errno := EWOULDBLOCK\<rparr>) = []"
proof -
  have conn: "debugger_flags (frame_state b) AND JERRY_DEBUGGER_CONNECTED \<noteq> 0" for b
    by (simp add: frame_state_def connected_state_def flag_consts)
  have le: "unat (debugger_receive_buffer_offset (frame_state b)) \<le> JERRY_DEBUGGER_MAX_BUFFER_SIZE"
    for b by (simp add: frame_state_def ws_consts)
  have o: "9 = unat (debugger_receive_buffer_offset (frame_state b))
                 + (if (- 1::int) < 0 then 0 else nat (- 1))" for b
    by (simp add: frame_state_def)
  have soft: "\<not> ((- 1::int) < 0 \<and> errno ((frame_state b)\<lparr>errno := EWOULDBLOCK\<rparr>) \<noteq> EWOULDBLOCK)"
    for b by simp
  have six: "sizeof_receive_header \<le> 9" by (simp add: ws_consts)
  have op9: "(example_frame 0x89 @ replicate 119 0) ! 0 AND JERRY_DEBUGGER_WEBSOCKET_OPCODE_MASK
              \<noteq> JERRY_DEBUGGER_WEBSOCKET_BINARY_FRAME"
    and opa: "(example_frame 0x8a @ replicate 119 0) ! 0 AND JERRY_DEBUGGER_WEBSOCKET_OPCODE_MASK
              \<noteq> JERRY_DEBUGGER_WEBSOCKET_BINARY_FRAME"
    by (simp_all add: example_frame_def ws_consts)
  note ping = non_binary_opcode_is_protocol_error [OF le frame_state_recv [of "0x89"] o refl
      soft six op9, where pm = pm_record and l = initial_locals and data_size = 0, THEN conjunct1]
  note pong = non_binary_opcode_is_protocol_error [OF le frame_state_recv [of "0x8a"] o refl
      soft six opa, where pm = pm_record and l = initial_locals and data_size = 0,
      THEN conjunct2, THEN conjunct1]
  have h: "(example_frame b @ replicate 119 0) ! 1 AND JERRY_DEBUGGER_WEBSOCKET_LENGTH_MASK
       \<le> debugger_max_receive_size (frame_state b)"
    "(example_frame b @ replicate 119 0) ! 1 AND JERRY_DEBUGGER_WEBSOCKET_LENGTH_MASK \<le> 122"
    "(example_frame b @ replicate 119 0) ! 1 AND JERRY_DEBUGGER_WEBSOCKET_MASK_BIT \<noteq> 0" for b
    by (simp_all add: frame_state_def connected_state_def example_frame_def ws_consts)
  have f9: "(example_frame 0x89 @ replicate 119 0) ! 0 AND NOT JERRY_DEBUGGER_WEBSOCKET_OPCODE_MASK
              = JERRY_DEBUGGER_WEBSOCKET_FIN_BIT"
    and fa: "(example_frame 0x8a @ replicate 119 0) ! 0 AND NOT JERRY_DEBUGGER_WEBSOCKET_OPCODE_MASK
              = JERRY_DEBUGGER_WEBSOCKET_FIN_BIT"
    by (simp_all add: example_frame_def ws_consts)
  from ping conn [of "0x89"] h(1) [of "0x89"] h(3) [of "0x89"] f9
  have 1: "receive_iteration pm_record (Recv_error EWOULDBLOCK) initial_locals (frame_state 0x89) =
     Inr (Return True (message_data initial_locals)
       (closed_state [(JERRY_LOG_LEVEL_ERROR, Text ''Unsupported Websocket opcode.\<newline>'')]
          ((frame_state 0x89)\<lparr>errno := EWOULDBLOCK,
              debugger_receive_buffer := example_frame 0x89 @ replicate 119 0,
              debugger_receive_buffer_offset := of_nat 9\<rparr>)))"
    by blast
  from pong h(2) [of "0x8a"] h(3) [of "0x8a"] fa
  have 2: "jerry_debugger_receive_ws_p1 (Recv_error EWOULDBLOCK)
       (debugger_receive_buffer (frame_state 0x8a)) 0
       (ucast (debugger_receive_buffer_offset (frame_state 0x8a))) (frame_state 0x8a) =
     Inr (False, example_frame 0x8a @ replicate 119 0, 0, of_nat 9,
       (frame_state 0x8a)\<lparr>errno := errno ((frame_state 0x8a)\<lparr>errno := EWOULDBLOCK\<rparr>),
          port_log := port_log (frame_state 0x8a)
            @ [(JERRY_LOG_LEVEL_ERROR, Text ''Unsupported Websocket opcode.\<newline>'')]\<rparr>)"
    by blast
  have st: "(frame_state b)\<lparr>errno := EWOULDBLOCK,
              debugger_receive_buffer := example_frame b @ replicate 119 0,
              debugger_receive_buffer_offset := of_nat 9\<rparr> = (frame_state b)\<lparr>errno := EWOULDBLOCK\<rparr>"
    for b
    by (simp add: frame_state_def)
  have c: "JERRY_DEBUGGER_WEBSOCKET_FIN_BIT OR JERRY_DEBUGGER_WEBSOCKET_PING = 0x89"
    "JERRY_DEBUGGER_WEBSOCKET_FIN_BIT OR JERRY_DEBUGGER_WEBSOCKET_PONG = 0x8a"
    by (simp_all add: ws_consts JERRY_DEBUGGER_WEBSOCKET_PING_def JERRY_DEBUGGER_WEBSOCKET_PONG_def)
  have pl: "port_log (frame_state b) = []" for b
    by (simp add: frame_state_def connected_state_def)
  from 1 have A: "receive_iteration pm_record (Recv_error EWOULDBLOCK) initial_locals
       (frame_state (JERRY_DEBUGGER_WEBSOCKET_FIN_BIT OR JERRY_DEBUGGER_WEBSOCKET_PING)) =
     Inr (Return True None
       (closed_state [(JERRY_LOG_LEVEL_ERROR, Text ''Unsupported Websocket opcode.\<newline>'')]
          ((frame_state 0x89)\<lparr>errno := EWOULDBLOCK\<rparr>)))"
    by (simp only: st c) (simp add: initial_locals_def)
  from 2 have B: "jerry_debugger_receive_ws_p1 (Recv_error EWOULDBLOCK)
       (debugger_receive_buffer
          (frame_state (JERRY_DEBUGGER_WEBSOCKET_FIN_BIT OR JERRY_DEBUGGER_WEBSOCKET_PONG))) 0
       (ucast (debugger_receive_buffer_offset (frame_state 0x8a))) (frame_state 0x8a) =
     Inr (False, example_frame 0x8a @ replicate 119 0, 0, 9,
       (frame_state 0x8a)\<lparr>errno := EWOULDBLOCK,
          port_log := [(JERRY_LOG_LEVEL_ERROR, Text ''Unsupported Websocket opcode.\<newline>'')]\<rparr>)"
    by (simp only: c pl) simp
  have C: "debugger_flags ((frame_state 0x8a)\<lparr>errno := EWOULDBLOCK\<rparr>) = JERRY_DEBUGGER_CONNECTED
      \<and> closed_fds ((frame_state 0x8a)\<lparr>errno := EWOULDBLOCK\<rparr>) = []"
    by (simp add: frame_state_def connected_state_def)
  from A B C show ?thesis by blast
qed

text \<open>
  C5, as stated, fails: a call that finds a complete frame does not return after one
  \<^verbatim>\<open>recv\<close>. With a frame and then nothing to read, the call makes two calls of
  \<^verbatim>\<open>recv\<close>; with the frame as the only scripted result it asks for a second one.
\<close>

theorem one_recv_per_poll_counterexample:
  "recv_calls [Recv_bytes (example_frame 0x82), Recv_error EWOULDBLOCK, Recv_error ECONNRESET]
     (jerry_debugger_receive_ws pm_continue
        [Recv_bytes (example_frame 0x82), Recv_error EWOULDBLOCK, Recv_error ECONNRESET] None
        connected_state) = Some 2
   \<and> jerry_debugger_receive_ws pm_continue [Recv_bytes (example_frame 0x82)] None connected_state
       = Inl No_more_events"
  by (simp add: eval_defs recv_calls_def)

text \<open>
  C5, amended: \<^verbatim>\<open>jerry_debugger_receive_ws\<close> makes one non-blocking \<^verbatim>\<open>recv\<close> per pass
  of its loop, for at most 128 less the offset bytes, which are written into the receive
  buffer at the current offset; a call that returns has made at least one. A pass ends
  the call when the \<^verbatim>\<open>recv\<close> fails with an error other than \<^verbatim>\<open>EWOULDBLOCK\<close> (the
  connection is closed), when the buffer holds six bytes or more and the frame at its
  start is not accepted (logged and closed, also while a message is expected), when no
  complete frame is there and no message is expected, and when the handler returns
  \<^verbatim>\<open>false\<close> for a dispatched frame. Another pass with another \<^verbatim>\<open>recv\<close> follows
  when no complete frame is there while a message is expected, and when the handler
  returns \<^verbatim>\<open>true\<close> for a dispatched frame.
\<close>

theorem receive_ws_one_recv_per_pass:
  "(\<forall>k buf1 s1 offset s.
      debugger_flags s0 AND JERRY_DEBUGGER_CONNECTED \<noteq> 0
      \<and> unat (debugger_receive_buffer_offset s0) \<le> JERRY_DEBUGGER_MAX_BUFFER_SIZE
      \<and> sys_recv ev (debugger_receive_buffer s0) (unat (debugger_receive_buffer_offset s0))
               (JERRY_DEBUGGER_MAX_BUFFER_SIZE - unat (debugger_receive_buffer_offset s0)) s0
             = (k, buf1, s1)
      \<and> offset = unat (debugger_receive_buffer_offset s0) + (if k < 0 then 0 else nat k)
      \<and> s = s1\<lparr>debugger_receive_buffer := buf1, debugger_receive_buffer_offset := of_nat offset\<rparr>
      \<longrightarrow>
        (k < 0 \<and> errno s1 \<noteq> EWOULDBLOCK \<longrightarrow>
          receive_loop pm (ev # evs) l s0 =
            Inr (True, message_data l,
              closed_state [(JERRY_LOG_LEVEL_ERROR, Strerror (errno s1))]
                (s1\<lparr>debugger_receive_buffer := buf1\<rparr>), evs))
      \<and> (\<not> (k < 0 \<and> errno s1 \<noteq> EWOULDBLOCK)
          \<and> (offset < 6 \<or> frame_accepted buf1 (debugger_max_receive_size s0)
                             \<and> offset < frame_size buf1 + 6) \<longrightarrow>
          receive_loop pm (ev # evs) l s0 =
            (if expected_message_type l \<noteq> 0 then receive_loop pm evs l s
             else Inr (resume_exec l, message_data l, s, evs)))
      \<and> (\<not> (k < 0 \<and> errno s1 \<noteq> EWOULDBLOCK) \<and> 6 \<le> offset
          \<and> \<not> frame_accepted buf1 (debugger_max_receive_size s0) \<longrightarrow>
          receive_loop pm (ev # evs) l s0 =
            Inr (True, message_data l,
              closed_state
                [(JERRY_LOG_LEVEL_ERROR, Text (rejection buf1 (debugger_max_receive_size s0)))] s,
              evs))
      \<and> (\<not> (k < 0 \<and> errno s1 \<noteq> EWOULDBLOCK)
          \<and> frame_accepted buf1 (debugger_max_receive_size s0)
          \<and> frame_size buf1 + 6 \<le> offset \<longrightarrow>
          receive_loop pm (ev # evs) l s0 =
            (case pm (frame_size buf1) l
                    (s\<lparr>debugger_receive_buffer :=
                         unmask_loop buf1 6 2 6 (6 + frame_size buf1)\<rparr>) of
               Inl err \<Rightarrow> Inl err
             | Inr (ok, l', s') \<Rightarrow>
                 if ok
                 then receive_loop pm evs l'
                        (s'\<lparr>debugger_receive_buffer :=
                              (if frame_size buf1 + 6 < offset
                               then memmove (debugger_receive_buffer s') 0 (frame_size buf1 + 6)
                                      (offset - (frame_size buf1 + 6))
                               else debugger_receive_buffer s'),
                            debugger_receive_buffer_offset :=
                              of_nat (offset - (frame_size buf1 + 6))\<rparr>)
                 else Inr (True, message_data l', s', evs)))
      \<and> (\<forall>bs. ev = Recv_bytes bs
            \<and> length (debugger_receive_buffer s0) = JERRY_DEBUGGER_MAX_BUFFER_SIZE \<longrightarrow>
          k = int (min (JERRY_DEBUGGER_MAX_BUFFER_SIZE - unat (debugger_receive_buffer_offset s0))
                     (length bs))
          \<and> length buf1 = JERRY_DEBUGGER_MAX_BUFFER_SIZE
          \<and> (\<forall>i<JERRY_DEBUGGER_MAX_BUFFER_SIZE.
               buf1 ! i =
                 (if unat (debugger_receive_buffer_offset s0) \<le> i
                     \<and> i < unat (debugger_receive_buffer_offset s0) + nat k
                  then bs ! (i - unat (debugger_receive_buffer_offset s0))
                  else debugger_receive_buffer s0 ! i)))
      \<and> (\<forall>e. ev = Recv_error e \<longrightarrow>
            k = - 1 \<and> buf1 = debugger_receive_buffer s0 \<and> errno s1 = e))
   \<and> (\<forall>d evs'. debugger_flags s0 AND JERRY_DEBUGGER_CONNECTED \<noteq> 0
            \<and> debugger_max_receive_size s0 \<le> 125
            \<and> (case d of
                  Some x \<Rightarrow> debugger_flags s0 AND JERRY_DEBUGGER_RECEIVE_DATA_MODE \<noteq> 0
                | None \<Rightarrow> debugger_flags s0 AND JERRY_DEBUGGER_RECEIVE_DATA_MODE = 0) \<longrightarrow>
          jerry_debugger_receive_ws pm evs' d s0 =
            receive_loop pm evs'
              \<lparr>resume_exec = False, expected_message_type = 0, message_data = d\<rparr>
              (s0\<lparr>debugger_message_delay := JERRY_DEBUGGER_MESSAGE_FREQUENCY\<rparr>))
   \<and> (\<forall>d evs' b d' s' rest.
          jerry_debugger_receive_ws pm evs' d s0 = Inr (b, d', s', rest) \<longrightarrow>
          (\<exists>n. 1 \<le> n \<and> n \<le> length evs' \<and> rest = drop n evs'))"
proof -
  have A: "(k < 0 \<and> errno s1 \<noteq> EWOULDBLOCK \<longrightarrow>
          receive_loop pm (ev # evs) l s0 =
            Inr (True, message_data l,
              closed_state [(JERRY_LOG_LEVEL_ERROR, Strerror (errno s1))]
                (s1\<lparr>debugger_receive_buffer := buf1\<rparr>), evs))
      \<and> (\<not> (k < 0 \<and> errno s1 \<noteq> EWOULDBLOCK)
          \<and> (offset < 6 \<or> frame_accepted buf1 (debugger_max_receive_size s0)
                             \<and> offset < frame_size buf1 + 6) \<longrightarrow>
          receive_loop pm (ev # evs) l s0 =
            (if expected_message_type l \<noteq> 0 then receive_loop pm evs l s
             else Inr (resume_exec l, message_data l, s, evs)))
      \<and> (\<not> (k < 0 \<and> errno s1 \<noteq> EWOULDBLOCK) \<and> 6 \<le> offset
          \<and> \<not> frame_accepted buf1 (debugger_max_receive_size s0) \<longrightarrow>
          receive_loop pm (ev # evs) l s0 =
            Inr (True, message_data l,
              closed_state
                [(JERRY_LOG_LEVEL_ERROR, Text (rejection buf1 (debugger_max_receive_size s0)))] s,
              evs))
      \<and> (\<not> (k < 0 \<and> errno s1 \<noteq> EWOULDBLOCK)
          \<and> frame_accepted buf1 (debugger_max_receive_size s0)
          \<and> frame_size buf1 + 6 \<le> offset \<longrightarrow>
          receive_loop pm (ev # evs) l s0 =
            (case pm (frame_size buf1) l
                    (s\<lparr>debugger_receive_buffer :=
                         unmask_loop buf1 6 2 6 (6 + frame_size buf1)\<rparr>) of
               Inl err \<Rightarrow> Inl err
             | Inr (ok, l', s') \<Rightarrow>
                 if ok
                 then receive_loop pm evs l'
                        (s'\<lparr>debugger_receive_buffer :=
                              (if frame_size buf1 + 6 < offset
                               then memmove (debugger_receive_buffer s') 0 (frame_size buf1 + 6)
                                      (offset - (frame_size buf1 + 6))
                               else debugger_receive_buffer s'),
                            debugger_receive_buffer_offset :=
                              of_nat (offset - (frame_size buf1 + 6))\<rparr>)
                 else Inr (True, message_data l', s', evs)))
      \<and> (\<forall>bs. ev = Recv_bytes bs
            \<and> length (debugger_receive_buffer s0) = JERRY_DEBUGGER_MAX_BUFFER_SIZE \<longrightarrow>
          k = int (min (JERRY_DEBUGGER_MAX_BUFFER_SIZE - unat (debugger_receive_buffer_offset s0))
                     (length bs))
          \<and> length buf1 = JERRY_DEBUGGER_MAX_BUFFER_SIZE
          \<and> (\<forall>i<JERRY_DEBUGGER_MAX_BUFFER_SIZE.
               buf1 ! i =
                 (if unat (debugger_receive_buffer_offset s0) \<le> i
                     \<and> i < unat (debugger_receive_buffer_offset s0) + nat k
                  then bs ! (i - unat (debugger_receive_buffer_offset s0))
                  else debugger_receive_buffer s0 ! i)))
      \<and> (\<forall>e. ev = Recv_error e \<longrightarrow>
            k = - 1 \<and> buf1 = debugger_receive_buffer s0 \<and> errno s1 = e)"
    if H: "debugger_flags s0 AND JERRY_DEBUGGER_CONNECTED \<noteq> 0
      \<and> unat (debugger_receive_buffer_offset s0) \<le> JERRY_DEBUGGER_MAX_BUFFER_SIZE
      \<and> sys_recv ev (debugger_receive_buffer s0) (unat (debugger_receive_buffer_offset s0))
               (JERRY_DEBUGGER_MAX_BUFFER_SIZE - unat (debugger_receive_buffer_offset s0)) s0
             = (k, buf1, s1)
      \<and> offset = unat (debugger_receive_buffer_offset s0) + (if k < 0 then 0 else nat k)
      \<and> s = s1\<lparr>debugger_receive_buffer := buf1, debugger_receive_buffer_offset := of_nat offset\<rparr>"
    for k buf1 s1 offset s
  proof -
    from H have conn: "debugger_flags s0 AND JERRY_DEBUGGER_CONNECTED \<noteq> 0"
      and le: "unat (debugger_receive_buffer_offset s0) \<le> JERRY_DEBUGGER_MAX_BUFFER_SIZE"
      and sr: "sys_recv ev (debugger_receive_buffer s0) (unat (debugger_receive_buffer_offset s0))
               (JERRY_DEBUGGER_MAX_BUFFER_SIZE - unat (debugger_receive_buffer_offset s0)) s0
             = (k, buf1, s1)"
      and o: "offset = unat (debugger_receive_buffer_offset s0) + (if k < 0 then 0 else nat k)"
      and s: "s = s1\<lparr>debugger_receive_buffer := buf1, debugger_receive_buffer_offset := of_nat offset\<rparr>"
      by blast+
    define hard where "hard = (k < 0 \<and> errno s1 \<noteq> EWOULDBLOCK)"
    note P = receive_iteration_pass [OF conn le sr o s, of pm l, folded hard_def]
    have 2: "receive_loop pm (ev # evs) l s0 =
            Inr (True, message_data l,
              closed_state [(JERRY_LOG_LEVEL_ERROR, Strerror (errno s1))]
                (s1\<lparr>debugger_receive_buffer := buf1\<rparr>), evs)"
      if "hard"
      using that P by simp
    have 3: "receive_loop pm (ev # evs) l s0 =
            (if expected_message_type l \<noteq> 0 then receive_loop pm evs l s
             else Inr (resume_exec l, message_data l, s, evs))"
      if "\<not> hard \<and> (offset < 6 \<or> frame_accepted buf1 (debugger_max_receive_size s0)
                             \<and> offset < frame_size buf1 + 6)"
      using that P by simp
    have 4: "receive_loop pm (ev # evs) l s0 =
            Inr (True, message_data l,
              closed_state
                [(JERRY_LOG_LEVEL_ERROR, Text (rejection buf1 (debugger_max_receive_size s0)))] s,
              evs)"
      if "\<not> hard \<and> 6 \<le> offset \<and> \<not> frame_accepted buf1 (debugger_max_receive_size s0)"
      using that P by simp
    have 5: "receive_loop pm (ev # evs) l s0 =
            (case pm (frame_size buf1) l
                    (s\<lparr>debugger_receive_buffer :=
                         unmask_loop buf1 6 2 6 (6 + frame_size buf1)\<rparr>) of
               Inl err \<Rightarrow> Inl err
             | Inr (ok, l', s') \<Rightarrow>
                 if ok
                 then receive_loop pm evs l'
                        (s'\<lparr>debugger_receive_buffer :=
                              (if frame_size buf1 + 6 < offset
                               then memmove (debugger_receive_buffer s') 0 (frame_size buf1 + 6)
                                      (offset - (frame_size buf1 + 6))
                               else debugger_receive_buffer s'),
                            debugger_receive_buffer_offset :=
                              of_nat (offset - (frame_size buf1 + 6))\<rparr>)
                 else Inr (True, message_data l', s', evs))"
      if h: "\<not> hard \<and> frame_accepted buf1 (debugger_max_receive_size s0)
        \<and> frame_size buf1 + 6 \<le> offset"
    proof -
      from h have "\<not> offset < 6" "\<not> offset < frame_size buf1 + 6" by simp_all
      with h P show ?thesis
        by (simp add: dispatch_message_eq split: sum.splits)
    qed
    have 6: "k = int (min (JERRY_DEBUGGER_MAX_BUFFER_SIZE - unat (debugger_receive_buffer_offset s0))
                     (length bs))
          \<and> length buf1 = JERRY_DEBUGGER_MAX_BUFFER_SIZE
          \<and> (\<forall>i<JERRY_DEBUGGER_MAX_BUFFER_SIZE.
               buf1 ! i =
                 (if unat (debugger_receive_buffer_offset s0) \<le> i
                     \<and> i < unat (debugger_receive_buffer_offset s0) + nat k
                  then bs ! (i - unat (debugger_receive_buffer_offset s0))
                  else debugger_receive_buffer s0 ! i))"
      if h: "ev = Recv_bytes bs
        \<and> length (debugger_receive_buffer s0) = JERRY_DEBUGGER_MAX_BUFFER_SIZE"
      for bs
    proof -
      from sr h
      have sr': "sys_recv (Recv_bytes bs) (debugger_receive_buffer s0)
          (unat (debugger_receive_buffer_offset s0))
          (JERRY_DEBUGGER_MAX_BUFFER_SIZE - unat (debugger_receive_buffer_offset s0)) s0
          = (k, buf1, s1)" by simp
      have fit: "unat (debugger_receive_buffer_offset s0)
          + (JERRY_DEBUGGER_MAX_BUFFER_SIZE - unat (debugger_receive_buffer_offset s0))
          \<le> length (debugger_receive_buffer s0)"
        using le h by simp
      from sys_recv_bytes_at(1,3,4) [OF sr' fit] h show ?thesis by simp
    qed
    have 7: "k = - 1 \<and> buf1 = debugger_receive_buffer s0 \<and> errno s1 = e"
      if "ev = Recv_error e" for e
      using sr that by (auto simp: sys_recv_def)
    have c6: "\<forall>bs. ev = Recv_bytes bs
            \<and> length (debugger_receive_buffer s0) = JERRY_DEBUGGER_MAX_BUFFER_SIZE \<longrightarrow>
          k = int (min (JERRY_DEBUGGER_MAX_BUFFER_SIZE - unat (debugger_receive_buffer_offset s0))
                     (length bs))
          \<and> length buf1 = JERRY_DEBUGGER_MAX_BUFFER_SIZE
          \<and> (\<forall>i<JERRY_DEBUGGER_MAX_BUFFER_SIZE.
               buf1 ! i =
                 (if unat (debugger_receive_buffer_offset s0) \<le> i
                     \<and> i < unat (debugger_receive_buffer_offset s0) + nat k
                  then bs ! (i - unat (debugger_receive_buffer_offset s0))
                  else debugger_receive_buffer s0 ! i))"
      using 6 by blast
    have c7: "\<forall>e. ev = Recv_error e \<longrightarrow>
            k = - 1 \<and> buf1 = debugger_receive_buffer s0 \<and> errno s1 = e"
      using 7 by blast
    show ?thesis
      unfolding hard_def [symmetric]
      apply (rule conjI, rule impI, erule 2)
      apply (rule conjI, rule impI, erule 3)
      apply (rule conjI, rule impI, erule 4)
      apply (rule conjI, rule impI, erule 5)
      apply (rule conjI, rule c6)
      apply (rule c7)
      done
  qed
  have 8: "jerry_debugger_receive_ws pm evs' d s0 =
            receive_loop pm evs'
              \<lparr>resume_exec = False, expected_message_type = 0, message_data = d\<rparr>
              (s0\<lparr>debugger_message_delay := JERRY_DEBUGGER_MESSAGE_FREQUENCY\<rparr>)"
    if "debugger_flags s0 AND JERRY_DEBUGGER_CONNECTED \<noteq> 0
            \<and> debugger_max_receive_size s0 \<le> 125
            \<and> (case d of
                  Some x \<Rightarrow> debugger_flags s0 AND JERRY_DEBUGGER_RECEIVE_DATA_MODE \<noteq> 0
                | None \<Rightarrow> debugger_flags s0 AND JERRY_DEBUGGER_RECEIVE_DATA_MODE = 0)" for d evs'
    using that by (simp add: jerry_debugger_receive_ws_def)
  have 9: "\<exists>n. 1 \<le> n \<and> n \<le> length evs' \<and> rest = drop n evs'"
    if "jerry_debugger_receive_ws pm evs' d s0 = Inr (b, d', s', rest)" for d evs' b d' s' rest
  proof -
    from that
    have "receive_loop pm evs' \<lparr>resume_exec = False, expected_message_type = 0, message_data = d\<rparr>
            (s0\<lparr>debugger_message_delay := JERRY_DEBUGGER_MESSAGE_FREQUENCY\<rparr>) = Inr (b, d', s', rest)"
      by (simp add: jerry_debugger_receive_ws_def split: if_splits)
    from receive_loop_consumes [OF this] obtain used where u: "evs' = used @ rest" "used \<noteq> []"
      by blast
    then have "1 \<le> length used \<and> length used \<le> length evs' \<and> rest = drop (length used) evs'"
      by (cases used) simp_all
    then show ?thesis by blast
  qed
  have c8: "\<forall>d evs'. debugger_flags s0 AND JERRY_DEBUGGER_CONNECTED \<noteq> 0
            \<and> debugger_max_receive_size s0 \<le> 125
            \<and> (case d of
                  Some x \<Rightarrow> debugger_flags s0 AND JERRY_DEBUGGER_RECEIVE_DATA_MODE \<noteq> 0
                | None \<Rightarrow> debugger_flags s0 AND JERRY_DEBUGGER_RECEIVE_DATA_MODE = 0) \<longrightarrow>
          jerry_debugger_receive_ws pm evs' d s0 =
            receive_loop pm evs'
              \<lparr>resume_exec = False, expected_message_type = 0, message_data = d\<rparr>
              (s0\<lparr>debugger_message_delay := JERRY_DEBUGGER_MESSAGE_FREQUENCY\<rparr>)"
    using 8 by blast
  have c9: "\<forall>d evs' b d' s' rest.
          jerry_debugger_receive_ws pm evs' d s0 = Inr (b, d', s', rest) \<longrightarrow>
          (\<exists>n. 1 \<le> n \<and> n \<le> length evs' \<and> rest = drop n evs')"
    using 9 by blast
  show ?thesis
    apply (rule conjI)
     apply (intro allI impI)
     apply (erule A)
    apply (rule conjI, rule c8)
    apply (rule c9)
    done
qed

theorem receive_ws_one_recv_per_pass_witness:
  "(\<exists>s'. receive_loop pm_continue
            [Recv_bytes (example_frame 0x82), Recv_error EWOULDBLOCK, Recv_error ECONNRESET]
            initial_locals connected_state = Inr (False, None, s', [Recv_error ECONNRESET])
        \<and> debugger_receive_buffer_offset s' = 0)
   \<and> (\<exists>s' n. jerry_debugger_receive_ws pm_continue
            [Recv_bytes (example_frame 0x82), Recv_error EWOULDBLOCK, Recv_error ECONNRESET] None
            connected_state = Inr (False, None, s', [Recv_error ECONNRESET])
        \<and> 1 \<le> n
        \<and> n \<le> length [Recv_bytes (example_frame 0x82), Recv_error EWOULDBLOCK, Recv_error ECONNRESET]
        \<and> [Recv_error ECONNRESET] = drop n
             [Recv_bytes (example_frame 0x82), Recv_error EWOULDBLOCK, Recv_error ECONNRESET])"
proof -
  let ?evs = "[Recv_bytes (example_frame 0x82), Recv_error EWOULDBLOCK, Recv_error ECONNRESET]"
  have conn: "debugger_flags connected_state AND JERRY_DEBUGGER_CONNECTED \<noteq> 0"
    by (simp add: connected_state_def flag_consts)
  have le: "unat (debugger_receive_buffer_offset connected_state) \<le> JERRY_DEBUGGER_MAX_BUFFER_SIZE"
    by (simp add: connected_state_def)
  have o: "9 = unat (debugger_receive_buffer_offset connected_state)
                 + (if (9::int) < 0 then 0 else nat 9)"
    by (simp add: connected_state_def)
  note t = receive_ws_one_recv_per_pass [where pm = pm_continue and l = initial_locals
        and ?s0.0 = connected_state and ev = "Recv_bytes (example_frame 0x82)"
        and evs = "[Recv_error EWOULDBLOCK, Recv_error ECONNRESET]"]
  note pass = t [THEN conjunct1, rule_format, OF conjI [OF conn conjI [OF le
        conjI [OF example_recv [of "0x82"] conjI [OF o refl]]]]]
  have soft: "\<not> ((9::int) < 0 \<and> errno connected_state \<noteq> EWOULDBLOCK)" by simp
  have acc: "frame_accepted (example_frame 0x82 @ replicate 119 0)
                  (debugger_max_receive_size connected_state)"
    by (simp add: frame_accepted_def example_frame_def connected_state_def ws_consts)
  have complete: "frame_size (example_frame 0x82 @ replicate 119 0) + 6 \<le> 9"
    by (simp add: example_frame_size)
  from pass [THEN conjunct2, THEN conjunct2, THEN conjunct2, THEN conjunct1]
    soft acc complete
  have "receive_loop pm_continue ?evs initial_locals connected_state =
      (case pm_continue (frame_size (example_frame 0x82 @ replicate 119 0)) initial_locals
              (connected_state\<lparr>debugger_receive_buffer := example_frame 0x82 @ replicate 119 0,
                 debugger_receive_buffer_offset := of_nat 9,
                 debugger_receive_buffer :=
                   unmask_loop (example_frame 0x82 @ replicate 119 0) 6 2 6
                     (6 + frame_size (example_frame 0x82 @ replicate 119 0))\<rparr>) of
         Inl err \<Rightarrow> Inl err
       | Inr (ok, l', s') \<Rightarrow>
           if ok
           then receive_loop pm_continue [Recv_error EWOULDBLOCK, Recv_error ECONNRESET] l'
                  (s'\<lparr>debugger_receive_buffer :=
                        (if frame_size (example_frame 0x82 @ replicate 119 0) + 6 < 9
                         then memmove (debugger_receive_buffer s') 0
                                (frame_size (example_frame 0x82 @ replicate 119 0) + 6)
                                (9 - (frame_size (example_frame 0x82 @ replicate 119 0) + 6))
                         else debugger_receive_buffer s'),
                      debugger_receive_buffer_offset :=
                        of_nat (9 - (frame_size (example_frame 0x82 @ replicate 119 0) + 6))\<rparr>)
           else Inr (True, message_data l', s', [Recv_error EWOULDBLOCK, Recv_error ECONNRESET]))"
    by blast
  then have A: "\<exists>s'. receive_loop pm_continue ?evs initial_locals connected_state
                  = Inr (False, None, s', [Recv_error ECONNRESET])
        \<and> debugger_receive_buffer_offset s' = 0"
    by (simp add: example_frame_size pm_continue_def initial_locals_def receive_iteration_def
        receive_frame_def receive_recv_def sys_recv_def check_frame_def connected_state_def
        ws_consts Let_def)
  have ev: "\<exists>s'. jerry_debugger_receive_ws pm_continue ?evs None connected_state
                   = Inr (False, None, s', [Recv_error ECONNRESET])"
    by (simp add: eval_defs)
  then obtain s' where s': "jerry_debugger_receive_ws pm_continue ?evs None connected_state
                   = Inr (False, None, s', [Recv_error ECONNRESET])" by blast
  from t [THEN conjunct2, THEN conjunct2] s'
  have "\<exists>n. 1 \<le> n \<and> n \<le> length ?evs \<and> [Recv_error ECONNRESET] = drop n ?evs" by blast
  with s' have B: "\<exists>s' n. jerry_debugger_receive_ws pm_continue ?evs None connected_state
                   = Inr (False, None, s', [Recv_error ECONNRESET])
        \<and> 1 \<le> n \<and> n \<le> length ?evs \<and> [Recv_error ECONNRESET] = drop n ?evs" by blast
  from A B show ?thesis by blast
qed

subsection \<open>The two implementations of receiving\<close>

lemma ucast_u16_u32_small: "k \<le> 128 \<Longrightarrow> (ucast (of_nat k :: u16) :: u32) = of_nat k"
  by (simp add: unsigned_of_nat take_bit_nat_eq_self)

lemma ucast_u16_u32_id: "(of_nat (unat (x :: u16)) :: u32) = ucast x"
  by (simp add: word_eq_iff_unsigned [where ?'a = nat] unat_ucast_u16_u32 unat_of_nat
      take_bit_nat_eq_self) 

lemma check_frames_agree:
  assumes conn: "debugger_flags s AND JERRY_DEBUGGER_CONNECTED \<noteq> 0"
    and max: "debugger_max_receive_size s = 122"
  shows "map_sum id (frame_view data_size) (check_frame offset s) =
           Inr (case check_frame_p1 (debugger_receive_buffer s) data_size offset s of
                  (ok, buf, ds, s') \<Rightarrow> (ok, buf, ds, ucast (debugger_receive_buffer_offset s)))"
  using assms
  by (simp add: check_frame_def check_frame_p1_def close_as_frame_result_def
      jerry_debugger_close_connection_tcp_def jerry_port_log_def close_fd_def
      jerry_debugger_free_unreferenced_byte_code_def frame_view_def ws_consts Let_def)

text \<open>
  C10: in a connected session that holds the maximum receive size that
  \<^verbatim>\<open>jerry_debugger_accept_connection_ws\<close> configures, and for every buffer, offset and
  result of \<^verbatim>\<open>recv\<close>, \<^verbatim>\<open>jerry_debugger_receive_ws\<close> of \<^verbatim>\<open>part_001\<close> and the pass of the
  loop of \<^verbatim>\<open>part_002\<close> up to the message handler agree: they fail on the same inputs,
  accept the same completed frames, and leave the same buffer, with the same unmasked
  payload, the same offset and the same message size.
\<close>

theorem receive_implementations_agree:
  assumes conn: "debugger_flags s AND JERRY_DEBUGGER_CONNECTED \<noteq> 0"
    and max: "debugger_max_receive_size s = ws_max_receive_size JERRY_DEBUGGER_MAX_BUFFER_SIZE"
  shows "map_sum id p1_view
           (jerry_debugger_receive_ws_p1 ev (debugger_receive_buffer s) data_size
              (ucast (debugger_receive_buffer_offset s)) s)
         = map_sum id (frame_view data_size) (receive_frame ev s)"
proof (cases "JERRY_DEBUGGER_MAX_BUFFER_SIZE < unat (debugger_receive_buffer_offset s)")
  case True
  then show ?thesis
    by (simp add: jerry_debugger_receive_ws_p1_def receive_frame_def receive_recv_def
        unat_ucast_u16_u32 Let_def)
next
  case False
  then have le: "unat (debugger_receive_buffer_offset s) \<le> JERRY_DEBUGGER_MAX_BUFFER_SIZE"
    by simp
  have m: "debugger_max_receive_size s = 122"
    using max by (simp add: ws_max_receive_size_128)
  let ?off = "unat (debugger_receive_buffer_offset s)"
  show ?thesis
  proof (cases ev)
    case (Recv_error e)
    show ?thesis
    proof (cases "e = EWOULDBLOCK")
      case True
      let ?s1 = "s\<lparr>errno := EWOULDBLOCK\<rparr>"
      have c1: "debugger_flags ?s1 AND JERRY_DEBUGGER_CONNECTED \<noteq> 0" using conn by simp
      have m1: "debugger_max_receive_size ?s1 = 122" using m by simp
      have rf: "receive_frame ev s = check_frame ?off ?s1"
        using receive_recv_would_block [OF le] Recv_error True by (simp add: receive_frame_def)
      have p1: "jerry_debugger_receive_ws_p1 ev (debugger_receive_buffer s) data_size
                  (ucast (debugger_receive_buffer_offset s)) s
                = (case check_frame_p1 (debugger_receive_buffer s) data_size ?off ?s1 of
                     (ok, buf, ds, s2) \<Rightarrow> Inr (ok, buf, ds, of_nat ?off, s2))"
        using Recv_error True le
        by (simp add: jerry_debugger_receive_ws_p1_def sys_recv_def unat_ucast_u16_u32 Let_def
            split: prod.splits)
      from check_frames_agree [OF c1 m1, of data_size ?off] show ?thesis
        by (simp add: rf p1 p1_view_def ucast_u16_u32_id split: prod.splits)
    next
      case hard: False
      from receive_recv_hard_error [OF conn hard le] Recv_error hard le show ?thesis
        by (simp add: jerry_debugger_receive_ws_p1_def receive_frame_def sys_recv_def
            unat_ucast_u16_u32 p1_view_def frame_view_def closed_state_def Let_def)
    qed
  next
    case (Recv_bytes bs)
    define data where "data = take (JERRY_DEBUGGER_MAX_BUFFER_SIZE - ?off) bs"
    define buf where "buf = take ?off (debugger_receive_buffer s) @ data
                               @ drop (?off + length data) (debugger_receive_buffer s)"
    define k where "k = ?off + length data"
    let ?s1 = "s\<lparr>debugger_receive_buffer := buf, debugger_receive_buffer_offset := of_nat k\<rparr>"
    have k: "k \<le> 128" using le by (simp add: k_def data_def ws_consts)
    have c1: "debugger_flags ?s1 AND JERRY_DEBUGGER_CONNECTED \<noteq> 0" using conn by simp
    have m1: "debugger_max_receive_size ?s1 = 122" using m by simp
    have rf: "receive_frame ev s = check_frame k ?s1"
      using receive_recv_bytes [OF le, of bs] Recv_bytes
      by (simp add: receive_frame_def Let_def data_def buf_def k_def)
    have sr: "sys_recv (Recv_bytes bs) (debugger_receive_buffer s) ?off
                (JERRY_DEBUGGER_MAX_BUFFER_SIZE - ?off) s = (int (length data), buf, s)"
      by (simp add: sys_recv_def Let_def data_def buf_def)
    have p1: "jerry_debugger_receive_ws_p1 ev (debugger_receive_buffer s) data_size
                  (ucast (debugger_receive_buffer_offset s)) s
                = (case check_frame_p1 buf data_size k s of
                     (ok, b', ds, s2) \<Rightarrow> Inr (ok, b', ds, of_nat k, s2))"
      using Recv_bytes le
      by (simp add: jerry_debugger_receive_ws_p1_def sr unat_ucast_u16_u32 Let_def k_def
          split: prod.splits)
    have same: "check_frame_p1 buf data_size k ?s1
                  = (case check_frame_p1 buf data_size k s of
                       (ok, b', ds, s2) \<Rightarrow> (ok, b', ds,
                          s2\<lparr>debugger_receive_buffer := buf,
                             debugger_receive_buffer_offset := of_nat k\<rparr>))"
      by (simp add: check_frame_p1_def jerry_port_log_def Let_def)
    from check_frames_agree [OF c1 m1, of data_size k] show ?thesis
      by (simp add: rf p1 same p1_view_def ucast_u16_u32_small [OF k] split: prod.splits)
  qed
qed


theorem receive_implementations_agree_witness:
  "map_sum id p1_view
     (jerry_debugger_receive_ws_p1 (Recv_error EWOULDBLOCK)
        (debugger_receive_buffer (frame_state 0x82)) 0
        (ucast (debugger_receive_buffer_offset (frame_state 0x82))) (frame_state 0x82))
     = Inr (True, [0x82, 0x83, 0x10, 0x20, 0x30, 0x40, 6, 0, 0] @ replicate 119 0, 3, 9)
   \<and> map_sum id (frame_view 0) (receive_frame (Recv_error EWOULDBLOCK) (frame_state 0x82))
     = Inr (True, [0x82, 0x83, 0x10, 0x20, 0x30, 0x40, 6, 0, 0] @ replicate 119 0, 3, 9)"
proof -
  have c: "debugger_flags (frame_state 0x82) AND JERRY_DEBUGGER_CONNECTED \<noteq> 0"
    by (simp add: frame_state_def connected_state_def flag_consts)
  have m: "debugger_max_receive_size (frame_state 0x82)
             = ws_max_receive_size JERRY_DEBUGGER_MAX_BUFFER_SIZE"
    by (simp add: frame_state_def connected_state_def ws_max_receive_size_128)
  have r: "map_sum id (frame_view 0) (receive_frame (Recv_error EWOULDBLOCK) (frame_state 0x82))
     = Inr (True, [0x82, 0x83, 0x10, 0x20, 0x30, 0x40, 6, 0, 0] @ replicate 119 0, 3, 9)"
    by (simp add: eval_defs frame_view_def)
  from receive_implementations_agree [OF c m, of "Recv_error EWOULDBLOCK" 0] r
  show ?thesis by simp
qed

subsection \<open>The handshake\<close>

lemma send_tcp_True:
  assumes "jerry_debugger_send_tcp data s = Inr (True, s')"
  shows "\<exists>e sc. s' = s\<lparr>errno := e, send_script := sc, wire := wire s @ data\<rparr>"
proof -
  from assms have "send_tcp_loop (send_script s) data s = Inr (True, s')"
    by (simp add: jerry_debugger_send_tcp_def split: if_splits)
  from send_tcp_loop_True [OF this] show ?thesis .
qed

lemma handshake_read_Some:
  "handshake_read evs request s = Inr (Some request', s1, evs') \<Longrightarrow> s1 = s"
proof (induction evs arbitrary: request)
  case Nil
  then show ?case by (simp split: if_splits)
next
  case (Cons ev evs)
  show ?case
  proof (cases ev)
    case (Recv_error e)
    with Cons.prems show ?thesis
      by (simp add: sys_recv_def Let_def split: if_splits)
  next
    case (Recv_bytes bs)
    show ?thesis
    proof (cases "handshake_read evs (request @ take (1024 - 1 - length request) bs) s
                    = Inr (Some request', s1, evs')")
      case True
      from Cons.IH [OF this] show ?thesis .
    next
      case False
      with Cons.prems Recv_bytes show ?thesis
        by (simp add: sys_recv_def Let_def split: if_splits)
    qed
  qed
qed

lemma process_handshake_True:
  assumes "jerry_process_handshake evs s = Inr (True, s', evs')"
  shows "\<exists>request p e sc.
           handshake_read evs [] s = Inr (Some request, s, evs')
         \<and> find_websocket_key request (length (bytes_of_string ''GET /jerry-debugger'')) = Some p
         \<and> s' = s\<lparr>errno := e, send_script := sc,
                   wire := wire s @ handshake_response_text
                     @ take 27 (jerry_to_base64
                         (take 20 (jerry_debugger_compute_sha1
                            (take (skip_key request (skip_spaces request p) - skip_spaces request p)
                               (drop (skip_spaces request p) request))
                            websocket_guid) @ [0]))
                     @ handshake_response_end\<rparr>"
proof -
  from assms obtain request s1 where hr: "handshake_read evs [] s = Inr (Some request, s1, evs')"
    by (auto simp: jerry_process_handshake_def Let_def
        split: sum.splits option.splits if_splits prod.splits bool.splits)
  from handshake_read_Some [OF hr] have s1: "s1 = s" .
  from assms hr s1 obtain p where p: "find_websocket_key request
      (length (bytes_of_string ''GET /jerry-debugger'')) = Some p"
    by (auto simp: jerry_process_handshake_def Let_def
        split: sum.splits option.splits if_splits prod.splits bool.splits)
  define b64 where "b64 = take 27 (jerry_to_base64
                         (take 20 (jerry_debugger_compute_sha1
                            (take (skip_key request (skip_spaces request p) - skip_spaces request p)
                               (drop (skip_spaces request p) request))
                            websocket_guid) @ [0]))"
  from assms hr s1 p obtain s2 s3 where
    a: "jerry_debugger_send_tcp handshake_response_text s = Inr (True, s2)"
    and b: "jerry_debugger_send_tcp b64 s2 = Inr (True, s3)"
    and c: "jerry_debugger_send_tcp handshake_response_end s3 = Inr (True, s')"
    by (auto simp: jerry_process_handshake_def Let_def b64_def
        split: sum.splits option.splits if_splits prod.splits bool.splits)
  from send_tcp_True [OF a] send_tcp_True [OF b] send_tcp_True [OF c]
  obtain e sc where "s' = s\<lparr>errno := e, send_script := sc,
       wire := wire s @ handshake_response_text @ b64 @ handshake_response_end\<rparr>"
    by auto
  with hr s1 p show ?thesis unfolding b64_def by blast
qed

subsection \<open>Base64\<close>

lemma not_bit_u8: "8 \<le> n \<Longrightarrow> bit (b::u8) n = False"
  by (auto dest: bit_imp_le_length)

lemma all_less_numeral_step:
  "(\<forall>k<numeral n. P k) = (P (pred_numeral n) \<and> (\<forall>k<pred_numeral n. P k))"
  by (metis less_Suc_eq numeral_eq_Suc)

lemma base64_characters:
  "\<forall>k<64. jerry_to_base64_character (of_nat k) = base64_alphabet ! k"
  by (simp add: all_less_numeral_step jerry_to_base64_character_def base64_alphabet_def
                bytes_of_string_def)

lemma jerry_to_base64_character_alphabet:
  assumes "v < 64"
  shows "jerry_to_base64_character v = base64_alphabet ! unat v"
proof -
  from assms have "unat v < 64" by (simp add: word_less_nat_alt)
  with base64_characters
  have "jerry_to_base64_character (of_nat (unat v)) = base64_alphabet ! unat v"
    by blast
  then show ?thesis by simp
qed

lemma sextet0: "(ucast (drop_bit 2 (ucast (a::u8) :: u32)) :: u8)
                 = ucast (drop_bit 18 (base64_group a b c) AND 63)"
  by (auto simp: u8_eq_iff bit_simps base64_group_def not_bit_u8)

lemma sextet1: "(ucast ((push_bit 4 (ucast (a::u8) :: u32) OR drop_bit 4 (ucast (b::u8) :: u32)) AND 0x3f) :: u8)
                 = ucast (drop_bit 12 (base64_group a b c) AND 63)"
  by (auto simp: u8_eq_iff bit_simps base64_group_def not_bit_u8)

lemma sextet2: "(ucast ((push_bit 2 (ucast (b::u8) :: u32) OR drop_bit 6 (ucast (c::u8) :: u32)) AND 0x3f) :: u8)
                 = ucast (drop_bit 6 (base64_group a b c) AND 63)"
  by (auto simp: u8_eq_iff bit_simps base64_group_def not_bit_u8)

lemma sextet3: "(ucast ((ucast (c::u8) :: u32) AND 0x3f) :: u8)
                 = ucast (base64_group a b c AND 63)"
  by (auto simp: u8_eq_iff bit_simps base64_group_def not_bit_u8)

lemma and_63_less: "(ucast ((x::u32) AND 63) :: u8) < 64"
proof -
  have "unat (x AND 63) \<le> unat (63 :: u32)"
    by (rule word_and_le1 [THEN word_le_nat_alt [THEN iffD1]])
  then have "unat (x AND 63) < 64" by simp
  then have "unat (ucast (x AND 63) :: u8) < 64"
    by (simp add: unsigned_ucast_eq take_bit_nat_eq_self)
  then show ?thesis by (simp add: word_less_nat_alt)
qed

lemma unat_ucast_and_63: "unat (ucast ((x::u32) AND 63) :: u8) = unat (x AND 63)"
proof -
  have "unat (x AND 63) \<le> unat (63 :: u32)"
    by (rule word_and_le1 [THEN word_le_nat_alt [THEN iffD1]])
  then show ?thesis by (simp add: unsigned_ucast_eq take_bit_nat_eq_self)
qed

lemma jerry_to_base64_reference: "jerry_to_base64 source = base64_reference source"
proof (induction source rule: jerry_to_base64.induct)
  case (1 s0 s1 s2 source_p)
  have d: "jerry_to_base64_character (ucast (drop_bit k (base64_group s0 s1 s2) AND 63))
             = base64_alphabet ! unat (drop_bit k (base64_group s0 s1 s2) AND 63)" for k
    using jerry_to_base64_character_alphabet [OF and_63_less]
    by (simp add: unat_ucast_and_63)
  have d0: "jerry_to_base64_character (ucast (base64_group s0 s1 s2 AND 63))
             = base64_alphabet ! unat (base64_group s0 s1 s2 AND 63)"
    using d [of 0] by simp
  show ?case
    by (simp only: jerry_to_base64.simps base64_reference.simps "1.IH"
        sextet0 [of s0 s1 s2] sextet1 [of s0 s1 s2] sextet2 [of s1 s2 s0] sextet3 [of s2 s0 s1]
        d d0 base64_digit_def)
       simp
qed simp_all


lemma length_sha1: "length (sha1 m) = 20"
proof -
  obtain a b c d e where
    "sha1_blocks (be32 (sha1_pad m))
       (0x67452301, 0xEFCDAB89, 0x98BADCFE, 0x10325476, 0xC3D2E1F0) = (a, b, c, d, e)"
    by (metis prod_cases5)
  then show ?thesis by (simp add: sha1_def bytes_of_word_def)
qed

lemma length_jerry_to_base64: "length (jerry_to_base64 source) = 4 * (length source div 3)"
proof (induction source rule: jerry_to_base64.induct)
  case (1 s0 s1 s2 source_p)
  have "(3 + length source_p) div 3 = 1 + length source_p div 3" by arith
  with 1 show ?case by simp
qed simp_all

lemma take_27_accept:
  assumes "length b = 28"
  shows "take 27 b @ [x] = b[27 := x]"
  using assms by (simp add: upd_conv_take_nth_drop)

lemma accept_value_length:
  "length (jerry_to_base64 (take 20 (sha1 m) @ [0])) = 28"
  by (simp add: length_jerry_to_base64 length_sha1)


subsection \<open>Accepting a client\<close>

lemma take_7_update:
  assumes "7 \<le> length xs"
  shows "take 7 (xs[2 := a, 3 := b, 4 := c, 5 := d, 6 := e, 0 := f, Suc 0 := g])
           = [f, g, a, b, c, d, e]"
proof -
  from assms obtain x0 x1 x2 x3 x4 x5 x6 rest where "xs = x0 # x1 # x2 # x3 # x4 # x5 # x6 # rest"
    by (cases xs; simp; cases "tl xs"; simp; cases "tl (tl xs)"; simp; cases "tl (tl (tl xs))"; simp;
        cases "tl (tl (tl (tl xs)))"; simp; cases "tl (tl (tl (tl (tl xs))))"; simp;
        cases "tl (tl (tl (tl (tl (tl xs)))))"; simp)
  then show ?thesis by simp
qed

lemma send_configuration_True:
  assumes cfg: "jerry_debugger_send_configuration h m s = Inr (True, s')"
    and p: "debugger_send_buffer_payload_p s = 2"
  shows "\<exists>e sc buf. s' = s\<lparr>debugger_send_buffer := buf, errno := e, send_script := sc,
           wire := wire s @ [0x82, 5, JERRY_DEBUGGER_CONFIGURATION, m, sizeof_cpointer h,
                             (if little_endian h then 1 else 0), JERRY_DEBUGGER_VERSION]\<rparr>"
proof -
  define buf where "buf = (debugger_send_buffer s)
       [2 := JERRY_DEBUGGER_CONFIGURATION, 3 := m, 4 := sizeof_cpointer h,
        5 := (if little_endian h then 1 else 0), 6 := JERRY_DEBUGGER_VERSION,
        0 := 0x82, Suc 0 := 5]"
  from cfg p have len: "7 \<le> length (debugger_send_buffer s)"
    by (auto simp: jerry_debugger_send_configuration_def jerry_debugger_send_ws_def ws_consts
        Let_def split: if_splits)
  from cfg p len
  have "jerry_debugger_send_tcp (take 7 buf) (s\<lparr>debugger_send_buffer := buf\<rparr>) = Inr (True, s')"
    by (auto simp: jerry_debugger_send_configuration_def jerry_debugger_send_ws_def ws_consts
        Let_def buf_def split: if_splits)
  from send_tcp_True [OF this] obtain e sc where
    "s' = s\<lparr>debugger_send_buffer := buf, errno := e, send_script := sc,
            wire := wire s @ take 7 buf\<rparr>" by auto
  moreover have "take 7 buf = [0x82, 5, JERRY_DEBUGGER_CONFIGURATION, m, sizeof_cpointer h,
                             (if little_endian h then 1 else 0), JERRY_DEBUGGER_VERSION]"
    unfolding buf_def by (rule take_7_update [OF len])
  ultimately show ?thesis by auto
qed

lemma flags_connected_vm_stop:
  "((f::u32) OR JERRY_DEBUGGER_CONNECTED OR JERRY_DEBUGGER_VM_STOP) AND JERRY_DEBUGGER_CONNECTED \<noteq> 0"
  "((f::u32) OR JERRY_DEBUGGER_CONNECTED OR JERRY_DEBUGGER_VM_STOP) AND JERRY_DEBUGGER_VM_STOP \<noteq> 0"
  by (auto simp: flag_consts bit_eq_iff bit_simps intro: exI [of _ 0] exI [of _ 2])


lemma handshake_response_end_split:
  "handshake_response_end
     = [of_nat (of_char CHR ''='')] @ bytes_of_string [CHR 0x0D, CHR 0x0A, CHR 0x0D, CHR 0x0A]"
  by (simp add: handshake_response_end_def bytes_of_string_def)

lemma process_handshake_wire:
  assumes "jerry_process_handshake evs s = Inr (True, s', evs')"
  shows "\<exists>request p key accept_value e sc.
           handshake_read evs [] s = Inr (Some request, s, evs')
         \<and> find_websocket_key request (length (bytes_of_string ''GET /jerry-debugger'')) = Some p
         \<and> key = take (skip_key request (skip_spaces request p) - skip_spaces request p)
                    (drop (skip_spaces request p) request)
         \<and> accept_value = (base64_reference (sha1 (key @ websocket_guid) @ [0]))
                            [27 := of_nat (of_char CHR ''='')]
         \<and> length accept_value = 28
         \<and> s' = s\<lparr>errno := e, send_script := sc,
                   wire := wire s @ handshake_response_text @ accept_value
                     @ bytes_of_string [CHR 0x0D, CHR 0x0A, CHR 0x0D, CHR 0x0A]\<rparr>"
proof -
  from process_handshake_True [OF assms] obtain request p e sc where
    hr: "handshake_read evs [] s = Inr (Some request, s, evs')"
    and fk: "find_websocket_key request (length (bytes_of_string ''GET /jerry-debugger'')) = Some p"
    and s': "s' = s\<lparr>errno := e, send_script := sc,
                   wire := wire s @ handshake_response_text
                     @ take 27 (jerry_to_base64
                         (take 20 (jerry_debugger_compute_sha1
                            (take (skip_key request (skip_spaces request p) - skip_spaces request p)
                               (drop (skip_spaces request p) request))
                            websocket_guid) @ [0]))
                     @ handshake_response_end\<rparr>"
    by blast
  define key where "key = take (skip_key request (skip_spaces request p) - skip_spaces request p)
                    (drop (skip_spaces request p) request)"
  define b64 where "b64 = jerry_to_base64 (sha1 (key @ websocket_guid) @ [0])"
  have l: "length b64 = 28"
    using accept_value_length [of "key @ websocket_guid"] by (simp add: b64_def length_sha1)
  have b: "b64 = base64_reference (sha1 (key @ websocket_guid) @ [0])"
    by (simp add: b64_def jerry_to_base64_reference)
  have "take 27 b64 @ handshake_response_end
          = b64[27 := of_nat (of_char CHR ''='')]
              @ bytes_of_string [CHR 0x0D, CHR 0x0A, CHR 0x0D, CHR 0x0A]"
    using take_27_accept [OF l, of "of_nat (of_char CHR ''='')"]
    by (simp only: handshake_response_end_split append_assoc [symmetric])
  with s' have "s' = s\<lparr>errno := e, send_script := sc,
                   wire := wire s @ handshake_response_text
                     @ b64[27 := of_nat (of_char CHR ''='')]
                     @ bytes_of_string [CHR 0x0D, CHR 0x0A, CHR 0x0D, CHR 0x0A]\<rparr>"
    by (simp add: jerry_debugger_compute_sha1_def length_sha1 key_def b64_def)
  with hr fk l b show ?thesis
    unfolding key_def by (intro exI conjI) (auto simp: b [symmetric])
qed


lemma accept_connection_True:
  assumes "jerry_debugger_accept_connection_ws h env evs s = Inr (True, s', evs')"
  shows "\<exists>accept_value.
           length accept_value = 28
         \<and> debugger_flags s' = debugger_flags s OR JERRY_DEBUGGER_CONNECTED OR JERRY_DEBUGGER_VM_STOP
         \<and> wire s' = wire s @ handshake_response_text @ accept_value
              @ bytes_of_string [CHR 0x0D, CHR 0x0A, CHR 0x0D, CHR 0x0A]
              @ [0x82, 5, JERRY_DEBUGGER_CONFIGURATION,
                 ws_max_receive_size JERRY_DEBUGGER_MAX_BUFFER_SIZE, sizeof_cpointer h,
                 (if little_endian h then 1 else 0), JERRY_DEBUGGER_VERSION]"
proof -
  define s_a where "s_a = JERRY_DEBUGGER_SET_FLAGS JERRY_DEBUGGER_CONNECTED
      (close_fd (socket_result env)
        ((jerry_port_log JERRY_LOG_LEVEL_DEBUG (Text ''Waiting for client connection\<newline>'')
            (accept_set_sizes s))\<lparr>fd := accept_result env\<rparr>))"
  from assms obtain s_h s_c where
    hs: "jerry_process_handshake evs s_a = Inr (True, s_h, evs')"
    and cf: "jerry_debugger_send_configuration h
               (ws_max_receive_size JERRY_DEBUGGER_MAX_BUFFER_SIZE) s_h = Inr (True, s_c)"
    and fin: "s' = (JERRY_DEBUGGER_SET_FLAGS JERRY_DEBUGGER_VM_STOP
                (jerry_port_log JERRY_LOG_LEVEL_DEBUG
                   (Text (''Connected from: '' @ peer_address env @ ''\<newline>'')) s_c))
               \<lparr>debugger_stop_context := None\<rparr>"
    unfolding jerry_debugger_accept_connection_ws_def s_a_def
    by (auto simp: Let_def close_as_result_def log_errno_def
        split: if_splits sum.splits prod.splits)
  from process_handshake_wire [OF hs] obtain accept_value e sc where
    l: "length accept_value = 28"
    and s_h: "s_h = s_a\<lparr>errno := e, send_script := sc,
                   wire := wire s_a @ handshake_response_text @ accept_value
                     @ bytes_of_string [CHR 0x0D, CHR 0x0A, CHR 0x0D, CHR 0x0A]\<rparr>"
    by blast
  have p: "debugger_send_buffer_payload_p s_h = 2"
    by (simp add: s_h s_a_def JERRY_DEBUGGER_SET_FLAGS_def close_fd_def jerry_port_log_def
        accept_set_sizes_def ws_consts)
  from send_configuration_True [OF cf p] obtain e' sc' buf where
    s_c: "s_c = s_h\<lparr>debugger_send_buffer := buf, errno := e', send_script := sc',
           wire := wire s_h @ [0x82, 5, JERRY_DEBUGGER_CONFIGURATION,
                             ws_max_receive_size JERRY_DEBUGGER_MAX_BUFFER_SIZE, sizeof_cpointer h,
                             (if little_endian h then 1 else 0), JERRY_DEBUGGER_VERSION]\<rparr>"
    by blast
  have f: "debugger_flags s' = debugger_flags s OR JERRY_DEBUGGER_CONNECTED OR JERRY_DEBUGGER_VM_STOP"
    by (simp add: fin s_c s_h s_a_def JERRY_DEBUGGER_SET_FLAGS_def close_fd_def jerry_port_log_def
        accept_set_sizes_def or.assoc)
  have w: "wire s' = wire s @ handshake_response_text @ accept_value
              @ bytes_of_string [CHR 0x0D, CHR 0x0A, CHR 0x0D, CHR 0x0A]
              @ [0x82, 5, JERRY_DEBUGGER_CONFIGURATION,
                 ws_max_receive_size JERRY_DEBUGGER_MAX_BUFFER_SIZE, sizeof_cpointer h,
                 (if little_endian h then 1 else 0), JERRY_DEBUGGER_VERSION]"
    by (simp add: fin s_c s_h s_a_def JERRY_DEBUGGER_SET_FLAGS_def close_fd_def jerry_port_log_def
        accept_set_sizes_def)
  from l f w show ?thesis by blast
qed

subsection \<open>SHA-1 of the sample key\<close>

text \<open>
  The digest of the key of RFC 6455 followed by the GUID, computed by rewriting. The
  lemmas that unfold a round keep every intermediate word below \<open>2 ^ 32\<close>.
\<close>

lemma mask32: "(x::u32) AND 0xFFFFFFFF = x"
proof -
  have "(0xFFFFFFFF :: u32) = - 1" by simp
  then have "x AND 0xFFFFFFFF = x AND - 1" by (simp only:)
  then show ?thesis by simp
qed

lemma rotl32_eval: "rotl32 n x = (push_bit n x OR drop_bit (32 - n) x) AND 0xFFFFFFFF"
  by (simp only: rotl32_def mask32)

lemma sha1_round_eval:
  "sha1_round t w (a, b, c, d, e) =
     ((rotl32 5 a + sha1_f t b c d + e + sha1_k t + w) AND 0xFFFFFFFF, a, rotl32 30 b, c, d)"
  by (simp only: sha1_round.simps mask32)

lemma sha1_add_eval:
  "sha1_add (a, b, c, d, e) (a', b', c', d', e') =
     ((a + a') AND 0xFFFFFFFF, (b + b') AND 0xFFFFFFFF, (c + c') AND 0xFFFFFFFF,
      (d + d') AND 0xFFFFFFFF, (e + e') AND 0xFFFFFFFF)"
  by (simp only: sha1_add.simps mask32)

lemma replicate_59: "replicate 59 (0::u8) = [0, 0, 0, 0, 0, 0, 0, 0, 0, 0, 0, 0, 0, 0, 0, 0, 0, 0, 0, 0, 0, 0, 0, 0, 0, 0, 0, 0, 0, 0, 0, 0, 0, 0, 0, 0, 0, 0, 0, 0, 0, 0, 0, 0, 0, 0, 0, 0, 0, 0, 0, 0, 0, 0, 0, 0, 0, 0, 0]"
  by (simp add: eval_nat_numeral)

lemma sample_pad: "sha1_pad [100, 71, 104, 108, 73, 72, 78, 104, 98, 88, 66, 115, 90, 83, 66, 117, 98, 50, 53, 106, 90, 81, 61, 61, 50, 53, 56, 69, 65, 70, 65, 53, 45, 69, 57, 49, 52, 45, 52, 55, 68, 65, 45, 57, 53, 67, 65, 45, 67, 53, 65, 66, 48, 68, 67, 56, 53, 66, 49, 49] =
  [100, 71, 104, 108, 73, 72, 78, 104, 98, 88, 66, 115, 90, 83, 66, 117, 98, 50, 53, 106, 90, 81, 61, 61, 50, 53, 56, 69, 65, 70, 65, 53, 45, 69, 57, 49, 52, 45, 52, 55, 68, 65, 45, 57, 53, 67, 65, 45, 67, 53, 65, 66, 48, 68, 67, 56, 53, 66, 49, 49, 128, 0, 0, 0, 0, 0, 0, 0, 0, 0, 0, 0, 0, 0, 0, 0, 0, 0, 0, 0, 0, 0, 0, 0, 0, 0, 0, 0, 0, 0, 0, 0, 0, 0, 0, 0, 0, 0, 0, 0, 0, 0, 0, 0, 0, 0, 0, 0, 0, 0, 0, 0, 0, 0, 0, 0, 0, 0, 0, 0, 0, 0, 0, 0, 0, 0, 1, 224]"
  by (simp add: sha1_pad_def bytes_of_word_def replicate_59)

lemma sample_words: "be32 (sha1_pad [100, 71, 104, 108, 73, 72, 78, 104, 98, 88, 66, 115, 90, 83, 66, 117, 98, 50, 53, 106, 90, 81, 61, 61, 50, 53, 56, 69, 65, 70, 65, 53, 45, 69, 57, 49, 52, 45, 52, 55, 68, 65, 45, 57, 53, 67, 65, 45, 67, 53, 65, 66, 48, 68, 67, 56, 53, 66, 49, 49]) =
  [1682401388, 1229475432, 1649951347, 1515405941, 1647457642, 1515273533, 842348613, 1095123253, 759511345, 875377719, 1145122105, 893600045, 1127563586, 809780024, 893530417, 2147483648, 0, 0, 0, 0, 0, 0, 0, 0, 0, 0, 0, 0, 0, 0, 0, 480]"
  by (simp add: sample_pad)

lemma sample_block1: "sha1_block [1682401388, 1229475432, 1649951347, 1515405941, 1647457642, 1515273533, 842348613, 1095123253, 759511345, 875377719, 1145122105, 893600045, 1127563586, 809780024, 893530417, 2147483648]
  (1732584193, 4023233417, 2562383102, 271733878, 3285377520) =
  (1540323111, 1931952490, 3195796473, 1517820024, 1581688034)"
  by (simp add: sha1_block_def sha1_schedule.simps rotl32_eval sha1_round_eval sha1_add_eval sha1_f_def sha1_k_def del: sha1_round.simps sha1_add.simps)

lemma sample_block2: "sha1_block [0, 0, 0, 0, 0, 0, 0, 0, 0, 0, 0, 0, 0, 0, 0, 480]
  (1540323111, 1931952490, 3195796473, 1517820024, 1581688034) =
  (3011137324, 3227668246, 2432058886, 3476576581, 2998846698)"
  by (simp add: sha1_block_def sha1_schedule.simps rotl32_eval sha1_round_eval sha1_add_eval sha1_f_def sha1_k_def del: sha1_round.simps sha1_add.simps)

lemma sample_sha1: "sha1 [100, 71, 104, 108, 73, 72, 78, 104, 98, 88, 66, 115, 90, 83, 66, 117, 98, 50, 53, 106, 90, 81, 61, 61, 50, 53, 56, 69, 65, 70, 65, 53, 45, 69, 57, 49, 52, 45, 52, 55, 68, 65, 45, 57, 53, 67, 65, 45, 67, 53, 65, 66, 48, 68, 67, 56, 53, 66, 49, 49] =
  [179, 122, 79, 44, 192, 98, 79, 22, 144, 246, 70, 6, 207, 56, 89, 69, 178, 190, 196, 234]"
  by (simp add: sha1_def sample_words sha1_blocks.simps sample_block1 sample_block2 bytes_of_word_def)


subsection \<open>The sample handshake\<close>

lemmas handshake_eval =
  jerry_process_handshake_def handshake_read.simps sys_recv_def find_websocket_key.simps
  skip_spaces.simps skip_key.simps c_at_def jerry_debugger_compute_sha1_def
  jerry_debugger_send_tcp_def jerry_to_base64_character_def
  handshake_response_text_def handshake_response_end_def websocket_guid_def
  sample_request_head_def sample_request_tail_def bytes_of_string_def
  initial_state_def connected_state_def flag_consts Let_def

lemma sample_handshake:
  "jerry_process_handshake [Recv_bytes sample_request_head, Recv_bytes sample_request_tail]
     (initial_state\<lparr>debugger_flags := JERRY_DEBUGGER_CONNECTED\<rparr>)
   = Inr (True,
       initial_state\<lparr>debugger_flags := JERRY_DEBUGGER_CONNECTED,
                     send_script := [Send_bytes 1024],
                     wire := handshake_response_text
                       @ bytes_of_string ''s3pPLMBiTxaQ9kYGzzhZRbK+xOo=''
                       @ bytes_of_string [CHR 0x0D, CHR 0x0A, CHR 0x0D, CHR 0x0A]\<rparr>,
       [])"
  by (simp add: handshake_eval sample_sha1)

lemmas accept_eval =
  jerry_debugger_accept_connection_ws_def accept_set_sizes_def ws_max_send_size_def
  ws_max_receive_size_def sample_env_def sample_host_def log_errno_def close_as_result_def
  JERRY_DEBUGGER_SET_FLAGS_def close_fd_def jerry_port_log_def
  jerry_debugger_send_configuration_def jerry_debugger_send_ws_def
  JERRY_DEBUGGER_CONFIGURATION_def JERRY_DEBUGGER_VERSION_def ws_consts

lemma sample_accept:
  "\<exists>s'. jerry_debugger_accept_connection_ws sample_host sample_env
          [Recv_bytes sample_request_head, Recv_bytes sample_request_tail] initial_state
        = Inr (True, s', [])
      \<and> debugger_flags s' = JERRY_DEBUGGER_CONNECTED OR JERRY_DEBUGGER_VM_STOP
      \<and> wire s' = handshake_response_text
                     @ bytes_of_string ''s3pPLMBiTxaQ9kYGzzhZRbK+xOo=''
                     @ bytes_of_string [CHR 0x0D, CHR 0x0A, CHR 0x0D, CHR 0x0A]
                     @ [0x82, 5, 1, 122, 2, 1, 2]"
  by (simp add: accept_eval handshake_eval sample_sha1 take_7_update)

text \<open>
  C4: the value of \<^verbatim>\<open>Sec-WebSocket-Accept\<close> that a successful
  \<^verbatim>\<open>jerry_process_handshake\<close> emits is the Base64 encoding of the 21 bytes made of
  the SHA-1 digest of the key followed by the GUID and of one zero byte, with its 28th
  character replaced by \<^verbatim>\<open>=\<close>. For the key \<^verbatim>\<open>dGhlIHNhbXBsZSBub25jZQ==\<close> the
  emitted value is \<^verbatim>\<open>s3pPLMBiTxaQ9kYGzzhZRbK+xOo=\<close>.
\<close>

theorem handshake_accept_value:
  "(\<forall>evs s s' evs'.
      jerry_process_handshake evs s = Inr (True, s', evs') \<longrightarrow>
      (\<exists>request p key accept_value.
           handshake_read evs [] s = Inr (Some request, s, evs')
         \<and> find_websocket_key request (length (bytes_of_string ''GET /jerry-debugger'')) = Some p
         \<and> key = take (skip_key request (skip_spaces request p) - skip_spaces request p)
                    (drop (skip_spaces request p) request)
         \<and> length (sha1 (key @ websocket_guid) @ [0]) = 21
         \<and> accept_value = (base64_reference (sha1 (key @ websocket_guid) @ [0]))
                            [27 := of_nat (of_char CHR ''='')]
         \<and> length accept_value = 28
         \<and> wire s' = wire s @ handshake_response_text @ accept_value
                     @ bytes_of_string [CHR 0x0D, CHR 0x0A, CHR 0x0D, CHR 0x0A]))
   \<and> jerry_process_handshake
        [Recv_bytes sample_request_head,
         Recv_bytes (bytes_of_string ''Sec-WebSocket-Key: dGhlIHNhbXBsZSBub25jZQ==''
                     @ bytes_of_string [CHR 0x0D, CHR 0x0A, CHR 0x0D, CHR 0x0A])]
        (initial_state\<lparr>debugger_flags := JERRY_DEBUGGER_CONNECTED\<rparr>)
      = Inr (True,
          initial_state\<lparr>debugger_flags := JERRY_DEBUGGER_CONNECTED,
                        send_script := [Send_bytes 1024],
                        wire := handshake_response_text
                          @ bytes_of_string ''s3pPLMBiTxaQ9kYGzzhZRbK+xOo=''
                          @ bytes_of_string [CHR 0x0D, CHR 0x0A, CHR 0x0D, CHR 0x0A]\<rparr>,
          [])"
proof -
  have g: "\<exists>request p key accept_value.
           handshake_read evs [] s = Inr (Some request, s, evs')
         \<and> find_websocket_key request (length (bytes_of_string ''GET /jerry-debugger'')) = Some p
         \<and> key = take (skip_key request (skip_spaces request p) - skip_spaces request p)
                    (drop (skip_spaces request p) request)
         \<and> length (sha1 (key @ websocket_guid) @ [0]) = 21
         \<and> accept_value = (base64_reference (sha1 (key @ websocket_guid) @ [0]))
                            [27 := of_nat (of_char CHR ''='')]
         \<and> length accept_value = 28
         \<and> wire s' = wire s @ handshake_response_text @ accept_value
                     @ bytes_of_string [CHR 0x0D, CHR 0x0A, CHR 0x0D, CHR 0x0A]"
    if "jerry_process_handshake evs s = Inr (True, s', evs')" for evs s s' evs'
  proof -
    from process_handshake_wire [OF that] obtain request p key accept_value e sc where
      "handshake_read evs [] s = Inr (Some request, s, evs')"
      "find_websocket_key request (length (bytes_of_string ''GET /jerry-debugger'')) = Some p"
      "key = take (skip_key request (skip_spaces request p) - skip_spaces request p)
                    (drop (skip_spaces request p) request)"
      "accept_value = (base64_reference (sha1 (key @ websocket_guid) @ [0]))
                            [27 := of_nat (of_char CHR ''='')]"
      "length accept_value = 28"
      "s' = s\<lparr>errno := e, send_script := sc,
                   wire := wire s @ handshake_response_text @ accept_value
                     @ bytes_of_string [CHR 0x0D, CHR 0x0A, CHR 0x0D, CHR 0x0A]\<rparr>"
      by blast
    moreover have "length (sha1 (key @ websocket_guid) @ [0]) = 21" by (simp add: length_sha1)
    ultimately show ?thesis by (intro exI conjI) auto
  qed
  have "sample_request_tail = bytes_of_string ''Sec-WebSocket-Key: dGhlIHNhbXBsZSBub25jZQ==''
                     @ bytes_of_string [CHR 0x0D, CHR 0x0A, CHR 0x0D, CHR 0x0A]"
    by (simp add: sample_request_tail_def bytes_of_string_def)
  with sample_handshake g show ?thesis by simp
qed

theorem handshake_accept_value_witness:
  "\<exists>request p key accept_value.
       handshake_read [Recv_bytes sample_request_head, Recv_bytes sample_request_tail] []
         (initial_state\<lparr>debugger_flags := JERRY_DEBUGGER_CONNECTED\<rparr>)
         = Inr (Some request, initial_state\<lparr>debugger_flags := JERRY_DEBUGGER_CONNECTED\<rparr>, [])
     \<and> find_websocket_key request (length (bytes_of_string ''GET /jerry-debugger'')) = Some p
     \<and> key = take (skip_key request (skip_spaces request p) - skip_spaces request p)
                (drop (skip_spaces request p) request)
     \<and> length (sha1 (key @ websocket_guid) @ [0]) = 21
     \<and> accept_value = (base64_reference (sha1 (key @ websocket_guid) @ [0]))
                        [27 := of_nat (of_char CHR ''='')]
     \<and> length accept_value = 28
     \<and> handshake_response_text @ bytes_of_string ''s3pPLMBiTxaQ9kYGzzhZRbK+xOo=''
           @ bytes_of_string [CHR 0x0D, CHR 0x0A, CHR 0x0D, CHR 0x0A]
         = handshake_response_text @ accept_value
           @ bytes_of_string [CHR 0x0D, CHR 0x0A, CHR 0x0D, CHR 0x0A]"
proof -
  from handshake_accept_value [THEN conjunct1, rule_format, OF sample_handshake]
  show ?thesis by (simp add: initial_state_def connected_state_def)
qed

text \<open>
  C1: after \<^verbatim>\<open>jerry_debugger_accept_connection_ws\<close> has succeeded, the flags
  \<^verbatim>\<open>JERRY_DEBUGGER_CONNECTED\<close> and \<^verbatim>\<open>JERRY_DEBUGGER_VM_STOP\<close> are set, and what has gone
  out is the HTTP 101 response followed by one WebSocket frame, the configuration
  message: type 1, the maximum size of an incoming message, the size of a compressed
  pointer, the endianness flag, and the version 2.
\<close>

theorem accept_connection_success:
  assumes "jerry_debugger_accept_connection_ws h env evs s = Inr (True, s', evs')"
  shows "debugger_flags s' AND JERRY_DEBUGGER_CONNECTED \<noteq> 0
     \<and> debugger_flags s' AND JERRY_DEBUGGER_VM_STOP \<noteq> 0
     \<and> (\<exists>accept_value.
           length accept_value = 28
         \<and> wire s' = wire s @ handshake_response_text @ accept_value
              @ bytes_of_string [CHR 0x0D, CHR 0x0A, CHR 0x0D, CHR 0x0A]
              @ [0x82, 5, 1, ws_max_receive_size JERRY_DEBUGGER_MAX_BUFFER_SIZE, sizeof_cpointer h,
                 (if little_endian h then 1 else 0), 2])
     \<and> JERRY_DEBUGGER_CONFIGURATION = 1 \<and> JERRY_DEBUGGER_VERSION = 2
     \<and> ws_max_receive_size JERRY_DEBUGGER_MAX_BUFFER_SIZE = 122"
proof -
  from accept_connection_True [OF assms] obtain accept_value where
    "length accept_value = 28"
    and f: "debugger_flags s' = debugger_flags s OR JERRY_DEBUGGER_CONNECTED OR JERRY_DEBUGGER_VM_STOP"
    and "wire s' = wire s @ handshake_response_text @ accept_value
              @ bytes_of_string [CHR 0x0D, CHR 0x0A, CHR 0x0D, CHR 0x0A]
              @ [0x82, 5, JERRY_DEBUGGER_CONFIGURATION,
                 ws_max_receive_size JERRY_DEBUGGER_MAX_BUFFER_SIZE, sizeof_cpointer h,
                 (if little_endian h then 1 else 0), JERRY_DEBUGGER_VERSION]"
    by blast
  then have "\<exists>accept_value.
           length accept_value = 28
         \<and> wire s' = wire s @ handshake_response_text @ accept_value
              @ bytes_of_string [CHR 0x0D, CHR 0x0A, CHR 0x0D, CHR 0x0A]
              @ [0x82, 5, 1, ws_max_receive_size JERRY_DEBUGGER_MAX_BUFFER_SIZE, sizeof_cpointer h,
                 (if little_endian h then 1 else 0), 2]"
    by (auto simp: JERRY_DEBUGGER_CONFIGURATION_def JERRY_DEBUGGER_VERSION_def)
  with f flags_connected_vm_stop [of "debugger_flags s"] ws_max_receive_size_128 show ?thesis
    by (simp add: JERRY_DEBUGGER_CONFIGURATION_def JERRY_DEBUGGER_VERSION_def)
qed

theorem accept_connection_success_witness:
  "\<exists>s'. jerry_debugger_accept_connection_ws sample_host sample_env
          [Recv_bytes sample_request_head, Recv_bytes sample_request_tail] initial_state
        = Inr (True, s', [])
      \<and> debugger_flags s' AND JERRY_DEBUGGER_CONNECTED \<noteq> 0
      \<and> debugger_flags s' AND JERRY_DEBUGGER_VM_STOP \<noteq> 0
      \<and> wire s' = handshake_response_text
                     @ bytes_of_string ''s3pPLMBiTxaQ9kYGzzhZRbK+xOo=''
                     @ bytes_of_string [CHR 0x0D, CHR 0x0A, CHR 0x0D, CHR 0x0A]
                     @ [0x82, 5, 1, 122, 2, 1, 2]"
proof -
  from sample_accept obtain s' where
    a: "jerry_debugger_accept_connection_ws sample_host sample_env
          [Recv_bytes sample_request_head, Recv_bytes sample_request_tail] initial_state
        = Inr (True, s', [])"
    and w: "wire s' = handshake_response_text
                     @ bytes_of_string ''s3pPLMBiTxaQ9kYGzzhZRbK+xOo=''
                     @ bytes_of_string [CHR 0x0D, CHR 0x0A, CHR 0x0D, CHR 0x0A]
                     @ [0x82, 5, 1, 122, 2, 1, 2]"
    by blast
  from accept_connection_success [OF a] a w show ?thesis by blast
qed

end
